theory Spec2Isabelle
  imports Complex_Main "HOL-Library.Sublist" "HOL-Library.Word"
begin

section \<open>Conventions of the embedding\<close>

text \<open>
  The theory embeds \<^verbatim>\<open>src/pretraining/modeling_roberta.py\<close>, the forward computation of a
  RoBERTa-style encoder for masked-language-model pretraining.

  \<^item> Tensor entries are real numbers: sums, products and square roots are exact. Rounding,
    infinities and NaN of the floating-point runtime are outside the model (a division by
    zero is 0 in HOL where the runtime gives \<open>inf\<close> or \<open>nan\<close>). Python floats outside
    tensors are real numbers too, but for the quotient of two integers in the constructor
    of the attention block: it is rounded as Python rounds it, since its overflow is an
    error of the constructor.
  \<^item> A tensor is a nested list, the last axis innermost: a vector is \<open>real list\<close>, a tensor of
    shape (batch, seq, hidden) is \<open>real list list list\<close>. Operations that act along the last
    axis only are defined on one row and lifted with \<open>map\<close>.
  \<^item> Every exception the source raises, and every exception of Python or of the tensor
    runtime that the modelled lines can hit through a value (an index out of range, a
    missing attribute or key, a division by zero, a tuple where a tensor is needed, the size
    list of \<^verbatim>\<open>torch.split\<close>), is a value \<open>Inl e\<close> of the result type \<open>error + 'a\<close>;
    \<open>NotATensor\<close> stands for the error (a \<^verbatim>\<open>TypeError\<close>, an \<^verbatim>\<open>AttributeError\<close> or the
    script runtime's) of an operation that is handed a tuple or \<^verbatim>\<open>None\<close> where it needs a
    tensor, \<open>Exception\<close> for the plain \<^verbatim>\<open>Exception\<close> of \<^verbatim>\<open>get_layer_norm_type\<close>. The shape
    checks of the arithmetic primitives (\<^verbatim>\<open>F.linear\<close>, \<^verbatim>\<open>matmul\<close>, elementwise \<open>+\<close>) are
    not modelled: on operands of mismatched length they follow \<open>zip\<close>. A nested list with
    an axis of size zero does not record the sizes of the axes inside it; the theorems
    that depend on a shape state it.
  \<^item> Primitives of the runtime that have no definition in the source and are not plain
    arithmetic (\<^verbatim>\<open>F.gelu\<close>, \<^verbatim>\<open>nn.Dropout\<close>, \<^verbatim>\<open>CrossEntropyLoss\<close>, the DeepSpeed
    transformer kernel) are parameters, collected in the record \<open>torch\<close> or carried by the
    module that owns them. Dropout is a function of the tensor it is applied to: it stands
    for the mask drawn on this pass and is the identity in evaluation mode.
  \<^item> A module is a record of its attributes and parameters; its \<^verbatim>\<open>forward\<close> is a function
    of that record.
\<close>

datatype error =
  ValueError | KeyError | AttributeError | IndexError
  | ZeroDivisionError | OverflowError | RuntimeError | Exception | NotATensor

definition bindE :: "error + 'a \<Rightarrow> ('a \<Rightarrow> error + 'b) \<Rightarrow> error + 'b" where
  "bindE r f = (case r of Inl e \<Rightarrow> Inl e | Inr x \<Rightarrow> f x)"

text \<open>Running a fallible function over the rows of a tensor stops at the first error.\<close>

fun mapE :: "('a \<Rightarrow> error + 'b) \<Rightarrow> 'a list \<Rightarrow> error + 'b list" where
  "mapE f [] = Inr []"
| "mapE f (x # xs) =
     (case f x of
        Inl e \<Rightarrow> Inl e
      | Inr y \<Rightarrow> (case mapE f xs of Inl e \<Rightarrow> Inl e | Inr ys \<Rightarrow> Inr (y # ys)))"

type_synonym vec = "real list"
type_synonym mat = "real list list"
type_synonym tensor3 = "real list list list"
type_synonym tensor4 = "real list list list list"

section \<open>The tensor runtime\<close>

text \<open>
  What the program takes from the runtime without defining it: the GELU function, the
  masks of dropout (on tensors of rank 3 and 4), the cross-entropy loss (with its
  \<^verbatim>\<open>ignore_index\<close>), and the values a newly constructed parameter is filled with.
\<close>

record torch =
  F_gelu :: "real \<Rightarrow> real"
  Dropout3 :: "real \<Rightarrow> tensor3 \<Rightarrow> tensor3"
  Dropout4 :: "real \<Rightarrow> tensor4 \<Rightarrow> tensor4"
  CrossEntropyLoss :: "int \<Rightarrow> mat \<Rightarrow> 64 word list \<Rightarrow> real"
  fresh_matrix :: "nat \<Rightarrow> nat \<Rightarrow> mat"
  fresh_vector :: "nat \<Rightarrow> vec"

definition dot :: "vec \<Rightarrow> vec \<Rightarrow> real" where
  "dot x w = sum_list (map2 (*) x w)"

text \<open>
  \<^verbatim>\<open>F.linear(inp, weight, bias)\<close> on one row: \<open>inp W\<^sup>T + bias\<close>, the weight of shape
  (out, in).
\<close>

definition F_linear :: "vec \<Rightarrow> mat \<Rightarrow> vec option \<Rightarrow> vec" where
  "F_linear inp W b =
     (case b of None \<Rightarrow> map (dot inp) W | Some bs \<Rightarrow> map2 (+) (map (dot inp) W) bs)"

text \<open>\<^verbatim>\<open>torch.matmul\<close> of two matrices, and \<^verbatim>\<open>torch.bmm\<close> over a batch of them.\<close>

definition matmul :: "mat \<Rightarrow> mat \<Rightarrow> mat" where
  "matmul A B = map (\<lambda>row. map (dot row) (transpose B)) A"

definition bmm :: "tensor3 \<Rightarrow> tensor3 \<Rightarrow> tensor3" where
  "bmm A B = map2 matmul A B"

definition add3 :: "tensor3 \<Rightarrow> tensor3 \<Rightarrow> tensor3" where
  "add3 X Y = map2 (map2 (map2 (+))) X Y"

text \<open>
  Elementwise addition that broadcasts its second operand along every axis where that
  operand has size one (the attention bias of shape (batch, 1, 1, seq) added to scores of
  shape (batch, heads, seq, seq)).
\<close>

definition bmap2 :: "('a \<Rightarrow> 'b \<Rightarrow> 'a) \<Rightarrow> 'a list \<Rightarrow> 'b list \<Rightarrow> 'a list" where
  "bmap2 f xs ys = (case ys of [y] \<Rightarrow> map (\<lambda>x. f x y) xs | _ \<Rightarrow> map2 f xs ys)"

definition add4_broadcast :: "tensor4 \<Rightarrow> tensor4 \<Rightarrow> tensor4" where
  "add4_broadcast X M = bmap2 (bmap2 (bmap2 (bmap2 (+)))) X M"

definition softmax :: "vec \<Rightarrow> vec" where
  "softmax row = map (\<lambda>v. exp v / sum_list (map exp row)) row"

subsection \<open>Activations\<close>

definition F_relu :: "real \<Rightarrow> real" where
  "F_relu x = max 0 x"

definition swish :: "real \<Rightarrow> real" where
  "swish x = x * (1 / (1 + exp (- x)))"

definition ACT2FN :: "torch \<Rightarrow> string \<Rightarrow> (real \<Rightarrow> real) option" where
  "ACT2FN rt name =
     (if name = ''gelu'' then Some (F_gelu rt)
      else if name = ''relu'' then Some F_relu
      else if name = ''swish'' then Some swish
      else if name = ''tanh'' then Some tanh
      else None)"

definition bias_gelu :: "torch \<Rightarrow> vec \<Rightarrow> vec \<Rightarrow> vec" where
  "bias_gelu rt b y = map (F_gelu rt) (map2 (+) b y)"

definition bias_relu :: "vec \<Rightarrow> vec \<Rightarrow> vec" where
  "bias_relu b y = map F_relu (map2 (+) b y)"

definition bias_tanh :: "vec \<Rightarrow> vec \<Rightarrow> vec" where
  "bias_tanh b y = map tanh (map2 (+) b y)"

subsection \<open>Linear modules\<close>

record Linear =
  lin_weight :: mat
  lin_bias :: "vec option"

definition nn_Linear :: "torch \<Rightarrow> nat \<Rightarrow> nat \<Rightarrow> Linear" where
  "nn_Linear rt in_features out_features =
     \<lparr>lin_weight = fresh_matrix rt out_features in_features,
      lin_bias = Some (fresh_vector rt out_features)\<rparr>"

definition Linear_forward :: "Linear \<Rightarrow> vec \<Rightarrow> vec" where
  "Linear_forward m inp = F_linear inp (lin_weight m) (lin_bias m)"

text \<open>
  \<^verbatim>\<open>LinearActivation\<close>: \<open>la_act_fn\<close> is \<open>None\<close> when the attribute \<^verbatim>\<open>act_fn\<close> was never
  assigned, which is the case for the fused variants.
\<close>

record LinearActivation =
  la_fused_gelu :: bool
  la_fused_tanh :: bool
  la_fused_relu :: bool
  la_act_fn :: "(real \<Rightarrow> real) option"
  la_weight :: mat
  la_bias :: "vec option"

definition LinearActivation_init ::
  "torch \<Rightarrow> nat \<Rightarrow> nat \<Rightarrow> string \<Rightarrow> bool \<Rightarrow> error + LinearActivation" where
  "LinearActivation_init rt in_features out_features act use_bias =
     bindE
       (if use_bias \<and> act = ''gelu'' then Inr (True, False, False, None)
        else if use_bias \<and> act = ''tanh'' then Inr (False, True, False, None)
        else if use_bias \<and> act = ''relu'' then Inr (False, False, True, None)
        else (case ACT2FN rt act of
                None \<Rightarrow> Inl KeyError
              | Some f \<Rightarrow> Inr (False, False, False, Some f)))
       (\<lambda>(g, t, r, f).
          Inr \<lparr>la_fused_gelu = g, la_fused_tanh = t, la_fused_relu = r, la_act_fn = f,
               la_weight = fresh_matrix rt out_features in_features,
               la_bias = (if use_bias then Some (fresh_vector rt out_features) else None)\<rparr>)"

definition LinearActivation_forward :: "torch \<Rightarrow> LinearActivation \<Rightarrow> vec \<Rightarrow> error + vec" where
  "LinearActivation_forward rt m inp =
     (if la_fused_gelu m then
        (case la_bias m of
           None \<Rightarrow> Inl NotATensor
         | Some b \<Rightarrow> Inr (bias_gelu rt b (F_linear inp (la_weight m) None)))
      else if la_fused_tanh m then
        (case la_bias m of
           None \<Rightarrow> Inl NotATensor
         | Some b \<Rightarrow> Inr (bias_tanh b (F_linear inp (la_weight m) None)))
      else if la_fused_relu m then
        (case la_bias m of
           None \<Rightarrow> Inl NotATensor
         | Some b \<Rightarrow> Inr (bias_relu b (F_linear inp (la_weight m) None)))
      else
        (case la_act_fn m of
           None \<Rightarrow> Inl AttributeError
         | Some f \<Rightarrow> Inr (map f (F_linear inp (la_weight m) (la_bias m)))))"

record RegularLinearActivation =
  rla_dense :: Linear
  rla_act :: "(real \<Rightarrow> real) option"

definition RegularLinearActivation_init ::
  "torch \<Rightarrow> nat \<Rightarrow> nat \<Rightarrow> string \<Rightarrow> error + RegularLinearActivation" where
  "RegularLinearActivation_init rt in_features out_features act =
     (case ACT2FN rt act of
        None \<Rightarrow> Inl KeyError
      | Some f \<Rightarrow> Inr \<lparr>rla_dense = nn_Linear rt in_features out_features, rla_act = Some f\<rparr>)"

definition RegularLinearActivation_forward ::
  "RegularLinearActivation \<Rightarrow> vec \<Rightarrow> error + vec" where
  "RegularLinearActivation_forward m hidden_states =
     (case rla_act m of
        None \<Rightarrow> Inl AttributeError
      | Some f \<Rightarrow> Inr (map f (Linear_forward (rla_dense m) hidden_states)))"

text \<open>The module chosen by \<^verbatim>\<open>config.fused_linear_layer\<close>.\<close>

datatype linear_layer =
  FusedLinear LinearActivation | RegularLinear RegularLinearActivation

definition linear_layer_forward :: "torch \<Rightarrow> linear_layer \<Rightarrow> vec \<Rightarrow> error + vec" where
  "linear_layer_forward rt m x =
     (case m of
        FusedLinear la \<Rightarrow> LinearActivation_forward rt la x
      | RegularLinear rla \<Rightarrow> RegularLinearActivation_forward rla x)"

definition linear_layer_init ::
  "torch \<Rightarrow> bool \<Rightarrow> nat \<Rightarrow> nat \<Rightarrow> string \<Rightarrow> error + linear_layer" where
  "linear_layer_init rt fused in_features out_features act =
     (if fused
      then bindE (LinearActivation_init rt in_features out_features act True)
             (\<lambda>m. Inr (FusedLinear m))
      else bindE (RegularLinearActivation_init rt in_features out_features act)
             (\<lambda>m. Inr (RegularLinear m)))"

subsection \<open>Dropout modules\<close>

text \<open>
  \<^verbatim>\<open>nn.Dropout(p)\<close>: the constructor of the runtime raises \<^verbatim>\<open>ValueError\<close> for a
  probability below 0 or above 1. The module is represented by its probability.
\<close>

definition nn_Dropout :: "real \<Rightarrow> error + real" where
  "nn_Dropout p = (if p < 0 \<or> 1 < p then Inl ValueError else Inr p)"

section \<open>Normalization primitives\<close>

subsection \<open>RMSNorm\<close>

record RMSNorm =
  rms_eps :: real
  rms_d :: nat
  rms_p :: real
  rms_bias :: bool
  rms_scale :: vec
  rms_offset :: vec

text \<open>\<^verbatim>\<open>x.norm(2, dim=-1, keepdim=True)\<close> on one row.\<close>

definition norm2 :: "vec \<Rightarrow> real" where
  "norm2 x = sqrt (sum_list (map (\<lambda>v. v * v) x))"

text \<open>Python's \<^verbatim>\<open>int(.)\<close> of a float truncates towards zero.\<close>

definition py_int :: "real \<Rightarrow> int" where
  "py_int r = (if 0 \<le> r then \<lfloor>r\<rfloor> else \<lceil>r\<rceil>)"

text \<open>
  \<^verbatim>\<open>torch.split(x, [a, b], dim=-1)\<close>: the sizes must add up to the size of the axis, else
  the runtime raises.
\<close>

definition torch_split :: "vec \<Rightarrow> int \<Rightarrow> int \<Rightarrow> error + (vec \<times> vec)" where
  "torch_split x a b =
     (if a < 0 \<or> b < 0 \<or> a + b \<noteq> int (length x) then Inl RuntimeError
      else Inr (take (nat a) x, drop (nat a) x))"

text \<open>
  \<^verbatim>\<open>d_x ** (-1.0 / 2)\<close> for the Python integer \<open>d_x\<close>: zero to a negative power raises
  \<^verbatim>\<open>ZeroDivisionError\<close>.
\<close>

definition pow_neg_half :: "int \<Rightarrow> error + real" where
  "pow_neg_half d_x =
     (if d_x = 0 then Inl ZeroDivisionError else Inr (real_of_int d_x powr (- 1 / 2)))"

text \<open>\<^verbatim>\<open>RMSNorm.forward\<close> on one row of the last axis.\<close>

definition RMSNorm_forward :: "RMSNorm \<Rightarrow> vec \<Rightarrow> error + vec" where
  "RMSNorm_forward m x =
     bindE
       (if rms_p m < 0 \<or> rms_p m > 1 then Inr (norm2 x, int (rms_d m))
        else
          (let partial_size = py_int (real (rms_d m) * rms_p m) in
           bindE (torch_split x partial_size (int (rms_d m) - partial_size))
             (\<lambda>(partial_x, rest). Inr (norm2 partial_x, partial_size))))
       (\<lambda>(norm_x, d_x).
          bindE (pow_neg_half d_x)
            (\<lambda>pw.
               let rms_x = norm_x * pw;
                   x_normed = map (\<lambda>v. v / (rms_x + rms_eps m)) x
               in if rms_bias m
                  then Inr (map2 (+) (map2 (*) (rms_scale m) x_normed) (rms_offset m))
                  else Inr (map2 (*) (rms_scale m) x_normed)))"

text \<open>
  The specification's formula, in its own words: \<open>y = scale * x / (rms(x) + eps)\<close>,
  optionally \<open>+ offset\<close>, with the root mean square taken over the entire last axis.
\<close>

definition rms_full_axis :: "vec \<Rightarrow> real" where
  "rms_full_axis x = sqrt (sum_list (map (\<lambda>v. v * v) x) / real (length x))"

definition RMSNorm_spec_full_axis :: "RMSNorm \<Rightarrow> vec \<Rightarrow> vec" where
  "RMSNorm_spec_full_axis m x =
     (let y = map2 (*) (rms_scale m) (map (\<lambda>v. v / (rms_full_axis x + rms_eps m)) x)
      in if rms_bias m then map2 (+) y (rms_offset m) else y)"

subsection \<open>LayerNorm of the runtime\<close>

record LayerNorm =
  ln_eps :: real
  ln_weight :: vec
  ln_bias :: vec

text \<open>
  \<^verbatim>\<open>nn.LayerNorm\<close> on one row: mean and (biased) variance over the last axis, \<open>eps\<close> added to
  the variance before the square root, then the learned scale and shift.
\<close>

definition LayerNorm_forward :: "LayerNorm \<Rightarrow> vec \<Rightarrow> vec" where
  "LayerNorm_forward m x =
     (let n = real (length x);
          mean = sum_list x / n;
          var = sum_list (map (\<lambda>v. (v - mean) * (v - mean)) x) / n
      in map2 (+) (map2 (*) (map (\<lambda>v. (v - mean) / sqrt (var + ln_eps m)) x) (ln_weight m))
           (ln_bias m))"

section \<open>Configuration\<close>

text \<open>
  The named fields of the configuration object. \<open>optional_attrs\<close> holds the boolean
  attributes a configuration may or may not carry, by attribute name: \<^verbatim>\<open>hasattr\<close> asks
  whether the name is there, reading an absent one raises \<^verbatim>\<open>AttributeError\<close>. Sizes and
  counts are natural numbers.
\<close>

record RobertaConfig =
  vocab_size :: nat
  hidden_size :: nat
  num_hidden_layers :: nat
  num_attention_heads :: nat
  intermediate_size :: nat
  max_position_embeddings :: nat
  type_vocab_size :: nat
  hidden_dropout_prob :: real
  attention_probs_dropout_prob :: real
  hidden_act :: string
  layer_norm_type :: string
  layer_norm_eps :: real
  useLN :: bool
  encoder_ln_mode :: string
  fused_linear_layer :: bool
  sparse_mask_prediction :: bool
  Ngram_size :: nat
  num_hidden_Ngram_layers :: nat
  optional_attrs :: "string \<rightharpoonup> bool"

definition hasattr :: "RobertaConfig \<Rightarrow> string \<Rightarrow> bool" where
  "hasattr config name = (optional_attrs config name \<noteq> None)"

definition getattr :: "RobertaConfig \<Rightarrow> string \<Rightarrow> error + bool" where
  "getattr config name =
     (case optional_attrs config name of None \<Rightarrow> Inl AttributeError | Some v \<Rightarrow> Inr v)"

text \<open>
  Python's \<^verbatim>\<open>a in b\<close> on strings: \<open>a\<close> occurs in \<open>b\<close> as a contiguous substring. The source
  tests \<^verbatim>\<open>config.encoder_ln_mode in "pre-ln"\<close>, the configured mode on the left.
\<close>

definition str_in :: "string \<Rightarrow> string \<Rightarrow> bool" where
  "str_in a b = sublist a b"

subsection \<open>The normalization chosen by the configuration\<close>

datatype layer_norm_class = nn_LayerNorm | RMSNorm_class

definition LAYER_NORM_TYPES :: "string \<rightharpoonup> layer_norm_class" where
  "LAYER_NORM_TYPES =
     [''pytorch'' \<mapsto> nn_LayerNorm, ''apex'' \<mapsto> nn_LayerNorm, ''rms_norm'' \<mapsto> RMSNorm_class]"

definition get_layer_norm_type :: "RobertaConfig \<Rightarrow> error + layer_norm_class" where
  "get_layer_norm_type config =
     (case LAYER_NORM_TYPES (layer_norm_type config) of
        Some c \<Rightarrow> Inr c
      | None \<Rightarrow> Inl Exception)"

datatype norm_module = TorchLayerNorm LayerNorm | RMSNormModule RMSNorm

text \<open>
  \<^verbatim>\<open>RobertaLayerNorm(dim, eps=eps)\<close> for the class returned by \<open>get_layer_norm_type\<close>:
  \<^verbatim>\<open>nn.LayerNorm\<close> starts with unit scale and zero shift, \<^verbatim>\<open>RMSNorm\<close> with its defaults
  \<open>p = -1.0\<close> and no offset.
\<close>

definition new_layer_norm :: "layer_norm_class \<Rightarrow> nat \<Rightarrow> real \<Rightarrow> norm_module" where
  "new_layer_norm c d eps =
     (case c of
        nn_LayerNorm \<Rightarrow>
          TorchLayerNorm \<lparr>ln_eps = eps, ln_weight = replicate d 1, ln_bias = replicate d 0\<rparr>
      | RMSNorm_class \<Rightarrow>
          RMSNormModule \<lparr>rms_eps = eps, rms_d = d, rms_p = - 1, rms_bias = False,
                         rms_scale = replicate d 1, rms_offset = []\<rparr>)"

definition norm_forward :: "norm_module \<Rightarrow> vec \<Rightarrow> error + vec" where
  "norm_forward m x =
     (case m of
        TorchLayerNorm l \<Rightarrow> Inr (LayerNorm_forward l x)
      | RMSNormModule r \<Rightarrow> RMSNorm_forward r x)"

definition norm_forward3 :: "norm_module \<Rightarrow> tensor3 \<Rightarrow> error + tensor3" where
  "norm_forward3 m X = mapE (mapE (norm_forward m)) X"

section \<open>Embedding composer\<close>

record Embedding =
  emb_weight :: mat

definition nn_Embedding :: "torch \<Rightarrow> nat \<Rightarrow> nat \<Rightarrow> Embedding" where
  "nn_Embedding rt num_embeddings embedding_dim =
     \<lparr>emb_weight = fresh_matrix rt num_embeddings embedding_dim\<rparr>"

text \<open>An embedding lookup; an id outside the table raises \<^verbatim>\<open>IndexError\<close>.\<close>

definition embedding_row :: "Embedding \<Rightarrow> int \<Rightarrow> error + vec" where
  "embedding_row m i =
     (if 0 \<le> i \<and> i < int (length (emb_weight m)) then Inr (emb_weight m ! nat i)
      else Inl IndexError)"

definition Embedding_forward :: "Embedding \<Rightarrow> int list list \<Rightarrow> error + tensor3" where
  "Embedding_forward m ids = mapE (mapE (embedding_row m)) ids"

text \<open>\<^verbatim>\<open>input_ids.size(1)\<close>, \<^verbatim>\<open>torch.zeros_like\<close> and \<^verbatim>\<open>torch.ones_like\<close> on (batch, seq) ids.\<close>

definition size1 :: "int list list \<Rightarrow> nat" where
  "size1 ids = (case ids of [] \<Rightarrow> 0 | row # rest \<Rightarrow> length row)"

definition zeros_like :: "int list list \<Rightarrow> int list list" where
  "zeros_like ids = map (map (\<lambda>i. 0)) ids"

definition ones_like :: "int list list \<Rightarrow> int list list" where
  "ones_like ids = map (map (\<lambda>i. 1)) ids"

text \<open>
  \<open>emb_LayerNorm\<close> is \<open>None\<close> when the attribute \<^verbatim>\<open>LayerNorm\<close> was not created.
\<close>

record RobertaEmbeddings =
  word_embeddings :: Embedding
  position_embeddings :: Embedding
  token_type_embeddings :: Embedding
  layernorm_embedding :: bool
  emb_LayerNorm :: "norm_module option"
  emb_dropout :: real

definition RobertaEmbeddings_init :: "torch \<Rightarrow> RobertaConfig \<Rightarrow> error + RobertaEmbeddings" where
  "RobertaEmbeddings_init rt config =
     bindE
       (if hasattr config ''config.layernorm_embedding''
        then getattr config ''layernorm_embedding''
        else Inr False)
       (\<lambda>flag.
          bindE
            (if flag
             then bindE (get_layer_norm_type config)
                    (\<lambda>c. Inr (Some (new_layer_norm c (hidden_size config) (1 / 10 ^ 12))))
             else Inr None)
            (\<lambda>nm.
               bindE (nn_Dropout (hidden_dropout_prob config))
                 (\<lambda>dropout.
                    Inr \<lparr>word_embeddings =
                           nn_Embedding rt (vocab_size config) (hidden_size config),
                         position_embeddings =
                           nn_Embedding rt (max_position_embeddings config) (hidden_size config),
                         token_type_embeddings =
                           nn_Embedding rt (type_vocab_size config) (hidden_size config),
                         layernorm_embedding = flag,
                         emb_LayerNorm = nm,
                         emb_dropout = dropout\<rparr>)))"

definition RobertaEmbeddings_forward ::
  "torch \<Rightarrow> RobertaEmbeddings \<Rightarrow> int list list \<Rightarrow> int list list option \<Rightarrow> error + tensor3" where
  "RobertaEmbeddings_forward rt m input_ids token_type_ids_opt =
     (let seq_length = size1 input_ids;
          position_ids = map (\<lambda>row. map int [0..<seq_length]) input_ids;
          token_type_ids =
            (case token_type_ids_opt of None \<Rightarrow> zeros_like input_ids | Some t \<Rightarrow> t)
      in bindE (Embedding_forward (word_embeddings m) input_ids)
           (\<lambda>words_embeddings.
      bindE (Embedding_forward (position_embeddings m) position_ids)
           (\<lambda>position_embeddings'.
      bindE (Embedding_forward (token_type_embeddings m) token_type_ids)
           (\<lambda>token_type_embeddings'.
      let embeddings = add3 (add3 words_embeddings position_embeddings') token_type_embeddings'
      in bindE
           (if layernorm_embedding m
            then (case emb_LayerNorm m of
                    None \<Rightarrow> Inl AttributeError
                  | Some nm \<Rightarrow> norm_forward3 nm embeddings)
            else Inr embeddings)
           (\<lambda>embeddings. Inr (Dropout3 rt (emb_dropout m) embeddings))))))"

text \<open>The N-gram composer: token and segment lookups only, always normalized.\<close>

record RobertaNgramEmbeddings =
  ng_word_embeddings :: Embedding
  ng_token_type_embeddings :: Embedding
  ng_LayerNorm :: LayerNorm
  ng_dropout :: real

definition RobertaNgramEmbeddings_forward ::
  "torch \<Rightarrow> RobertaNgramEmbeddings \<Rightarrow> int list list \<Rightarrow> int list list option
     \<Rightarrow> error + tensor3" where
  "RobertaNgramEmbeddings_forward rt m input_ids token_type_ids_opt =
     (let token_type_ids =
            (case token_type_ids_opt of None \<Rightarrow> zeros_like input_ids | Some t \<Rightarrow> t)
      in bindE (Embedding_forward (ng_word_embeddings m) input_ids)
           (\<lambda>words_embeddings.
      bindE (Embedding_forward (ng_token_type_embeddings m) token_type_ids)
           (\<lambda>token_type_embeddings'.
      let embeddings = add3 words_embeddings token_type_embeddings';
          embeddings = map (map (LayerNorm_forward (ng_LayerNorm m))) embeddings
      in Inr (Dropout3 rt (ng_dropout m) embeddings))))"

section \<open>Attention block\<close>

record RobertaSelfAttention =
  sa_num_attention_heads :: nat
  attention_head_size :: nat
  all_head_size :: nat
  sa_query :: Linear
  sa_key :: Linear
  sa_value :: Linear
  sa_dropout :: real

text \<open>
  Python's \<open>a / b\<close> on integers is a float: the quotient rounded to the nearest number
  with a 53-bit significand (a tie to the even one; the exponent not below that of the
  subnormal numbers), \<^verbatim>\<open>OverflowError\<close> when the rounded quotient does not fit the format,
  \<^verbatim>\<open>ZeroDivisionError\<close> for a zero divisor.
\<close>

definition round_half_even :: "real \<Rightarrow> int" where
  "round_half_even x =
     (let f = \<lfloor>x\<rfloor>
      in if x - of_int f < 1 / 2 then f
         else if 1 / 2 < x - of_int f then f + 1
         else if even f then f else f + 1)"

definition binary64 :: "real \<Rightarrow> error + real" where
  "binary64 x =
     (if x = 0 then Inr 0
      else
        (let e = max (\<lfloor>log 2 \<bar>x\<bar>\<rfloor> - 52) (- 1074);
             y = of_int (round_half_even (x / 2 powi e)) * 2 powi e
         in if 2 ^ 1024 \<le> \<bar>y\<bar> then Inl OverflowError else Inr y))"

definition int_truediv :: "int \<Rightarrow> int \<Rightarrow> error + real" where
  "int_truediv a b =
     (if b = 0 then Inl ZeroDivisionError else binary64 (of_int a / of_int b))"

text \<open>
  \<^verbatim>\<open>RobertaSelfAttention.__init__\<close>. \<^verbatim>\<open>hidden_size % num_attention_heads\<close> raises
  \<^verbatim>\<open>ZeroDivisionError\<close> for zero heads; the head size is \<^verbatim>\<open>int(hidden_size /
  num_attention_heads)\<close>, the float quotient truncated. The three projections are built
  before the dropout module, whose constructor checks the probability. That the runtime
  finds the memory for the parameters of \<^verbatim>\<open>nn.Linear\<close> is taken for granted.
\<close>

definition RobertaSelfAttention_init ::
  "torch \<Rightarrow> RobertaConfig \<Rightarrow> error + RobertaSelfAttention" where
  "RobertaSelfAttention_init rt config =
     (if num_attention_heads config = 0 then Inl ZeroDivisionError
      else if hidden_size config mod num_attention_heads config \<noteq> 0 then Inl ValueError
      else
        bindE (int_truediv (int (hidden_size config)) (int (num_attention_heads config)))
          (\<lambda>quotient.
             let heads = num_attention_heads config;
                 head_size = nat (py_int quotient);
                 all_heads = heads * head_size;
                 query = nn_Linear rt (hidden_size config) all_heads;
                 key = nn_Linear rt (hidden_size config) all_heads;
                 val = nn_Linear rt (hidden_size config) all_heads
             in bindE (nn_Dropout (attention_probs_dropout_prob config))
                  (\<lambda>dropout.
                     Inr \<lparr>sa_num_attention_heads = heads,
                          attention_head_size = head_size,
                          all_head_size = all_heads,
                          sa_query = query,
                          sa_key = key,
                          sa_value = val,
                          sa_dropout = dropout\<rparr>)))"

text \<open>
  \<^verbatim>\<open>transpose_for_scores\<close>: (batch, seq, heads * size) viewed as (batch, seq, heads, size)
  and permuted to (batch, heads, seq, size); \<^verbatim>\<open>transpose_key_for_scores\<close> permutes to
  (batch, heads, size, seq).
\<close>

definition transpose_for_scores :: "RobertaSelfAttention \<Rightarrow> tensor3 \<Rightarrow> tensor4" where
  "transpose_for_scores m x =
     map (\<lambda>X. map (\<lambda>h. map (\<lambda>row. take (attention_head_size m)
                                    (drop (h * attention_head_size m) row)) X)
                [0..<sa_num_attention_heads m]) x"

definition transpose_key_for_scores :: "RobertaSelfAttention \<Rightarrow> tensor3 \<Rightarrow> tensor4" where
  "transpose_key_for_scores m x = map (map transpose) (transpose_for_scores m x)"

definition RobertaSelfAttention_forward ::
  "torch \<Rightarrow> RobertaSelfAttention \<Rightarrow> tensor3 \<Rightarrow> tensor4 \<Rightarrow> tensor3 \<times> tensor4" where
  "RobertaSelfAttention_forward rt m hidden_states attention_mask =
     (let mixed_query_layer = map (map (Linear_forward (sa_query m))) hidden_states;
          mixed_key_layer = map (map (Linear_forward (sa_key m))) hidden_states;
          mixed_value_layer = map (map (Linear_forward (sa_value m))) hidden_states;
          query_layer = transpose_for_scores m mixed_query_layer;
          key_layer = transpose_key_for_scores m mixed_key_layer;
          value_layer = transpose_for_scores m mixed_value_layer;
          attention_scores = map2 (map2 matmul) query_layer key_layer;
          attention_scores =
            map (map (map (map (\<lambda>v. v / sqrt (real (attention_head_size m))))))
              attention_scores;
          attention_scores = add4_broadcast attention_scores attention_mask;
          attention_probs = map (map (map softmax)) attention_scores;
          attention_probs = Dropout4 rt (sa_dropout m) attention_probs;
          context_layer = map2 (map2 matmul) attention_probs value_layer;
          context_layer = map (\<lambda>heads. map concat (transpose heads)) context_layer
      in (context_layer, attention_probs))"

record RobertaSelfOutput =
  so_dense :: Linear
  so_dropout :: real

definition RobertaSelfOutput_forward ::
  "torch \<Rightarrow> RobertaSelfOutput \<Rightarrow> tensor3 \<Rightarrow> tensor3 \<Rightarrow> tensor3" where
  "RobertaSelfOutput_forward rt m hidden_states input_tensor =
     (let hidden_states = map (map (Linear_forward (so_dense m))) hidden_states;
          hidden_states = Dropout3 rt (so_dropout m) hidden_states
      in hidden_states)"

record RobertaAttention =
  att_self :: RobertaSelfAttention
  att_output :: RobertaSelfOutput

definition RobertaAttention_forward ::
  "torch \<Rightarrow> RobertaAttention \<Rightarrow> tensor3 \<Rightarrow> tensor4 \<Rightarrow> tensor3 \<times> tensor4" where
  "RobertaAttention_forward rt m input_tensor attention_mask =
     (let (context_layer, attention_probs) =
            RobertaSelfAttention_forward rt (att_self m) input_tensor attention_mask;
          attention_output = RobertaSelfOutput_forward rt (att_output m) context_layer input_tensor
      in (attention_output, attention_probs))"

section \<open>Transformer layer\<close>

record RobertaIntermediate =
  int_dense :: linear_layer

definition RobertaIntermediate_forward ::
  "torch \<Rightarrow> RobertaIntermediate \<Rightarrow> tensor3 \<Rightarrow> error + tensor3" where
  "RobertaIntermediate_forward rt m hidden_states =
     mapE (mapE (linear_layer_forward rt (int_dense m))) hidden_states"

record RobertaOutput =
  out_dense :: Linear
  out_dropout :: real

definition RobertaOutput_forward :: "torch \<Rightarrow> RobertaOutput \<Rightarrow> tensor3 \<Rightarrow> tensor3" where
  "RobertaOutput_forward rt m hidden_states =
     (let hidden_states = map (map (Linear_forward (out_dense m))) hidden_states;
          hidden_states = Dropout3 rt (out_dropout m) hidden_states
      in hidden_states)"

record RobertaLayer =
  layer_attention :: RobertaAttention
  layer_config :: RobertaConfig
  PreAttentionLayerNorm :: norm_module
  PostAttentionLayerNorm :: norm_module
  layer_intermediate :: RobertaIntermediate
  layer_output :: RobertaOutput

definition maybe_layer_norm ::
  "RobertaLayer \<Rightarrow> tensor3 \<Rightarrow> norm_module \<Rightarrow> string \<Rightarrow> error + tensor3" where
  "maybe_layer_norm m hidden_states layer_norm current_ln_mode =
     (if useLN (layer_config m) \<and> str_in (encoder_ln_mode (layer_config m)) current_ln_mode
      then norm_forward3 layer_norm hidden_states
      else Inr hidden_states)"

text \<open>\<^verbatim>\<open>t * 1 / keep_prob\<close> on every entry of a tensor.\<close>

definition times_one_over :: "tensor3 \<Rightarrow> real \<Rightarrow> tensor3" where
  "times_one_over t keep_prob = map (map (map (\<lambda>v. v * 1 / keep_prob))) t"

text \<open>
  \<^verbatim>\<open>RobertaLayer.forward\<close>; the callers of this file pass neither \<open>action\<close> nor
  \<open>keep_prob\<close>, whose defaults are 1 and 1.0.
\<close>

definition RobertaLayer_forward ::
  "torch \<Rightarrow> RobertaLayer \<Rightarrow> tensor3 \<Rightarrow> tensor4 \<Rightarrow> int \<Rightarrow> real
     \<Rightarrow> error + (tensor3 \<times> tensor4 option)" where
  "RobertaLayer_forward rt m hidden_states attention_mask action keep_prob =
     bindE
       (if action = 0 then Inr (hidden_states, None)
        else
          bindE (maybe_layer_norm m hidden_states (PreAttentionLayerNorm m) ''pre-ln'')
            (\<lambda>pre_attn_input.
               let (attention_output, attention_probs) =
                     RobertaAttention_forward rt (layer_attention m) pre_attn_input attention_mask;
                   attention_output = times_one_over attention_output keep_prob;
                   intermediate_input = add3 hidden_states attention_output
               in bindE
                    (maybe_layer_norm m intermediate_input (PreAttentionLayerNorm m) ''post-ln'')
                    (\<lambda>intermediate_input. Inr (intermediate_input, Some attention_probs))))
       (\<lambda>(intermediate_input, attention_probs).
          bindE
            (if action = 0 then Inr intermediate_input
             else
               bindE
                 (maybe_layer_norm m intermediate_input (PostAttentionLayerNorm m) ''pre-ln'')
                 (\<lambda>intermediate_pre_ffn.
                    bindE (RobertaIntermediate_forward rt (layer_intermediate m)
                             intermediate_pre_ffn)
                      (\<lambda>intermediate_output.
                         let layer_output' =
                               RobertaOutput_forward rt (layer_output m) intermediate_output;
                             layer_output' = times_one_over layer_output' keep_prob;
                             layer_output' = add3 layer_output' intermediate_input
                         in maybe_layer_norm m layer_output' (PostAttentionLayerNorm m)
                              ''post-ln'')))
            (\<lambda>layer_output'. Inr (layer_output', attention_probs)))"

section \<open>Encoder stack\<close>

text \<open>
  A value that flows between layers is a tensor or, where the source binds the pair a
  default layer returns without unpacking it, the tuple (layer output, attention
  probabilities).
\<close>

datatype pyval = Tensor tensor3 | Tuple tensor3 "tensor4 option"

text \<open>
  \<^verbatim>\<open>self.layer\<close> holds DeepSpeed transformer kernels when the encoder was built with
  \<^verbatim>\<open>deepspeed_transformer_kernel\<close>, and copies of \<^verbatim>\<open>RobertaLayer\<close> otherwise; the flag
  \<^verbatim>\<open>self.is_transformer_kernel\<close> is fixed by the same test, so it is read off the kind of
  list. A kernel is the provider's function from hidden states and attention bias to
  hidden states.
\<close>

datatype layer_list =
  DeepSpeedTransformerLayers "(tensor3 \<Rightarrow> tensor4 \<Rightarrow> tensor3) list"
  | RobertaLayers "RobertaLayer list"

datatype layer_module =
  DeepSpeedTransformerLayer "tensor3 \<Rightarrow> tensor4 \<Rightarrow> tensor3"
  | DefaultLayer RobertaLayer

definition modules :: "layer_list \<Rightarrow> layer_module list" where
  "modules ls =
     (case ls of
        DeepSpeedTransformerLayers fs \<Rightarrow> map DeepSpeedTransformerLayer fs
      | RobertaLayers rs \<Rightarrow> map DefaultLayer rs)"

record RobertaEncoder =
  enc_config :: RobertaConfig
  FinalLayerNorm :: norm_module
  enc_num_hidden_Ngram_layers :: nat
  enc_is_Ngram :: bool
  enc_layer :: layer_list
  Ngram_layer :: "RobertaLayer list"

definition is_transformer_kernel :: "RobertaEncoder \<Rightarrow> bool" where
  "is_transformer_kernel m =
     (case enc_layer m of DeepSpeedTransformerLayers fs \<Rightarrow> True | RobertaLayers rs \<Rightarrow> False)"

definition add_attention :: "tensor4 list \<Rightarrow> tensor4 option \<Rightarrow> tensor4 list" where
  "add_attention all_attentions attention_probs =
     (case attention_probs of None \<Rightarrow> all_attentions | Some p \<Rightarrow> all_attentions @ [p])"

text \<open>
  A layer called as \<^verbatim>\<open>layer(x_, inputs[1])\<close>, the result bound as it is returned: a kernel
  returns a tensor, a default layer the tuple. A tuple passed on as hidden states fails at
  the first operation that needs a tensor.
\<close>

definition call_layer :: "torch \<Rightarrow> layer_module \<Rightarrow> pyval \<Rightarrow> tensor4 \<Rightarrow> error + pyval" where
  "call_layer rt layer x attention_mask =
     (case x of
        Tuple t p \<Rightarrow> Inl NotATensor
      | Tensor h \<Rightarrow>
          (case layer of
             DeepSpeedTransformerLayer f \<Rightarrow> Inr (Tensor (f h attention_mask))
           | DefaultLayer l \<Rightarrow>
               bindE (RobertaLayer_forward rt l h attention_mask 1 1)
                 (\<lambda>(layer_output', attention_probs). Inr (Tuple layer_output' attention_probs))))"

fun run_layers :: "torch \<Rightarrow> layer_module list \<Rightarrow> pyval \<Rightarrow> tensor4 \<Rightarrow> error + pyval" where
  "run_layers rt [] x attention_mask = Inr x"
| "run_layers rt (layer # layers) x attention_mask =
     (case call_layer rt layer x attention_mask of
        Inl e \<Rightarrow> Inl e
      | Inr y \<Rightarrow> run_layers rt layers y attention_mask)"

text \<open>The Python slice \<^verbatim>\<open>xs[start:stop]\<close> for non-negative bounds.\<close>

definition py_slice :: "'a list \<Rightarrow> nat \<Rightarrow> nat \<Rightarrow> 'a list" where
  "py_slice xs start stop = take (stop - start) (drop start xs)"

text \<open>\<^verbatim>\<open>custom(start, end)\<close> applied to \<^verbatim>\<open>(hidden_states, attention_mask * 1)\<close>.\<close>

definition custom ::
  "torch \<Rightarrow> layer_module list \<Rightarrow> nat \<Rightarrow> nat \<Rightarrow> pyval \<Rightarrow> tensor4 \<Rightarrow> error + pyval" where
  "custom rt layers start stop x attention_mask =
     run_layers rt (py_slice layers start stop) x attention_mask"

text \<open>\<^verbatim>\<open>math.ceil(math.sqrt(num_layers))\<close>.\<close>

definition chunk_length :: "nat \<Rightarrow> nat" where
  "chunk_length num_layers = nat \<lceil>sqrt (real num_layers)\<rceil>"

definition times_one :: "tensor4 \<Rightarrow> tensor4" where
  "times_one t = map (map (map (map (\<lambda>v. v * 1)))) t"

text \<open>
  \<^verbatim>\<open>checkpoint.checkpoint(function, *args)\<close> is the runtime's. In the forward pass it calls
  the function on the arguments and keeps the arguments, not the values computed inside
  the function, for the recomputation of the backward pass. The model threads the list of
  the units kept so far: for each call the layer range of its \<^verbatim>\<open>custom(start, end)\<close> and the
  two arguments. The backward pass is not modelled.
\<close>

record checkpointed_unit =
  unit_start :: nat
  unit_stop :: nat
  unit_hidden_states :: pyval
  unit_attention_mask :: tensor4

definition checkpoint_checkpoint ::
  "torch \<Rightarrow> layer_module list \<Rightarrow> nat \<Rightarrow> nat \<Rightarrow> pyval \<Rightarrow> tensor4 \<Rightarrow> checkpointed_unit list
     \<Rightarrow> error + (pyval \<times> checkpointed_unit list)" where
  "checkpoint_checkpoint rt layers start stop x attention_mask kept =
     bindE (custom rt layers start stop x attention_mask)
       (\<lambda>y. Inr (y, kept @ [\<lparr>unit_start = start, unit_stop = stop,
                               unit_hidden_states = x,
                               unit_attention_mask = attention_mask\<rparr>]))"

text \<open>The \<^verbatim>\<open>while l < num_layers\<close> loop of the checkpointed mode.\<close>

function checkpoint_loop ::
  "torch \<Rightarrow> layer_module list \<Rightarrow> nat \<Rightarrow> pyval \<Rightarrow> tensor4 \<Rightarrow> checkpointed_unit list
     \<Rightarrow> error + (pyval \<times> checkpointed_unit list)" where
  "checkpoint_loop rt layers l hidden_states attention_mask kept =
     (if l < length layers then
        (case checkpoint_checkpoint rt layers l (l + chunk_length (length layers))
                hidden_states (times_one attention_mask) kept of
           Inl e \<Rightarrow> Inl e
         | Inr r \<Rightarrow>
             checkpoint_loop rt layers (l + chunk_length (length layers)) (fst r)
               attention_mask (snd r))
      else Inr (hidden_states, kept))"
  by pat_completeness auto
termination
proof (relation "measure (\<lambda>(rt, layers, l, hidden_states, attention_mask, kept).
                   length layers - l)")
  show "wf (measure (\<lambda>(rt, layers, l, hidden_states, attention_mask, kept).
              length layers - l))"
    by simp
next
  fix rt :: torch and layers :: "layer_module list" and l :: nat
    and hidden_states :: pyval and attention_mask :: tensor4
    and kept :: "checkpointed_unit list" and r :: "pyval \<times> checkpointed_unit list"
  assume less: "l < length layers"
  then have "0 < sqrt (real (length layers))"
    by auto
  then have "0 < chunk_length (length layers)"
    by (simp add: chunk_length_def)
  with less show
    "((rt, layers, l + chunk_length (length layers), fst r, attention_mask, snd r),
      (rt, layers, l, hidden_states, attention_mask, kept))
     \<in> measure (\<lambda>(rt, layers, l, hidden_states, attention_mask, kept). length layers - l)"
    by simp
qed

declare checkpoint_loop.simps [simp del]

text \<open>
  One step of \<^verbatim>\<open>for i, layer_module in enumerate(self.layer)\<close>. The state is
  (hidden states, N-gram hidden states, recorded layers, recorded attention
  probabilities). A missing N-gram input (\<open>None\<close>) fails where it is first used as a
  tensor.
\<close>

definition encoder_step ::
  "torch \<Rightarrow> RobertaEncoder \<Rightarrow> tensor4 \<Rightarrow> tensor3 option \<Rightarrow> tensor4 option \<Rightarrow> bool \<Rightarrow> bool
     \<Rightarrow> nat \<Rightarrow> layer_module
     \<Rightarrow> tensor3 \<times> tensor3 option \<times> pyval list \<times> tensor4 list
     \<Rightarrow> error + (tensor3 \<times> tensor3 option \<times> pyval list \<times> tensor4 list)" where
  "encoder_step rt m attention_mask Ngram_position_matrix Ngram_attention_mask
     output_all_encoded_layers output_attentions i layer_module' state =
     (case state of (hidden_states, Ngram_hidden_states, all_encoder_layers, all_attentions) \<Rightarrow>
      bindE
        (case layer_module' of
           DeepSpeedTransformerLayer f \<Rightarrow> Inr (f hidden_states attention_mask, all_attentions)
         | DefaultLayer l \<Rightarrow>
             bindE (RobertaLayer_forward rt l hidden_states attention_mask 1 1)
               (\<lambda>(hidden_states, attention_probs).
                  Inr (hidden_states,
                       if output_attentions then add_attention all_attentions attention_probs
                       else all_attentions)))
        (\<lambda>(hidden_states, all_attentions).
           bindE
             (if enc_is_Ngram m \<and> i < enc_num_hidden_Ngram_layers m then
                (if length (Ngram_layer m) \<le> i then Inl IndexError
                 else
                   (case Ngram_hidden_states of
                      None \<Rightarrow> Inl NotATensor
                    | Some ngram_hs \<Rightarrow>
                        bindE
                          (case Ngram_attention_mask of
                             None \<Rightarrow>
                               bindE (maybe_layer_norm (Ngram_layer m ! i) ngram_hs
                                        (PreAttentionLayerNorm (Ngram_layer m ! i)) ''pre-ln'')
                                 (\<lambda>pre_attn_input. Inl NotATensor)
                           | Some ngram_mask \<Rightarrow>
                               RobertaLayer_forward rt (Ngram_layer m ! i) ngram_hs ngram_mask 1 1)
                          (\<lambda>(ngram_hs, ngram_probs).
                             (case Ngram_position_matrix of
                                None \<Rightarrow> Inl NotATensor
                              | Some position_matrix \<Rightarrow>
                                  let Ngram_states = bmm position_matrix ngram_hs
                                  in Inr (add3 hidden_states Ngram_states, Some ngram_hs)))))
              else Inr (hidden_states, Ngram_hidden_states))
             (\<lambda>(hidden_states, Ngram_hidden_states).
                Inr (hidden_states, Ngram_hidden_states,
                     (if output_all_encoded_layers
                      then all_encoder_layers @ [Tensor hidden_states]
                      else all_encoder_layers),
                     all_attentions))))"

fun encoder_loop ::
  "torch \<Rightarrow> RobertaEncoder \<Rightarrow> tensor4 \<Rightarrow> tensor3 option \<Rightarrow> tensor4 option \<Rightarrow> bool \<Rightarrow> bool
     \<Rightarrow> nat \<Rightarrow> layer_module list
     \<Rightarrow> tensor3 \<times> tensor3 option \<times> pyval list \<times> tensor4 list
     \<Rightarrow> error + (tensor3 \<times> tensor3 option \<times> pyval list \<times> tensor4 list)" where
  "encoder_loop rt m attention_mask Ngram_position_matrix Ngram_attention_mask
     output_all_encoded_layers output_attentions i [] state = Inr state"
| "encoder_loop rt m attention_mask Ngram_position_matrix Ngram_attention_mask
     output_all_encoded_layers output_attentions i (layer_module' # rest) state =
     (case encoder_step rt m attention_mask Ngram_position_matrix Ngram_attention_mask
             output_all_encoded_layers output_attentions i layer_module' state of
        Inl e \<Rightarrow> Inl e
      | Inr state' \<Rightarrow>
          encoder_loop rt m attention_mask Ngram_position_matrix Ngram_attention_mask
            output_all_encoded_layers output_attentions (Suc i) rest state')"

text \<open>The final normalization, applied to whatever \<^verbatim>\<open>hidden_states\<close> is bound to.\<close>

definition final_layer_norm :: "RobertaEncoder \<Rightarrow> pyval \<Rightarrow> error + pyval" where
  "final_layer_norm m hidden_states =
     (if useLN (enc_config m) \<and> str_in (encoder_ln_mode (enc_config m)) ''pre-ln'' then
        (case hidden_states of
           Tuple t p \<Rightarrow> Inl NotATensor
         | Tensor h \<Rightarrow> bindE (norm_forward3 (FinalLayerNorm m) h) (\<lambda>h'. Inr (Tensor h')))
      else Inr hidden_states)"

text \<open>
  \<^verbatim>\<open>RobertaEncoder.forward\<close>. The result is the list of recorded layers and, when
  \<open>output_attentions\<close>, the list of attention probabilities.
\<close>

definition RobertaEncoder_forward ::
  "torch \<Rightarrow> RobertaEncoder \<Rightarrow> tensor3 \<Rightarrow> tensor4 \<Rightarrow> tensor3 option \<Rightarrow> tensor3 option
     \<Rightarrow> tensor4 option \<Rightarrow> bool \<Rightarrow> bool \<Rightarrow> bool
     \<Rightarrow> error + (pyval list \<times> tensor4 list option)" where
  "RobertaEncoder_forward rt m hidden_states attention_mask Ngram_hidden_states
     Ngram_position_matrix Ngram_attention_mask output_all_encoded_layers
     checkpoint_activations output_attentions =
     bindE
       (if checkpoint_activations then
          bindE (checkpoint_loop rt (modules (enc_layer m)) 0 (Tensor hidden_states)
                   attention_mask [])
            (\<lambda>(h, kept). Inr (h, [], []))
        else
          bindE (encoder_loop rt m attention_mask Ngram_position_matrix Ngram_attention_mask
                   output_all_encoded_layers output_attentions 0 (modules (enc_layer m))
                   (hidden_states, Ngram_hidden_states, [], []))
            (\<lambda>(h, ngram_hs, all_encoder_layers, all_attentions).
               Inr (Tensor h, all_encoder_layers, all_attentions)))
       (\<lambda>(hidden_states, all_encoder_layers, all_attentions).
          bindE
            (if \<not> output_all_encoded_layers \<or> checkpoint_activations then
               bindE (final_layer_norm m hidden_states)
                 (\<lambda>hidden_states. Inr (all_encoder_layers @ [hidden_states]))
             else Inr all_encoder_layers)
            (\<lambda>all_encoder_layers.
               Inr (all_encoder_layers,
                    if output_attentions then Some all_attentions else None)))"

subsection \<open>The stack as a chain of layers\<close>

text \<open>
  The reference that the encoder without checkpointing and N-gram fusion is compared
  with, after the spec's description of the stack: the layers are applied in turn, each to
  the output of the one before, all with the same attention bias. \<open>spec_layer_outputs\<close>
  lists, layer by layer, the output and the attention probabilities the layer returns (a
  kernel returns none); \<open>spec_attentions\<close> collects the probabilities that are there.
\<close>

definition spec_apply_layer ::
  "torch \<Rightarrow> layer_module \<Rightarrow> tensor3 \<Rightarrow> tensor4 \<Rightarrow> error + (tensor3 \<times> tensor4 option)" where
  "spec_apply_layer rt layer h attention_mask =
     (case layer of
        DeepSpeedTransformerLayer f \<Rightarrow> Inr (f h attention_mask, None)
      | DefaultLayer l \<Rightarrow> RobertaLayer_forward rt l h attention_mask 1 1)"

fun spec_layer_outputs ::
  "torch \<Rightarrow> layer_module list \<Rightarrow> tensor3 \<Rightarrow> tensor4
     \<Rightarrow> error + (tensor3 \<times> tensor4 option) list" where
  "spec_layer_outputs rt [] h attention_mask = Inr []"
| "spec_layer_outputs rt (layer # layers) h attention_mask =
     bindE (spec_apply_layer rt layer h attention_mask)
       (\<lambda>(h', probs).
          bindE (spec_layer_outputs rt layers h' attention_mask)
            (\<lambda>outputs. Inr ((h', probs) # outputs)))"

definition spec_attentions :: "(tensor3 \<times> tensor4 option) list \<Rightarrow> tensor4 list" where
  "spec_attentions outputs =
     concat (map (\<lambda>(h, probs). case probs of None \<Rightarrow> [] | Some a \<Rightarrow> [a]) outputs)"

section \<open>Pooler and prediction heads\<close>

record RobertaPooler =
  pool_dense_act :: linear_layer

text \<open>\<^verbatim>\<open>hidden_states[:, 0]\<close> needs a first position in every batch item.\<close>

definition first_token :: "mat \<Rightarrow> error + vec" where
  "first_token X = (case X of [] \<Rightarrow> Inl IndexError | row # rest \<Rightarrow> Inr row)"

definition RobertaPooler_forward :: "torch \<Rightarrow> RobertaPooler \<Rightarrow> tensor3 \<Rightarrow> error + mat" where
  "RobertaPooler_forward rt m hidden_states =
     bindE (mapE first_token hidden_states)
       (\<lambda>first_token_tensor.
          mapE (linear_layer_forward rt (pool_dense_act m)) first_token_tensor)"

record RobertaPredictionHeadTransform =
  tr_config :: RobertaConfig
  tr_dense_act :: linear_layer
  tr_LayerNorm :: norm_module

definition RobertaPredictionHeadTransform_init ::
  "torch \<Rightarrow> RobertaConfig \<Rightarrow> error + RobertaPredictionHeadTransform" where
  "RobertaPredictionHeadTransform_init rt config =
     bindE (linear_layer_init rt (fused_linear_layer config) (hidden_size config)
              (hidden_size config) (hidden_act config))
       (\<lambda>dense_act.
          bindE (get_layer_norm_type config)
            (\<lambda>c. Inr \<lparr>tr_config = config, tr_dense_act = dense_act,
                       tr_LayerNorm = new_layer_norm c (hidden_size config) (1 / 10 ^ 12)\<rparr>))"

text \<open>
  \<^verbatim>\<open>RobertaPredictionHeadTransform.forward\<close> on one row: the dense projection, the
  activation and the normalization all act along the last axis.
\<close>

definition RobertaPredictionHeadTransform_forward ::
  "torch \<Rightarrow> RobertaPredictionHeadTransform \<Rightarrow> vec \<Rightarrow> error + vec" where
  "RobertaPredictionHeadTransform_forward rt m hidden_states =
     bindE (linear_layer_forward rt (tr_dense_act m) hidden_states)
       (\<lambda>hidden_states.
          if useLN (tr_config m) then norm_forward (tr_LayerNorm m) hidden_states
          else Inr hidden_states)"

text \<open>
  The masked-LM head. \<open>decoder_weight\<close> is \<^verbatim>\<open>decoder.weight\<close>, the embedding table it is
  given; \<^verbatim>\<open>decoder.bias\<close> is either absent or the parameter \<^verbatim>\<open>self.bias\<close> itself, which
  \<open>decoder_has_bias\<close> records, so that a value of \<open>head_bias\<close> is the value of both.
\<close>

record RobertaLMPredictionHead =
  head_transform :: RobertaPredictionHeadTransform
  decoder_weight :: mat
  decoder_has_bias :: bool
  head_bias :: vec
  sparse_predict :: bool

definition RobertaLMPredictionHead_init ::
  "torch \<Rightarrow> RobertaConfig \<Rightarrow> mat \<Rightarrow> error + RobertaLMPredictionHead" where
  "RobertaLMPredictionHead_init rt config roberta_model_embedding_weights =
     bindE (RobertaPredictionHeadTransform_init rt config)
       (\<lambda>transform.
          Inr \<lparr>head_transform = transform,
               decoder_weight = roberta_model_embedding_weights,
               decoder_has_bias = (\<not> sparse_mask_prediction config),
               head_bias = replicate (length roberta_model_embedding_weights) 0,
               sparse_predict = sparse_mask_prediction config\<rparr>)"

definition decoder :: "RobertaLMPredictionHead \<Rightarrow> vec \<Rightarrow> vec" where
  "decoder m x =
     F_linear x (decoder_weight m) (if decoder_has_bias m then Some (head_bias m) else None)"

text \<open>
  Selecting rows of a (rows, width) tensor by an index list, as \<^verbatim>\<open>x[indexes]\<close> and
  \<^verbatim>\<open>torch.index_select(x, 0, indexes)\<close> do for indexes that are positions.
\<close>

definition index_select :: "'a list \<Rightarrow> nat list \<Rightarrow> error + 'a list" where
  "index_select X indexes =
     mapE (\<lambda>i. if i < length X then Inr (X ! i) else Inl IndexError) indexes"

text \<open>
  The head returns rows of logits when it is given an index list, and logits for every
  position (rank 3) in sparse mode without one.
\<close>

datatype logits = Rows mat | Positions tensor3

definition RobertaLMPredictionHead_forward ::
  "torch \<Rightarrow> RobertaLMPredictionHead \<Rightarrow> tensor3 \<Rightarrow> nat list option \<Rightarrow> error + logits" where
  "RobertaLMPredictionHead_forward rt m hidden_states masked_token_indexes =
     (if sparse_predict m then
        (case masked_token_indexes of
           Some indexes \<Rightarrow>
             bindE (index_select (concat hidden_states) indexes)
               (\<lambda>hidden_states.
                  bindE (mapE (RobertaPredictionHeadTransform_forward rt (head_transform m))
                           hidden_states)
                    (\<lambda>hidden_states. Inr (Rows (map (decoder m) hidden_states))))
         | None \<Rightarrow>
             bindE (mapE (mapE (RobertaPredictionHeadTransform_forward rt (head_transform m)))
                      hidden_states)
               (\<lambda>hidden_states. Inr (Positions (map (map (decoder m)) hidden_states))))
      else
        bindE (mapE (mapE (RobertaPredictionHeadTransform_forward rt (head_transform m)))
                 hidden_states)
          (\<lambda>hidden_states.
             let hidden_states = map (map (decoder m)) hidden_states
             in (case masked_token_indexes of
                   None \<Rightarrow> Inl NotATensor
                 | Some indexes \<Rightarrow>
                     bindE (index_select (concat hidden_states) indexes)
                       (\<lambda>hidden_states. Inr (Rows hidden_states)))))"

record RobertaOnlyMLMHead =
  mlm_predictions :: RobertaLMPredictionHead

definition RobertaOnlyMLMHead_forward ::
  "torch \<Rightarrow> RobertaOnlyMLMHead \<Rightarrow> tensor3 \<Rightarrow> nat list option \<Rightarrow> error + logits" where
  "RobertaOnlyMLMHead_forward rt m sequence_output masked_token_indexes =
     RobertaLMPredictionHead_forward rt (mlm_predictions m) sequence_output masked_token_indexes"

record RobertaPreTrainingHeads =
  predictions :: RobertaLMPredictionHead
  seq_relationship :: Linear

definition RobertaPreTrainingHeads_forward ::
  "torch \<Rightarrow> RobertaPreTrainingHeads \<Rightarrow> tensor3 \<Rightarrow> mat \<Rightarrow> nat list option
     \<Rightarrow> error + (logits \<times> mat)" where
  "RobertaPreTrainingHeads_forward rt m sequence_output pooled_output masked_token_indexes =
     bindE (RobertaLMPredictionHead_forward rt (predictions m) sequence_output
              masked_token_indexes)
       (\<lambda>prediction_scores.
          let seq_relationship_score = map (Linear_forward (seq_relationship m)) pooled_output
          in Inr (prediction_scores, seq_relationship_score))"

section \<open>Model assembly\<close>

record RobertaModel =
  embeddings :: RobertaEmbeddings
  model_is_Ngram :: bool
  Ngram_embeddings :: "RobertaNgramEmbeddings option"
  encoder :: RobertaEncoder
  pooler :: RobertaPooler

text \<open>
  The attention bias of \<^verbatim>\<open>RobertaModel.forward\<close>: the (batch, seq) mask gets two axes of
  size one, is converted to the float type and becomes \<^verbatim>\<open>(1.0 - mask) * -10000.0\<close>.
\<close>

definition extended_attention_mask :: "int list list \<Rightarrow> tensor4" where
  "extended_attention_mask attention_mask =
     map (\<lambda>row. [[map (\<lambda>v. (1 - real_of_int v) * (- 10000)) row]]) attention_mask"

datatype encoded_layers = AllLayers "pyval list" | LastLayer tensor3

text \<open>\<^verbatim>\<open>encoded_layers[-1]\<close>.\<close>

definition last_layer :: "pyval list \<Rightarrow> error + pyval" where
  "last_layer encoded = (if encoded = [] then Inl IndexError else Inr (last encoded))"

definition RobertaModel_forward ::
  "torch \<Rightarrow> RobertaModel \<Rightarrow> int list list \<Rightarrow> int list list option \<Rightarrow> int list list option
     \<Rightarrow> int list list option \<Rightarrow> int list list option \<Rightarrow> int list list option
     \<Rightarrow> tensor3 option \<Rightarrow> bool \<Rightarrow> bool \<Rightarrow> bool
     \<Rightarrow> error + (encoded_layers \<times> mat \<times> tensor4 list option)" where
  "RobertaModel_forward rt m input_ids token_type_ids_opt attention_mask_opt input_Ngram_ids
     Ngram_attention_mask_opt Ngram_token_type_ids_opt Ngram_position_matrix
     output_all_encoded_layers checkpoint_activations output_attentions =
     (let attention_mask =
            (case attention_mask_opt of None \<Rightarrow> ones_like input_ids | Some a \<Rightarrow> a);
          token_type_ids =
            (case token_type_ids_opt of None \<Rightarrow> zeros_like input_ids | Some t \<Rightarrow> t);
          extended_attention_mask' = extended_attention_mask attention_mask
      in bindE (RobertaEmbeddings_forward rt (embeddings m) input_ids (Some token_type_ids))
           (\<lambda>embedding_output.
      bindE
        (if model_is_Ngram m then
           (case input_Ngram_ids of
              None \<Rightarrow> Inl NotATensor
            | Some ngram_ids \<Rightarrow>
                let Ngram_attention_mask =
                      (case Ngram_attention_mask_opt of
                         None \<Rightarrow> ones_like ngram_ids | Some a \<Rightarrow> a);
                    Ngram_token_type_ids =
                      (case Ngram_token_type_ids_opt of
                         None \<Rightarrow> zeros_like ngram_ids | Some t \<Rightarrow> t);
                    extended_Ngram_attention_mask = extended_attention_mask Ngram_attention_mask
                in (case Ngram_embeddings m of
                      None \<Rightarrow> Inl AttributeError
                    | Some ngram_embeddings \<Rightarrow>
                        bindE (RobertaNgramEmbeddings_forward rt ngram_embeddings ngram_ids
                                 (Some Ngram_token_type_ids))
                          (\<lambda>Ngram_embedding_output.
                             Inr (Some Ngram_embedding_output,
                                  Some extended_Ngram_attention_mask))))
         else Inr (None, None))
        (\<lambda>(Ngram_embedding_output, extended_Ngram_attention_mask).
      bindE (RobertaEncoder_forward rt (encoder m) embedding_output extended_attention_mask'
               Ngram_embedding_output Ngram_position_matrix extended_Ngram_attention_mask
               output_all_encoded_layers checkpoint_activations output_attentions)
        (\<lambda>(encoded, attentions).
      bindE (last_layer encoded)
        (\<lambda>sequence_output.
           (case sequence_output of
              Tuple t p \<Rightarrow> Inl NotATensor
            | Tensor h \<Rightarrow>
                bindE (RobertaPooler_forward rt (pooler m) h)
                  (\<lambda>pooled_output.
                     Inr ((if output_all_encoded_layers then AllLayers encoded
                           else LastLayer h),
                          pooled_output,
                          (if output_attentions then attentions else None)))))))))"

subsection \<open>Masked-token indexes and the masked-LM loss\<close>

text \<open>
  \<^verbatim>\<open>torch.nonzero(x, as_tuple=False).view(-1)\<close> of a flat tensor: the positions of its
  non-zero entries, in ascending order. Labels are 64-bit integers, so \<open>+ 1\<close> wraps.
\<close>

definition nonzero :: "64 word list \<Rightarrow> nat list" where
  "nonzero xs = filter (\<lambda>i. xs ! i \<noteq> 0) [0..<length xs]"

definition masked_token_indexes_of :: "64 word list list \<Rightarrow> nat list" where
  "masked_token_indexes_of masked_lm_labels =
     nonzero (map (\<lambda>l. l + 1) (concat masked_lm_labels))"

text \<open>
  \<^verbatim>\<open>x.view(-1, n)\<close> of a tensor of rank 2: the entries regrouped in rows of \<open>n\<close>, an error
  when they do not fill whole rows.
\<close>

function chunks :: "nat \<Rightarrow> 'a list \<Rightarrow> 'a list list" where
  "chunks n xs = (if n = 0 \<or> xs = [] then [] else take n xs # chunks n (drop n xs))"
  by pat_completeness auto
termination
  by (relation "measure (\<lambda>(n, xs). length xs)") auto

declare chunks.simps [simp del]

definition view_rows :: "nat \<Rightarrow> mat \<Rightarrow> error + mat" where
  "view_rows n X =
     (if n = 0 \<or> length (concat X) mod n \<noteq> 0 then Inl RuntimeError
      else Inr (chunks n (concat X)))"

definition logits_rows :: "logits \<Rightarrow> mat" where
  "logits_rows l = (case l of Rows r \<Rightarrow> r | Positions t \<Rightarrow> concat t)"

subsection \<open>Joint pretraining and MLM-only variants\<close>

text \<open>
  The arguments after the module are the entries of the batch payload the source reads by
  position: \<open>input_ids = batch[1]\<close>, \<open>attention_mask = batch[2]\<close>,
  \<open>token_type_ids = batch[3]\<close>; for joint pretraining \<open>next_sentence_label = batch[4]\<close>
  (flattened, as \<^verbatim>\<open>view(-1)\<close> reads it) and \<open>masked_lm_labels = batch[5]\<close>; for the MLM-only
  model \<open>masked_lm_labels = batch[4]\<close> and the N-gram inputs \<open>batch[5..8]\<close>. The encoder is
  always asked for its last layer only, so \<open>AllLayers\<close> does not come back from it.
\<close>

record RobertaForPreTraining =
  pt_roberta :: RobertaModel
  pt_cls :: RobertaPreTrainingHeads
  pt_config :: RobertaConfig

datatype pretraining_output = TotalLoss real | PredictionScores logits mat

definition RobertaForPreTraining_forward ::
  "torch \<Rightarrow> RobertaForPreTraining \<Rightarrow> int list list \<Rightarrow> int list list option
     \<Rightarrow> int list list option \<Rightarrow> 64 word list option \<Rightarrow> 64 word list list option
     \<Rightarrow> error + pretraining_output" where
  "RobertaForPreTraining_forward rt m input_ids attention_mask token_type_ids
     next_sentence_label_opt masked_lm_labels_opt =
     (let checkpoint_activations = False
      in bindE (RobertaModel_forward rt (pt_roberta m) input_ids token_type_ids attention_mask
                  None None None None False checkpoint_activations False)
           (\<lambda>(encoded, pooled_output, attentions).
              (case encoded of
                 AllLayers ls \<Rightarrow> Inl NotATensor
               | LastLayer sequence_output \<Rightarrow>
                   (case (masked_lm_labels_opt, next_sentence_label_opt) of
                      (Some masked_lm_labels, Some next_sentence_label) \<Rightarrow>
                        let masked_token_indexes = masked_token_indexes_of masked_lm_labels
                        in bindE (RobertaPreTrainingHeads_forward rt (pt_cls m) sequence_output
                                    pooled_output (Some masked_token_indexes))
                             (\<lambda>(prediction_scores, seq_relationship_score).
                        bindE (index_select (concat masked_lm_labels) masked_token_indexes)
                             (\<lambda>target.
                        bindE (view_rows (vocab_size (pt_config m))
                                 (logits_rows prediction_scores))
                             (\<lambda>scores.
                        let masked_lm_loss = CrossEntropyLoss rt (- 1) scores target
                        in bindE (view_rows 2 seq_relationship_score)
                             (\<lambda>relationship.
                        let next_sentence_loss =
                              CrossEntropyLoss rt (- 1) relationship next_sentence_label;
                            total_loss = masked_lm_loss + next_sentence_loss
                        in Inr (TotalLoss total_loss)))))
                    | _ \<Rightarrow>
                        bindE (RobertaPreTrainingHeads_forward rt (pt_cls m) sequence_output
                                 pooled_output None)
                          (\<lambda>(prediction_scores, seq_relationship_score).
                             Inr (PredictionScores prediction_scores seq_relationship_score))))))"

record RobertaLMHeadModel =
  lm_roberta :: RobertaModel
  lm_is_Ngram :: bool
  lm_cls :: RobertaOnlyMLMHead
  lm_config :: RobertaConfig

text \<open>
  With \<open>output_attentions\<close> the source appends \<^verbatim>\<open>roberta_output[-1]\<close>; the model was called
  without \<open>output_attentions\<close>, so that entry is the pooled output.
\<close>

datatype lm_output = Scores logits | Outputs real "mat option"

definition RobertaLMHeadModel_forward ::
  "torch \<Rightarrow> RobertaLMHeadModel \<Rightarrow> int list list \<Rightarrow> int list list option
     \<Rightarrow> int list list option \<Rightarrow> 64 word list list option \<Rightarrow> int list list option
     \<Rightarrow> int list list option \<Rightarrow> int list list option \<Rightarrow> tensor3 option \<Rightarrow> bool
     \<Rightarrow> error + lm_output" where
  "RobertaLMHeadModel_forward rt m input_ids attention_mask token_type_ids masked_lm_labels_opt
     batch5 batch6 batch7 batch8 output_attentions =
     (let input_Ngram_ids = (if lm_is_Ngram m then batch5 else None);
          Ngram_attention_mask = (if lm_is_Ngram m then batch6 else None);
          Ngram_token_type_ids = (if lm_is_Ngram m then batch7 else None);
          Ngram_position_matrix = (if lm_is_Ngram m then batch8 else None);
          checkpoint_activations = False
      in bindE (RobertaModel_forward rt (lm_roberta m) input_ids token_type_ids attention_mask
                  input_Ngram_ids Ngram_attention_mask Ngram_token_type_ids
                  Ngram_position_matrix False checkpoint_activations False)
           (\<lambda>(encoded, pooled_output, attentions).
              (case encoded of
                 AllLayers ls \<Rightarrow> Inl NotATensor
               | LastLayer sequence_output \<Rightarrow>
                   (case masked_lm_labels_opt of
                      None \<Rightarrow>
                        bindE (RobertaOnlyMLMHead_forward rt (lm_cls m) sequence_output None)
                          (\<lambda>prediction_scores. Inr (Scores prediction_scores))
                    | Some masked_lm_labels \<Rightarrow>
                        let masked_token_indexes = masked_token_indexes_of masked_lm_labels
                        in bindE (RobertaOnlyMLMHead_forward rt (lm_cls m) sequence_output
                                    (Some masked_token_indexes))
                             (\<lambda>prediction_scores.
                        bindE (index_select (concat masked_lm_labels) masked_token_indexes)
                             (\<lambda>target.
                        bindE (view_rows (vocab_size (lm_config m))
                                 (logits_rows prediction_scores))
                             (\<lambda>scores.
                        let masked_lm_loss = CrossEntropyLoss rt (- 1) scores target
                        in Inr (Outputs masked_lm_loss
                                  (if output_attentions then Some pooled_output
                                   else None)))))))))"

section \<open>A small model instance\<close>

text \<open>
  Concrete objects on which the theorems below are instantiated: a runtime in evaluation
  mode (dropout is the identity), a configuration of hidden width 2 with one head, and
  modules with identity projections.
\<close>

definition example_torch :: torch where
  "example_torch =
     \<lparr>F_gelu = (\<lambda>x. x / 2 * (1 + tanh x)),
      Dropout3 = (\<lambda>p t. t),
      Dropout4 = (\<lambda>p t. t),
      CrossEntropyLoss = (\<lambda>ignore scores target. - sum_list (map2 (\<lambda>row l. row ! unat l) scores target)),
      fresh_matrix = (\<lambda>rows cols. replicate rows (replicate cols 0)),
      fresh_vector = (\<lambda>n. replicate n 0)\<rparr>"

definition example_config :: RobertaConfig where
  "example_config =
     \<lparr>vocab_size = 3, hidden_size = 2, num_hidden_layers = 1, num_attention_heads = 1,
      intermediate_size = 2, max_position_embeddings = 4, type_vocab_size = 2,
      hidden_dropout_prob = 1 / 10, attention_probs_dropout_prob = 1 / 10,
      hidden_act = ''relu'', layer_norm_type = ''pytorch'', layer_norm_eps = 1 / 10 ^ 12,
      useLN = True, encoder_ln_mode = ''pre-ln'', fused_linear_layer = False,
      sparse_mask_prediction = True, Ngram_size = 0, num_hidden_Ngram_layers = 0,
      optional_attrs = [''layernorm_embedding'' \<mapsto> True]\<rparr>"

definition example_linear :: Linear where
  "example_linear = \<lparr>lin_weight = [[1, 0], [0, 1]], lin_bias = Some [0, 0]\<rparr>"

definition example_norm :: norm_module where
  "example_norm =
     TorchLayerNorm \<lparr>ln_eps = 1 / 10 ^ 12, ln_weight = [1, 1], ln_bias = [0, 0]\<rparr>"

definition example_layer :: RobertaLayer where
  "example_layer =
     \<lparr>layer_attention =
        \<lparr>att_self =
           \<lparr>sa_num_attention_heads = 1, attention_head_size = 2, all_head_size = 2,
            sa_query = example_linear, sa_key = example_linear, sa_value = example_linear,
            sa_dropout = 1 / 10\<rparr>,
         att_output = \<lparr>so_dense = example_linear, so_dropout = 1 / 10\<rparr>\<rparr>,
      layer_config = example_config,
      PreAttentionLayerNorm = example_norm,
      PostAttentionLayerNorm = example_norm,
      layer_intermediate =
        \<lparr>int_dense = RegularLinear \<lparr>rla_dense = example_linear, rla_act = Some F_relu\<rparr>\<rparr>,
      layer_output = \<lparr>out_dense = example_linear, out_dropout = 1 / 10\<rparr>\<rparr>"

text \<open>
  A masked-LM head as the constructor wires it for either value of the sparse flag, with a
  trained bias of ones and a transform without normalization; an encoder of one default
  layer in pre-norm mode; and the two pretraining models around them.
\<close>

definition example_head :: "bool \<Rightarrow> RobertaLMPredictionHead" where
  "example_head sparse =
     \<lparr>head_transform =
        \<lparr>tr_config = example_config\<lparr>useLN := False\<rparr>,
         tr_dense_act = RegularLinear \<lparr>rla_dense = example_linear, rla_act = Some F_relu\<rparr>,
         tr_LayerNorm = example_norm\<rparr>,
      decoder_weight = [[1, 0], [0, 1], [1, 1]],
      decoder_has_bias = (\<not> sparse),
      head_bias = [1, 1, 1],
      sparse_predict = sparse\<rparr>"

definition example_encoder :: RobertaEncoder where
  "example_encoder =
     \<lparr>enc_config = example_config,
      FinalLayerNorm = example_norm,
      enc_num_hidden_Ngram_layers = 0,
      enc_is_Ngram = False,
      enc_layer = RobertaLayers [example_layer],
      Ngram_layer = []\<rparr>"

text \<open>
  Two encoders of ten layers in pre-norm mode: one over transformer kernels that each add
  1 to every entry, one over ten copies of the default layer.
\<close>

definition example_kernel :: "tensor3 \<Rightarrow> tensor4 \<Rightarrow> tensor3" where
  "example_kernel h attention_mask = map (map (map (\<lambda>v. v + 1))) h"

definition example_kernel_encoder :: RobertaEncoder where
  "example_kernel_encoder =
     example_encoder
       \<lparr>enc_layer :=
          DeepSpeedTransformerLayers
            [example_kernel, example_kernel, example_kernel, example_kernel, example_kernel,
             example_kernel, example_kernel, example_kernel, example_kernel, example_kernel]\<rparr>"

definition example_default_encoder :: RobertaEncoder where
  "example_default_encoder =
     example_encoder
       \<lparr>enc_layer :=
          RobertaLayers
            [example_layer, example_layer, example_layer, example_layer, example_layer,
             example_layer, example_layer, example_layer, example_layer, example_layer]\<rparr>"

definition example_model :: RobertaModel where
  "example_model =
     \<lparr>embeddings =
        \<lparr>word_embeddings = \<lparr>emb_weight = [[1, 1], [2, 2], [3, 3]]\<rparr>,
         position_embeddings = \<lparr>emb_weight = [[0, 0], [0, 0], [0, 0], [0, 0]]\<rparr>,
         token_type_embeddings = \<lparr>emb_weight = [[0, 0], [0, 0]]\<rparr>,
         layernorm_embedding = False,
         emb_LayerNorm = None,
         emb_dropout = 1 / 10\<rparr>,
      model_is_Ngram = False,
      Ngram_embeddings = None,
      encoder = example_encoder,
      pooler =
        \<lparr>pool_dense_act = RegularLinear \<lparr>rla_dense = example_linear, rla_act = Some tanh\<rparr>\<rparr>\<rparr>"

definition example_lm_model :: RobertaLMHeadModel where
  "example_lm_model =
     \<lparr>lm_roberta = example_model, lm_is_Ngram = False,
      lm_cls = \<lparr>mlm_predictions = example_head True\<rparr>, lm_config = example_config\<rparr>"

definition example_pretraining_model :: RobertaForPreTraining where
  "example_pretraining_model =
     \<lparr>pt_roberta = example_model,
      pt_cls = \<lparr>predictions = example_head True, seq_relationship = example_linear\<rparr>,
      pt_config = example_config\<rparr>"

section \<open>Properties\<close>

subsection \<open>RMSNorm\<close>

lemma py_int_of_nat: "py_int (real n) = int n"
  by (simp add: py_int_def)

lemma torch_split_whole:
  "torch_split x (int (length x)) 0 = Inr (x, [])"
  by (simp add: torch_split_def)

lemma norm2_over_sqrt:
  assumes "0 < n"
  shows "norm2 x * (real n powr (- 1 / 2)) = sqrt (sum_list (map (\<lambda>v. v * v) x) / real n)"
proof -
  have "real n powr (- 1 / 2) = 1 / sqrt (real n)"
    using assms by (simp add: powr_minus powr_half_sqrt field_simps)
  then show ?thesis
    by (simp add: norm2_def real_sqrt_divide)
qed

lemma mapE_cong:
  "(\<And>x. x \<in> set xs \<Longrightarrow> f x = g x) \<Longrightarrow> mapE f xs = mapE g xs"
  by (induction xs) (simp_all split: sum.splits)

lemma RMSNorm_outside_row:
  assumes "length x = rms_d m" and "p < 0 \<or> 1 < p"
  shows "RMSNorm_forward (m\<lparr>rms_p := p\<rparr>) x = RMSNorm_forward (m\<lparr>rms_p := 1\<rparr>) x"
  using assms
  by (auto simp: RMSNorm_forward_def bindE_def py_int_of_nat torch_split_def Let_def
      split: sum.splits)

text \<open>
  Claim C6. For a partial fraction \<open>p\<close> outside \<open>[0, 1]\<close>, RMSNorm returns what it returns
  with \<open>p = 1.0\<close>, which splits off the entire axis: on every row whose length is the
  module's \<open>dim\<close>, and so on every tensor of shape (batch, seq, dim). When \<open>dim\<close> is
  positive this is the specification's formula with the root mean square over the full
  last axis.
\<close>

theorem RMSNorm_fraction_outside_unit_interval:
  assumes "length x = rms_d m" and "p < 0 \<or> 1 < p"
  shows "RMSNorm_forward (m\<lparr>rms_p := p\<rparr>) x = RMSNorm_forward (m\<lparr>rms_p := 1\<rparr>) x
         \<and> (0 < rms_d m \<longrightarrow>
              RMSNorm_forward (m\<lparr>rms_p := p\<rparr>) x = Inr (RMSNorm_spec_full_axis m x))
         \<and> ((\<forall>item\<in>set X. \<forall>row\<in>set item. length row = rms_d m) \<longrightarrow>
              norm_forward3 (RMSNormModule (m\<lparr>rms_p := p\<rparr>)) X
              = norm_forward3 (RMSNormModule (m\<lparr>rms_p := 1\<rparr>)) X)"
proof (intro conjI impI)
  from assms show
    "RMSNorm_forward (m\<lparr>rms_p := p\<rparr>) x = RMSNorm_forward (m\<lparr>rms_p := 1\<rparr>) x"
    by (rule RMSNorm_outside_row)
next
  assume d: "0 < rms_d m"
  have "norm2 x * (real (rms_d m) powr (- 1 / 2)) = rms_full_axis x"
    using norm2_over_sqrt [OF d, of x] assms(1) by (simp add: rms_full_axis_def)
  with assms d show
    "RMSNorm_forward (m\<lparr>rms_p := p\<rparr>) x = Inr (RMSNorm_spec_full_axis m x)"
    by (auto simp: RMSNorm_forward_def bindE_def pow_neg_half_def
        RMSNorm_spec_full_axis_def Let_def)
next
  assume shape: "\<forall>item\<in>set X. \<forall>row\<in>set item. length row = rms_d m"
  show "norm_forward3 (RMSNormModule (m\<lparr>rms_p := p\<rparr>)) X
        = norm_forward3 (RMSNormModule (m\<lparr>rms_p := 1\<rparr>)) X"
    unfolding norm_forward3_def
  proof (intro mapE_cong)
    fix item row
    assume "item \<in> set X" and "row \<in> set item"
    with shape have "length row = rms_d m"
      by blast
    then show "norm_forward (RMSNormModule (m\<lparr>rms_p := p\<rparr>)) row
               = norm_forward (RMSNormModule (m\<lparr>rms_p := 1\<rparr>)) row"
      using assms(2) by (simp add: norm_forward_def RMSNorm_outside_row)
  qed
qed

theorem RMSNorm_fraction_outside_unit_interval_witness:
  "length [3, 4 :: real] =
     rms_d \<lparr>rms_eps = 1 / 10 ^ 8, rms_d = 2, rms_p = - 1, rms_bias = False,
            rms_scale = [1, 1], rms_offset = []\<rparr>
   \<and> ((3 / 2 :: real) < 0 \<or> 1 < (3 / 2 :: real))
   \<and> RMSNorm_forward
         (\<lparr>rms_eps = 1 / 10 ^ 8, rms_d = 2, rms_p = - 1, rms_bias = False,
           rms_scale = [1, 1], rms_offset = []\<rparr>\<lparr>rms_p := 3 / 2\<rparr>) [3, 4]
       = RMSNorm_forward
           (\<lparr>rms_eps = 1 / 10 ^ 8, rms_d = 2, rms_p = - 1, rms_bias = False,
             rms_scale = [1, 1], rms_offset = []\<rparr>\<lparr>rms_p := 1\<rparr>) [3, 4]
   \<and> RMSNorm_forward
         (\<lparr>rms_eps = 1 / 10 ^ 8, rms_d = 2, rms_p = - 1, rms_bias = False,
           rms_scale = [1, 1], rms_offset = []\<rparr>\<lparr>rms_p := 3 / 2\<rparr>) [3, 4]
       = Inr (RMSNorm_spec_full_axis
                \<lparr>rms_eps = 1 / 10 ^ 8, rms_d = 2, rms_p = - 1, rms_bias = False,
                 rms_scale = [1, 1], rms_offset = []\<rparr> [3, 4])
   \<and> norm_forward3
         (RMSNormModule
            (\<lparr>rms_eps = 1 / 10 ^ 8, rms_d = 2, rms_p = - 1, rms_bias = False,
              rms_scale = [1, 1], rms_offset = []\<rparr>\<lparr>rms_p := 3 / 2\<rparr>)) [[[3, 4], [0, 1]]]
       = norm_forward3
           (RMSNormModule
              (\<lparr>rms_eps = 1 / 10 ^ 8, rms_d = 2, rms_p = - 1, rms_bias = False,
                rms_scale = [1, 1], rms_offset = []\<rparr>\<lparr>rms_p := 1\<rparr>)) [[[3, 4], [0, 1]]]"
  using RMSNorm_fraction_outside_unit_interval
    [of "[3, 4]"
        "\<lparr>rms_eps = 1 / 10 ^ 8, rms_d = 2, rms_p = - 1, rms_bias = False,
          rms_scale = [1, 1], rms_offset = []\<rparr>" "3 / 2" "[[[3, 4], [0, 1]]]"]
  by auto

subsection \<open>Attention bias\<close>

lemma extended_attention_mask_entry:
  assumes "b < length attention_mask" and "t < length (attention_mask ! b)"
  shows "extended_attention_mask attention_mask ! b ! 0 ! 0 ! t
         = (1 - real_of_int (attention_mask ! b ! t)) * (- 10000)"
  using assms by (simp add: extended_attention_mask_def)

text \<open>
  Claim C3. The attention bias \<^verbatim>\<open>(1.0 - mask) * -10000.0\<close> built by the model forward pass
  from a (batch, seq) padding mask has shape (batch, 1, 1, seq); it is 0 wherever the mask
  is 1; for a mask of ones (also the default \<^verbatim>\<open>ones_like\<close> mask) it is 0 everywhere; and
  when exactly one entry of the mask is 0 and all others are 1, the bias is exactly \<open>-10000\<close>
  at that entry and 0 at every other.
\<close>

theorem attention_bias_of_padding_mask:
  "(\<forall>b<length attention_mask. \<forall>t<length (attention_mask ! b).
       attention_mask ! b ! t = 1 \<longrightarrow>
       extended_attention_mask attention_mask ! b ! 0 ! 0 ! t = 0)
   \<and> ((\<forall>b<length attention_mask. \<forall>t<length (attention_mask ! b).
          attention_mask ! b ! t = 1) \<longrightarrow>
        (\<forall>b<length attention_mask. \<forall>t<length (attention_mask ! b).
           extended_attention_mask attention_mask ! b ! 0 ! 0 ! t = 0))
   \<and> (\<forall>b0 t0.
         b0 < length attention_mask \<and> t0 < length (attention_mask ! b0)
         \<and> attention_mask ! b0 ! t0 = 0
         \<and> (\<forall>b<length attention_mask. \<forall>t<length (attention_mask ! b).
               (b, t) \<noteq> (b0, t0) \<longrightarrow> attention_mask ! b ! t = 1) \<longrightarrow>
         extended_attention_mask attention_mask ! b0 ! 0 ! 0 ! t0 = - 10000
         \<and> (\<forall>b<length attention_mask. \<forall>t<length (attention_mask ! b).
               (b, t) \<noteq> (b0, t0) \<longrightarrow>
               extended_attention_mask attention_mask ! b ! 0 ! 0 ! t = 0))
   \<and> length (extended_attention_mask attention_mask) = length attention_mask
   \<and> (\<forall>b<length attention_mask. \<exists>bias_row.
         extended_attention_mask attention_mask ! b = [[bias_row]]
         \<and> length bias_row = length (attention_mask ! b))
   \<and> (\<forall>b<length attention_mask. \<forall>t<length (attention_mask ! b).
         extended_attention_mask (ones_like attention_mask) ! b ! 0 ! 0 ! t = 0)"
proof (intro conjI)
  show "\<forall>b<length attention_mask. \<exists>bias_row.
          extended_attention_mask attention_mask ! b = [[bias_row]]
          \<and> length bias_row = length (attention_mask ! b)"
    by (simp add: extended_attention_mask_def)
qed (simp_all add: extended_attention_mask_entry,
     simp_all add: extended_attention_mask_def ones_like_def)

theorem attention_bias_of_padding_mask_witness:
  "extended_attention_mask [[1, 0, 1]] = [[[[0, - 10000, 0]]]]
   \<and> extended_attention_mask [[1, 0, 1]] ! 0 ! 0 ! 0 ! 1 = - 10000
   \<and> extended_attention_mask [[1, 0, 1]] ! 0 ! 0 ! 0 ! 2 = 0"
  using attention_bias_of_padding_mask [of "[[1, 0, 1]]"]
  by (simp add: extended_attention_mask_def)

subsection \<open>Transformer layer and self-output stage\<close>

text \<open>
  Claim C4. Called with \<open>action = 0\<close>, the transformer layer returns its input hidden
  states unchanged as first output (and no attention probabilities), whatever the
  attention bias and \<open>keep_prob\<close> are: attention and feed-forward are both skipped.
\<close>

theorem RobertaLayer_action_zero_identity:
  "RobertaLayer_forward rt m hidden_states attention_mask 0 keep_prob
   = Inr (hidden_states, None)"
  by (simp add: RobertaLayer_forward_def bindE_def)

theorem RobertaLayer_action_zero_identity_witness:
  "RobertaLayer_forward example_torch example_layer [[[5, 7]]] [[[[- 10000]]]] 0 (1 / 2)
   = Inr ([[[5, 7]]], None)"
  using RobertaLayer_action_zero_identity
    [of example_torch example_layer "[[[5, 7]]]" "[[[[- 10000]]]]" "1 / 2"]
  by simp

text \<open>
  Claim C10. The self-output stage does not depend on its second argument: it is the
  dense projection of the context tensor followed by dropout. So the attention block
  returns the same output whatever tensor is handed to that stage as \<open>input_tensor\<close>, and
  the residual addition of the layer's own input is made in \<^verbatim>\<open>RobertaLayer.forward\<close>
  (shown here for a layer without normalization, where nothing else surrounds it).
\<close>

theorem RobertaSelfOutput_ignores_input_tensor:
  "RobertaSelfOutput_forward rt m context_layer input_tensor
     = RobertaSelfOutput_forward rt m context_layer input_tensor'
   \<and> RobertaSelfOutput_forward rt m context_layer input_tensor
     = Dropout3 rt (so_dropout m) (map (map (Linear_forward (so_dense m))) context_layer)
   \<and> fst (RobertaAttention_forward rt a x attention_mask)
     = RobertaSelfOutput_forward rt (att_output a)
         (fst (RobertaSelfAttention_forward rt (att_self a) x attention_mask)) input_tensor'
   \<and> (\<not> useLN (layer_config l) \<and> action \<noteq> 0 \<longrightarrow>
        RobertaLayer_forward rt l x attention_mask action keep_prob
        = (let attention_output =
                 fst (RobertaAttention_forward rt (layer_attention l) x attention_mask);
               attention_probs =
                 snd (RobertaAttention_forward rt (layer_attention l) x attention_mask);
               intermediate_input = add3 x (times_one_over attention_output keep_prob)
           in bindE (RobertaIntermediate_forward rt (layer_intermediate l) intermediate_input)
                (\<lambda>intermediate_output.
                   Inr (add3 (times_one_over
                                (RobertaOutput_forward rt (layer_output l) intermediate_output)
                                keep_prob)
                          intermediate_input,
                        Some attention_probs))))"
  by (auto simp: RobertaSelfOutput_forward_def RobertaAttention_forward_def
      RobertaLayer_forward_def maybe_layer_norm_def bindE_def Let_def
      split: prod.splits sum.splits)

theorem RobertaSelfOutput_ignores_input_tensor_witness:
  "RobertaSelfOutput_forward example_torch (att_output (layer_attention example_layer))
     [[[1, 2]]] [[[5, 7]]]
   = RobertaSelfOutput_forward example_torch (att_output (layer_attention example_layer))
       [[[1, 2]]] [[[0, 0]]]
   \<and> RobertaSelfOutput_forward example_torch (att_output (layer_attention example_layer))
       [[[1, 2]]] [[[5, 7]]] = [[[1, 2]]]
   \<and> \<not> useLN (layer_config (example_layer\<lparr>layer_config := example_config\<lparr>useLN := False\<rparr>\<rparr>))
   \<and> (1 :: int) \<noteq> 0"
proof -
  have independent:
    "RobertaSelfOutput_forward example_torch (att_output (layer_attention example_layer))
       [[[1, 2]]] [[[5, 7]]]
     = RobertaSelfOutput_forward example_torch (att_output (layer_attention example_layer))
         [[[1, 2]]] [[[0, 0]]]"
    using RobertaSelfOutput_ignores_input_tensor
      [of example_torch "att_output (layer_attention example_layer)" "[[[1, 2]]]"
          "[[[5, 7]]]" "[[[0, 0]]]" "layer_attention example_layer" "[[[5, 7]]]" "[[[[0]]]]"
          "example_layer\<lparr>layer_config := example_config\<lparr>useLN := False\<rparr>\<rparr>" 1 1]
    by (rule conjunct1)
  have projected:
    "RobertaSelfOutput_forward example_torch (att_output (layer_attention example_layer))
       [[[1, 2]]] [[[5, 7]]] = [[[1, 2]]]"
    by (simp add: RobertaSelfOutput_forward_def example_layer_def example_torch_def
        example_linear_def Linear_forward_def F_linear_def dot_def)
  from independent projected show ?thesis
    by simp
qed

subsection \<open>Construction of the attention block\<close>

lemma round_half_even_of_int [simp]: "round_half_even (of_int k) = k"
  by (simp add: round_half_even_def)

lemma round_half_even_ge_floor: "\<lfloor>x\<rfloor> \<le> round_half_even x"
  by (simp add: round_half_even_def Let_def)

lemma floor_log2_below:
  assumes "0 < x"
  shows "2 powi \<lfloor>log 2 x\<rfloor> \<le> x"
proof -
  have "2 powr (of_int \<lfloor>log 2 x\<rfloor>) \<le> 2 powr (log 2 x)"
    by (simp del: powr_log_cancel)
  also have "\<dots> = x" using assms by simp
  finally show ?thesis by (simp add: powr_real_of_int')
qed

text \<open>An integer below \<open>2\<^sup>5\<^sup>3\<close> is a float: rounding leaves it as it is.\<close>

lemma binary64_exact:
  assumes "0 < q" and "q < 2 ^ 53"
  shows "binary64 (of_int q) = Inr (of_int q)"
proof -
  let ?k = "\<lfloor>log 2 \<bar>real_of_int q\<bar>\<rfloor>"
  have pos: "1 \<le> real_of_int q" using assms(1) by simp
  then have "0 \<le> log 2 (real_of_int q)" by simp
  then have k0: "0 \<le> ?k" using assms(1) by simp
  have less: "real_of_int q < 2 ^ 53"
    using assms(2) by (metis of_int_less_numeral_power_cancel_iff)
  then have "log 2 (real_of_int q) < 53"
    using pos by (simp add: log_less_iff powr_realpow [symmetric])
  then have k52: "?k \<le> 52" using assms(1) by (simp add: floor_le_iff)
  define n where "n = nat (52 - ?k)"
  have e: "max (?k - 52) (- 1074) = - int n"
    using k0 k52 by (simp add: n_def)
  have pw: "(2 :: real) powi (- int n) = 1 / 2 ^ n"
    by (simp add: power_int_minus field_simps)
  have "real_of_int q / (1 / 2 ^ n) = of_int (q * 2 ^ n)"
    by simp
  then have r: "round_half_even (real_of_int q / (1 / 2 ^ n)) = q * 2 ^ n"
    by (simp only: round_half_even_of_int)
  have small: "\<not> (2 :: real) ^ 1024 \<le> \<bar>real_of_int q\<bar>"
  proof -
    note less
    also have "(2 :: real) ^ 53 \<le> 2 ^ 1024" by (rule power_increasing) simp_all
    finally show ?thesis using pos by simp
  qed
  have nz: "real_of_int q \<noteq> 0" using assms(1) by simp
  show ?thesis
    unfolding binary64_def Let_def e pw r using small nz by simp
qed

text \<open>An integer from \<open>2\<^sup>1\<^sup>0\<^sup>2\<^sup>4\<close> on is too large for a float.\<close>

lemma binary64_overflow:
  assumes "2 ^ 1024 \<le> q"
  shows "binary64 (of_int q) = Inl OverflowError"
proof -
  let ?x = "real_of_int q"
  let ?k = "\<lfloor>log 2 \<bar>?x\<bar>\<rfloor>"
  have big: "2 ^ 1024 \<le> ?x" using assms by (metis numeral_power_le_of_int_cancel_iff)
  then have pos: "0 < ?x" by (smt (verit) zero_less_power)
  have "(2 :: real) powr (real 1024) = 2 ^ 1024"
    by (rule powr_realpow) simp
  with big have "(2 :: real) powr 1024 \<le> ?x" by simp
  then have "1024 \<le> log 2 ?x"
    using pos by (subst le_log_iff) simp_all
  then have k: "1024 \<le> ?k" using pos by (simp add: le_floor_iff)
  then have e: "max (?k - 52) (- 1074) = ?k - 52" by simp
  have low: "2 powi ?k \<le> ?x"
    using floor_log2_below [OF pos] pos by simp
  have "(2 :: real) powi 52 = 2 powi ?k / 2 powi (?k - 52)"
    by (simp add: power_int_diff)
  also have "\<dots> \<le> ?x / 2 powi (?k - 52)"
    using low by (simp add: divide_right_mono)
  finally have "(2 :: real) ^ 52 \<le> ?x / 2 powi (?k - 52)" by simp
  then have "2 ^ 52 \<le> \<lfloor>?x / 2 powi (?k - 52)\<rfloor>"
    by (simp add: le_floor_iff)
  then have r: "2 ^ 52 \<le> round_half_even (?x / 2 powi (?k - 52))"
    using round_half_even_ge_floor order_trans by blast
  then have "(2 :: real) ^ 52 \<le> of_int (round_half_even (?x / 2 powi (?k - 52)))"
    by (metis numeral_power_le_of_int_cancel_iff)
  then have "(2 :: real) ^ 52 * 2 powi (?k - 52)
      \<le> of_int (round_half_even (?x / 2 powi (?k - 52))) * 2 powi (?k - 52)"
    by (simp add: mult_right_mono)
  moreover have "(2 :: real) ^ 52 * 2 powi (?k - 52) = 2 powi ?k"
    by (simp add: power_int_diff)
  moreover have "(2 :: real) ^ 1024 \<le> 2 powi ?k"
  proof -
    have "(2 :: real) powi 1024 \<le> 2 powi ?k"
      using k by (intro power_int_increasing) simp_all
    then show ?thesis by simp
  qed
  ultimately have y: "(2 :: real) ^ 1024
      \<le> of_int (round_half_even (?x / 2 powi (?k - 52))) * 2 powi (?k - 52)"
    by linarith
  have nz: "?x \<noteq> 0" using pos by simp
  show ?thesis
    unfolding binary64_def Let_def e using y nz
    by (simp add: abs_if)
qed

lemma int_truediv_exact:
  assumes "n \<noteq> 0" and "h mod n = 0" and "h < 2 ^ 53"
  shows "int_truediv (int h) (int n) = Inr (real (h div n))"
proof -
  from assms(1,2) have "n dvd h" by (simp add: dvd_eq_mod_eq_0)
  then have quot: "real_of_int (int h) / real_of_int (int n) = real_of_int (int (h div n))"
    by (simp add: real_of_nat_div)
  have "h div n \<le> h" by simp
  with assms(3) have small: "int (h div n) < 2 ^ 53"
    by (metis le_less_trans of_nat_less_numeral_power_cancel_iff)
  show ?thesis
  proof (cases "h div n = 0")
    case True
    with quot assms(1) show ?thesis
      by (simp add: int_truediv_def binary64_def)
  next
    case False
    then have "0 < int (h div n)" by simp
    from binary64_exact [OF this small] quot assms(1) show ?thesis
      by (simp add: int_truediv_def)
  qed
qed

lemma int_truediv_overflow:
  assumes "n \<noteq> 0" and "h mod n = 0" and "2 ^ 1024 \<le> h div n"
  shows "int_truediv (int h) (int n) = Inl OverflowError"
proof -
  from assms(1,2) have "n dvd h" by (simp add: dvd_eq_mod_eq_0)
  then have quot: "real_of_int (int h) / real_of_int (int n) = real_of_int (int (h div n))"
    by (simp add: real_of_nat_div)
  from assms(3) have "2 ^ 1024 \<le> int (h div n)"
    by (metis numeral_power_le_of_nat_cancel_iff)
  from binary64_overflow [OF this] quot assms(1) show ?thesis
    by (simp add: int_truediv_def)
qed

text \<open>
  Claim C9, as amended. Sizes are natural numbers. Constructing the attention block fails
  when the hidden width is not evenly divisible by the number of heads: with a remainder
  the error is the \<^verbatim>\<open>ValueError\<close> of the source, with zero heads the
  \<^verbatim>\<open>ZeroDivisionError\<close> of \<^verbatim>\<open>%\<close>. It does
  not fail only then: with divisible sizes the constructor of the dropout module raises
  \<^verbatim>\<open>ValueError\<close> for an attention dropout probability outside [0, 1], and the float
  division raises \<^verbatim>\<open>OverflowError\<close> for a quotient from \<open>2\<^sup>1\<^sup>0\<^sup>2\<^sup>4\<close> on. For a hidden width below
  \<open>2\<^sup>5\<^sup>3\<close> construction fails exactly when the sizes are not divisible or the probability is
  outside [0, 1]; otherwise it succeeds (the runtime finding the memory for the three
  projections) and the head size is the quotient.
\<close>

theorem RobertaSelfAttention_init_outcomes:
  "(num_attention_heads config = 0 \<longrightarrow>
      RobertaSelfAttention_init rt config = Inl ZeroDivisionError)
   \<and> (num_attention_heads config \<noteq> 0
        \<and> hidden_size config mod num_attention_heads config \<noteq> 0 \<longrightarrow>
       RobertaSelfAttention_init rt config = Inl ValueError)
   \<and> (num_attention_heads config \<noteq> 0
        \<and> hidden_size config mod num_attention_heads config = 0
        \<and> hidden_size config < 2 ^ 53
        \<and> 0 \<le> attention_probs_dropout_prob config
        \<and> attention_probs_dropout_prob config \<le> 1 \<longrightarrow>
       (\<exists>m. RobertaSelfAttention_init rt config = Inr m
            \<and> attention_head_size m = hidden_size config div num_attention_heads config
            \<and> sa_num_attention_heads m = num_attention_heads config
            \<and> all_head_size m = hidden_size config
            \<and> sa_dropout m = attention_probs_dropout_prob config))
   \<and> (num_attention_heads config \<noteq> 0
        \<and> hidden_size config mod num_attention_heads config = 0
        \<and> hidden_size config < 2 ^ 53
        \<and> (attention_probs_dropout_prob config < 0
             \<or> 1 < attention_probs_dropout_prob config) \<longrightarrow>
       RobertaSelfAttention_init rt config = Inl ValueError)
   \<and> (num_attention_heads config \<noteq> 0
        \<and> hidden_size config mod num_attention_heads config = 0
        \<and> 2 ^ 1024 \<le> hidden_size config div num_attention_heads config \<longrightarrow>
       RobertaSelfAttention_init rt config = Inl OverflowError)
   \<and> (hidden_size config < 2 ^ 53 \<longrightarrow>
       ((\<exists>e. RobertaSelfAttention_init rt config = Inl e)
        \<longleftrightarrow> (num_attention_heads config = 0
             \<or> hidden_size config mod num_attention_heads config \<noteq> 0
             \<or> attention_probs_dropout_prob config < 0
             \<or> 1 < attention_probs_dropout_prob config)))"
proof -
  let ?init = "RobertaSelfAttention_init rt config"
  let ?h = "hidden_size config" and ?n = "num_attention_heads config"
  let ?p = "attention_probs_dropout_prob config"
  have zero: "?init = Inl ZeroDivisionError" if "?n = 0"
    using that by (simp add: RobertaSelfAttention_init_def)
  have rest: "?init = Inl ValueError" if "?n \<noteq> 0" and "?h mod ?n \<noteq> 0"
    using that by (simp add: RobertaSelfAttention_init_def)
  have good: "\<exists>m. ?init = Inr m \<and> attention_head_size m = ?h div ?n
      \<and> sa_num_attention_heads m = ?n \<and> all_head_size m = ?h \<and> sa_dropout m = ?p"
    if "?n \<noteq> 0" and "?h mod ?n = 0" and "?h < 2 ^ 53" and "0 \<le> ?p" and "?p \<le> 1"
    using that int_truediv_exact [of ?n ?h]
    by (auto simp: RobertaSelfAttention_init_def Let_def nn_Dropout_def py_int_of_nat bindE_def
        mod_eq_0_iff_dvd)
  have prob: "?init = Inl ValueError"
    if "?n \<noteq> 0" and "?h mod ?n = 0" and "?h < 2 ^ 53" and "?p < 0 \<or> 1 < ?p"
    using that int_truediv_exact [of ?n ?h]
    by (auto simp: RobertaSelfAttention_init_def Let_def nn_Dropout_def bindE_def)
  have over: "?init = Inl OverflowError"
    if "?n \<noteq> 0" and "?h mod ?n = 0" and "2 ^ 1024 \<le> ?h div ?n"
    using that int_truediv_overflow [of ?n ?h]
    by (simp add: RobertaSelfAttention_init_def bindE_def)
  have iff: "(\<exists>e. ?init = Inl e) \<longleftrightarrow> (?n = 0 \<or> ?h mod ?n \<noteq> 0 \<or> ?p < 0 \<or> 1 < ?p)"
    if small: "?h < 2 ^ 53"
  proof (cases "?n = 0 \<or> ?h mod ?n \<noteq> 0 \<or> ?p < 0 \<or> 1 < ?p")
    case True
    then show ?thesis
      using zero rest prob [OF _ _ small] by (cases "?n = 0"; cases "?h mod ?n = 0") auto
  next
    case False
    with good [OF _ _ small] show ?thesis by auto
  qed
  show ?thesis
  proof (intro conjI impI, goal_cases)
    case 1
    then show ?case by (rule zero)
  next
    case 2
    then show ?case using rest by (elim conjE)
  next
    case 3
    then show ?case using good by (elim conjE)
  next
    case 4
    then show ?case using prob by (elim conjE)
  next
    case 5
    then show ?case using over by (elim conjE)
  next
    case 6
    then show ?case by (rule iff)
  qed
qed

theorem RobertaSelfAttention_init_outcomes_witness:
  "RobertaSelfAttention_init example_torch (example_config\<lparr>num_attention_heads := 0\<rparr>)
     = Inl ZeroDivisionError
   \<and> (7 :: nat) mod 3 \<noteq> 0
   \<and> RobertaSelfAttention_init example_torch
        (example_config\<lparr>hidden_size := 7, num_attention_heads := 3\<rparr>) = Inl ValueError
   \<and> (6 :: nat) mod 3 = 0 \<and> (6 :: nat) < 2 ^ 53
   \<and> (\<exists>m. RobertaSelfAttention_init example_torch
             (example_config\<lparr>hidden_size := 6, num_attention_heads := 3\<rparr>) = Inr m
          \<and> attention_head_size m = 2 \<and> sa_num_attention_heads m = 3
          \<and> all_head_size m = 6 \<and> sa_dropout m = 1 / 10)
   \<and> RobertaSelfAttention_init example_torch
        (example_config\<lparr>hidden_size := 6, num_attention_heads := 3,
           attention_probs_dropout_prob := 3 / 2\<rparr>) = Inl ValueError
   \<and> RobertaSelfAttention_init example_torch
        (example_config\<lparr>hidden_size := 6, num_attention_heads := 3,
           attention_probs_dropout_prob := - 1 / 2\<rparr>) = Inl ValueError
   \<and> (2 :: nat) ^ 1024 mod 1 = 0 \<and> (2 :: nat) ^ 1024 \<le> 2 ^ 1024 div 1
   \<and> RobertaSelfAttention_init example_torch
        (example_config\<lparr>hidden_size := 2 ^ 1024, num_attention_heads := 1\<rparr>)
     = Inl OverflowError
   \<and> (\<nexists>e. RobertaSelfAttention_init example_torch
             (example_config\<lparr>hidden_size := 6, num_attention_heads := 3\<rparr>) = Inl e)"
proof -
  note zero = RobertaSelfAttention_init_outcomes
    [of "example_config\<lparr>num_attention_heads := 0\<rparr>" example_torch]
  note seven = RobertaSelfAttention_init_outcomes
    [of "example_config\<lparr>hidden_size := 7, num_attention_heads := 3\<rparr>" example_torch]
  note six = RobertaSelfAttention_init_outcomes
    [of "example_config\<lparr>hidden_size := 6, num_attention_heads := 3\<rparr>" example_torch]
  note above = RobertaSelfAttention_init_outcomes
    [of "example_config\<lparr>hidden_size := 6, num_attention_heads := 3,
           attention_probs_dropout_prob := 3 / 2\<rparr>" example_torch]
  note below = RobertaSelfAttention_init_outcomes
    [of "example_config\<lparr>hidden_size := 6, num_attention_heads := 3,
           attention_probs_dropout_prob := - 1 / 2\<rparr>" example_torch]
  note huge = RobertaSelfAttention_init_outcomes
    [of "example_config\<lparr>hidden_size := 2 ^ 1024, num_attention_heads := 1\<rparr>" example_torch]
  have a: "RobertaSelfAttention_init example_torch (example_config\<lparr>num_attention_heads := 0\<rparr>)
           = Inl ZeroDivisionError"
    using zero by simp
  have b: "RobertaSelfAttention_init example_torch
             (example_config\<lparr>hidden_size := 7, num_attention_heads := 3\<rparr>) = Inl ValueError"
    using seven by simp
  have c: "\<exists>m. RobertaSelfAttention_init example_torch
             (example_config\<lparr>hidden_size := 6, num_attention_heads := 3\<rparr>) = Inr m
          \<and> attention_head_size m = 2 \<and> sa_num_attention_heads m = 3
          \<and> all_head_size m = 6 \<and> sa_dropout m = 1 / 10"
    using six by (simp add: example_config_def)
  have d: "RobertaSelfAttention_init example_torch
        (example_config\<lparr>hidden_size := 6, num_attention_heads := 3,
           attention_probs_dropout_prob := 3 / 2\<rparr>) = Inl ValueError"
    using above by simp
  have e: "RobertaSelfAttention_init example_torch
        (example_config\<lparr>hidden_size := 6, num_attention_heads := 3,
           attention_probs_dropout_prob := - 1 / 2\<rparr>) = Inl ValueError"
    using below by simp
  have f: "RobertaSelfAttention_init example_torch
        (example_config\<lparr>hidden_size := 2 ^ 1024, num_attention_heads := 1\<rparr>)
     = Inl OverflowError"
    using huge by simp
  have g: "\<nexists>e. RobertaSelfAttention_init example_torch
             (example_config\<lparr>hidden_size := 6, num_attention_heads := 3\<rparr>) = Inl e"
    using six by (simp add: example_config_def)
  from a b c d e f g show ?thesis
    by simp
qed

text \<open>
  The counterexample to C9 as stated: hidden width 6 and 3 heads are divisible, and with
  the attention dropout probability 3/2 construction fails.
\<close>

theorem RobertaSelfAttention_init_fails_on_divisible_sizes:
  "num_attention_heads
     (example_config\<lparr>hidden_size := 6, num_attention_heads := 3,
        attention_probs_dropout_prob := 3 / 2\<rparr>) \<noteq> 0
   \<and> hidden_size
       (example_config\<lparr>hidden_size := 6, num_attention_heads := 3,
          attention_probs_dropout_prob := 3 / 2\<rparr>)
     mod num_attention_heads
       (example_config\<lparr>hidden_size := 6, num_attention_heads := 3,
          attention_probs_dropout_prob := 3 / 2\<rparr>) = 0
   \<and> RobertaSelfAttention_init example_torch
       (example_config\<lparr>hidden_size := 6, num_attention_heads := 3,
          attention_probs_dropout_prob := 3 / 2\<rparr>) = Inl ValueError"
proof -
  have "int_truediv 6 3 = Inr 2"
    using int_truediv_exact [of 3 6] by simp
  then show ?thesis
    by (simp add: RobertaSelfAttention_init_def nn_Dropout_def Let_def bindE_def)
qed

subsection \<open>Embedding composer\<close>

lemma RobertaEmbeddings_init_flag_unread:
  assumes "optional_attrs config ''config.layernorm_embedding'' = None"
    and "0 \<le> hidden_dropout_prob config" and "hidden_dropout_prob config \<le> 1"
  shows "RobertaEmbeddings_init rt config =
     Inr \<lparr>word_embeddings = nn_Embedding rt (vocab_size config) (hidden_size config),
          position_embeddings =
            nn_Embedding rt (max_position_embeddings config) (hidden_size config),
          token_type_embeddings = nn_Embedding rt (type_vocab_size config) (hidden_size config),
          layernorm_embedding = False,
          emb_LayerNorm = None,
          emb_dropout = hidden_dropout_prob config\<rparr>"
  using assms by (simp add: RobertaEmbeddings_init_def hasattr_def bindE_def nn_Dropout_def)

text \<open>
  Claim C8. The composer is to normalize the sum of the three lookups before dropout
  exactly when the configuration's flag \<^verbatim>\<open>layernorm_embedding\<close> is set. The constructor
  reads the flag only if the configuration has an attribute named
  \<^verbatim>\<open>"config.layernorm_embedding"\<close>; a configuration that sets \<^verbatim>\<open>layernorm_embedding\<close> to
  true therefore yields a composer whose flag is false, and its output is the plain sum of
  the lookups (here the rows \<open>[1, 2]\<close> and \<open>[5, 6]\<close> of the token table, the other tables
  being zero), passed through dropout, not normalized.
\<close>

theorem RobertaEmbeddings_flag_set_not_normalized:
  "getattr example_config ''layernorm_embedding'' = Inr True
   \<and> (\<exists>m. RobertaEmbeddings_init example_torch example_config = Inr m
          \<and> \<not> layernorm_embedding m
          \<and> RobertaEmbeddings_forward example_torch
               (m\<lparr>word_embeddings := \<lparr>emb_weight = [[1, 2], [3, 4], [5, 6]]\<rparr>\<rparr>) [[0, 2]] None
             = Inr [[[1, 2], [5, 6]]])"
proof -
  have absent: "optional_attrs example_config ''config.layernorm_embedding'' = None"
    by (simp add: example_config_def)
  have prob: "0 \<le> hidden_dropout_prob example_config"
    "hidden_dropout_prob example_config \<le> 1"
    by (simp_all add: example_config_def)
  have flag: "getattr example_config ''layernorm_embedding'' = Inr True"
    by (simp add: getattr_def example_config_def)
  have two: "replicate 2 x = [x, x]" for x :: real
    by (simp add: numeral_2_eq_2)
  have run: "RobertaEmbeddings_forward example_torch
       (\<lparr>word_embeddings =
            nn_Embedding example_torch (vocab_size example_config) (hidden_size example_config),
          position_embeddings =
            nn_Embedding example_torch (max_position_embeddings example_config)
              (hidden_size example_config),
          token_type_embeddings =
            nn_Embedding example_torch (type_vocab_size example_config)
              (hidden_size example_config),
          layernorm_embedding = False,
          emb_LayerNorm = None,
          emb_dropout = hidden_dropout_prob example_config\<rparr>
        \<lparr>word_embeddings := \<lparr>emb_weight = [[1, 2], [3, 4], [5, 6]]\<rparr>\<rparr>) [[0, 2]] None
      = Inr [[[1, 2], [5, 6]]]"
    by (simp add: RobertaEmbeddings_forward_def Embedding_forward_def embedding_row_def
        nn_Embedding_def example_torch_def example_config_def size1_def zeros_like_def
        bindE_def add3_def Let_def two)
  show ?thesis
    using flag run by (simp add: RobertaEmbeddings_init_flag_unread [OF absent prob])
qed


subsection \<open>Masked-LM prediction head\<close>



lemma bindE_Inr [simp]: "bindE (Inr x) f = f x"
  by (simp add: bindE_def)

lemma bindE_Inl [simp]: "bindE (Inl e) f = Inl e"
  by (simp add: bindE_def)

lemma mapE_map: "mapE f (map g xs) = mapE (\<lambda>x. f (g x)) xs"
  by (induction xs) (simp_all split: sum.splits)

lemma mapE_total:
  "(\<And>x. x \<in> set xs \<Longrightarrow> f x = Inr (g x)) \<Longrightarrow> mapE f xs = Inr (map g xs)"
  by (induction xs) simp_all

lemma mapE_fails:
  "xs \<noteq> [] \<Longrightarrow> (\<And>x. x \<in> set xs \<Longrightarrow> f x = Inl e) \<Longrightarrow> mapE f xs = Inl e"
  by (cases xs) simp_all

lemma mapE_mapE_fails:
  "concat xss \<noteq> [] \<Longrightarrow> (\<And>x. f x = Inl e) \<Longrightarrow> mapE (mapE f) xss = Inl e"
proof (induction xss)
  case Nil
  then show ?case by simp
next
  case (Cons xs xss)
  show ?case
  proof (cases "xs = []")
    case True
    with Cons show ?thesis by simp
  next
    case False
    then have "mapE f xs = Inl e"
      using Cons.prems(2) by (intro mapE_fails) simp_all
    then show ?thesis by simp
  qed
qed

lemma bindE_mapE_map:
  "bindE (mapE f xs) (\<lambda>ys. k (map d ys))
   = bindE (mapE (\<lambda>x. bindE (f x) (\<lambda>y. Inr (d y))) xs) k"
proof (induction xs arbitrary: k)
  case Nil
  then show ?case by (simp add: bindE_def)
next
  case (Cons x xs)
  show ?case
  proof (cases "f x")
    case (Inl e)
    then show ?thesis by (simp add: bindE_def)
  next
    case (Inr y)
    have "bindE (mapE f xs) (\<lambda>ys. k (d y # map d ys))
          = bindE (mapE (\<lambda>x. bindE (f x) (\<lambda>y. Inr (d y))) xs) (\<lambda>zs. k (d y # zs))"
      using Cons.IH [of "\<lambda>zs. k (d y # zs)"] by simp
    with Inr show ?thesis
      by (simp add: bindE_def split: sum.splits)
  qed
qed

lemma index_select_in_range:
  "\<forall>i\<in>set indexes. i < length X \<Longrightarrow> index_select X indexes = Inr (map ((!) X) indexes)"
  unfolding index_select_def by (rule mapE_total) simp

lemma length_F_linear:
  "length (F_linear x W b) = (case b of None \<Rightarrow> length W | Some bs \<Rightarrow> min (length W) (length bs))"
  by (simp add: F_linear_def split: option.splits)

lemma linear_layer_forward_uniform:
  "(\<exists>e. \<forall>x. linear_layer_forward rt m x = Inl e)
   \<or> (\<exists>n. \<forall>x. \<exists>y. linear_layer_forward rt m x = Inr y \<and> length y = n)"
  by (cases m)
    (auto simp: linear_layer_forward_def LinearActivation_forward_def
      RegularLinearActivation_forward_def Linear_forward_def bias_gelu_def bias_tanh_def
      bias_relu_def length_F_linear split: option.splits)

lemma RMSNorm_forward_error_by_length:
  assumes "length x = length y" and "RMSNorm_forward r x = Inl e"
  shows "RMSNorm_forward r y = Inl e"
proof (cases "rms_p r < 0 \<or> rms_p r > 1")
  case True
  with assms(2) show ?thesis
    by (auto simp: RMSNorm_forward_def bindE_def Let_def split: sum.splits if_splits)
next
  case False
  let ?a = "py_int (real (rms_d r) * rms_p r)"
  let ?b = "int (rms_d r) - ?a"
  show ?thesis
  proof (cases "?a < 0 \<or> ?b < 0 \<or> ?a + ?b \<noteq> int (length x)")
    case True
    with False assms show ?thesis
      by (simp add: RMSNorm_forward_def bindE_def torch_split_def Let_def)
  next
    case split_ok: False
    with False assms(2) have "pow_neg_half ?a = Inl e"
      by (auto simp: RMSNorm_forward_def bindE_def torch_split_def Let_def
          split: sum.splits if_splits prod.splits)
    with False split_ok assms(1) show ?thesis
      by (auto simp: RMSNorm_forward_def torch_split_def Let_def)
  qed
qed

lemma norm_forward_error_by_length:
  "length x = length y \<Longrightarrow> norm_forward m x = Inl e \<Longrightarrow> norm_forward m y = Inl e"
  by (cases m) (auto simp: norm_forward_def dest: RMSNorm_forward_error_by_length)

lemma transform_error_uniform:
  assumes "RobertaPredictionHeadTransform_forward rt t x = Inl e"
  shows "RobertaPredictionHeadTransform_forward rt t y = Inl e"
proof -
  from linear_layer_forward_uniform [of rt "tr_dense_act t"]
  show ?thesis
  proof
    assume "\<exists>e. \<forall>x. linear_layer_forward rt (tr_dense_act t) x = Inl e"
    with assms show ?thesis
      by (auto simp: RobertaPredictionHeadTransform_forward_def bindE_def)
  next
    assume "\<exists>n. \<forall>x. \<exists>y. linear_layer_forward rt (tr_dense_act t) x = Inr y \<and> length y = n"
    then obtain n where n: "\<And>x. \<exists>y. linear_layer_forward rt (tr_dense_act t) x = Inr y \<and> length y = n"
      by blast
    from n [of x] obtain u where u: "linear_layer_forward rt (tr_dense_act t) x = Inr u" "length u = n"
      by blast
    from n [of y] obtain v where v: "linear_layer_forward rt (tr_dense_act t) y = Inr v" "length v = n"
      by blast
    from assms u have "useLN (tr_config t)" and "norm_forward (tr_LayerNorm t) u = Inl e"
      by (auto simp: RobertaPredictionHeadTransform_forward_def bindE_def split: if_splits)
    then show ?thesis
      using v u norm_forward_error_by_length [of u v "tr_LayerNorm t" e]
      by (simp add: RobertaPredictionHeadTransform_forward_def bindE_def)
  qed
qed

lemma head_forward_rows:
  assumes "indexes \<noteq> []" and "\<forall>i\<in>set indexes. i < length (concat hidden_states)"
  shows "RobertaLMPredictionHead_forward rt m hidden_states (Some indexes)
         = bindE (mapE (\<lambda>i. bindE (RobertaPredictionHeadTransform_forward rt (head_transform m)
                                     (concat hidden_states ! i))
                               (\<lambda>h. Inr (decoder m h))) indexes)
             (\<lambda>rows. Inr (Rows rows))"
proof (cases "sparse_predict m")
  case True
  then show ?thesis
    using assms(2) bindE_mapE_map [of "\<lambda>i. RobertaPredictionHeadTransform_forward rt (head_transform m) (concat hidden_states ! i)" indexes "\<lambda>rows. Inr (Rows rows)" "decoder m"]
    by (simp add: RobertaLMPredictionHead_forward_def index_select_in_range mapE_map bindE_def)
next
  case False
  let ?T = "RobertaPredictionHeadTransform_forward rt (head_transform m)"
  from assms obtain i where "i < length (concat hidden_states)"
    by (cases indexes) auto
  then have nonempty: "concat hidden_states \<noteq> []"
    by (metis length_greater_0_conv less_nat_zero_code neq0_conv)
  show ?thesis
  proof (cases "\<exists>x e. ?T x = Inl e")
    case True
    then obtain e where e: "\<And>y. ?T y = Inl e"
      using transform_error_uniform by blast
    have "mapE (mapE ?T) hidden_states = Inl e"
      using nonempty e by (rule mapE_mapE_fails)
    moreover have "mapE (\<lambda>i. bindE (?T (concat hidden_states ! i)) (\<lambda>h. Inr (decoder m h))) indexes = Inl e"
      using assms(1) by (rule mapE_fails) (simp add: e bindE_def)
    ultimately show ?thesis
      using False by (simp add: RobertaLMPredictionHead_forward_def bindE_def)
  next
    case False
    define g where "g x = projr (?T x)" for x
    have g: "?T x = Inr (g x)" for x
      using False by (cases "?T x") (auto simp: g_def)
    have all: "mapE (mapE ?T) hidden_states = Inr (map (map g) hidden_states)"
      by (intro mapE_total) (simp add: g)
    have sel: "index_select (concat (map (map (\<lambda>x. decoder m (g x))) hidden_states)) indexes
               = Inr (map (\<lambda>i. decoder m (g (concat hidden_states ! i))) indexes)"
    proof -
      have c: "concat (map (map (\<lambda>x. decoder m (g x))) hidden_states)
               = map (\<lambda>x. decoder m (g x)) (concat hidden_states)"
        by (simp add: map_concat)
      show ?thesis
        unfolding c using assms(2) by (simp add: index_select_in_range)
    qed
    have rhs: "mapE (\<lambda>i. bindE (?T (concat hidden_states ! i)) (\<lambda>h. Inr (decoder m h))) indexes
               = Inr (map (\<lambda>i. decoder m (g (concat hidden_states ! i))) indexes)"
      by (intro mapE_total) (simp add: g bindE_def)
    from \<open>\<not> sparse_predict m\<close> show ?thesis
      by (simp add: RobertaLMPredictionHead_forward_def all sel rhs comp_def)
  qed
qed


lemma transform_forward_cong:
  assumes "tr_dense_act t = tr_dense_act t'" and "tr_LayerNorm t = tr_LayerNorm t'"
    and "useLN (tr_config t) = useLN (tr_config t')"
  shows "RobertaPredictionHeadTransform_forward rt t x
         = RobertaPredictionHeadTransform_forward rt t' x"
  using assms by (simp add: RobertaPredictionHeadTransform_forward_def cong: if_cong)

lemma map2_add_zeros: "map2 (+) xs (replicate (length xs) (0 :: real)) = xs"
  by (induction xs) simp_all

lemma bindE_assoc: "bindE (bindE r f) g = bindE r (\<lambda>x. bindE (f x) g)"
  by (cases r) simp_all

lemma bindE_Inr_id: "bindE r Inr = r"
  by (cases r) simp_all

lemma RobertaLMPredictionHead_init_wiring:
  assumes "RobertaLMPredictionHead_init rt config W = Inr m"
  shows "decoder_weight m = W \<and> sparse_predict m = sparse_mask_prediction config
         \<and> decoder_has_bias m = (\<not> sparse_mask_prediction config)
         \<and> head_bias m = replicate (length W) 0"
  using assms by (auto simp: RobertaLMPredictionHead_init_def bindE_def split: sum.splits)

text \<open>
  Claim C1, as amended. The claim that the head returns the same rows with sparse mode on
  and off for identical parameter values fails: the constructor wires the bias vector into
  the decoder only when sparse mode is off. What holds, for a non-empty index list within
  range and the same transform, decoder weight and bias vector: the rows returned with
  sparse mode off are the rows returned with sparse mode on, each plus the bias vector
  (errors agree); the two outputs coincide when the bias vector is zero, as the
  constructor initializes it. The last conjunct is the constructor's wiring: the decoder
  carries the bias exactly when sparse mode is off, and the bias starts as zeros.
\<close>

theorem sparse_head_rows_lack_bias:
  assumes "tr_dense_act t = tr_dense_act t'" and "tr_LayerNorm t = tr_LayerNorm t'"
    and "useLN (tr_config t) = useLN (tr_config t')"
    and "indexes \<noteq> []" and "\<forall>i\<in>set indexes. i < length (concat hidden_states)"
  shows "RobertaLMPredictionHead_forward rt
           \<lparr>head_transform = t', decoder_weight = W, decoder_has_bias = True, head_bias = b,
            sparse_predict = False\<rparr> hidden_states (Some indexes)
         = bindE (RobertaLMPredictionHead_forward rt
                    \<lparr>head_transform = t, decoder_weight = W, decoder_has_bias = False,
                     head_bias = b, sparse_predict = True\<rparr> hidden_states (Some indexes))
             (\<lambda>rows. Inr (Rows (map (\<lambda>row. map2 (+) row b) (logits_rows rows))))
         \<and> (b = replicate (length W) 0 \<longrightarrow>
             RobertaLMPredictionHead_forward rt
               \<lparr>head_transform = t', decoder_weight = W, decoder_has_bias = True, head_bias = b,
                sparse_predict = False\<rparr> hidden_states (Some indexes)
             = RobertaLMPredictionHead_forward rt
                 \<lparr>head_transform = t, decoder_weight = W, decoder_has_bias = False,
                  head_bias = b, sparse_predict = True\<rparr> hidden_states (Some indexes))
         \<and> (RobertaLMPredictionHead_init rt config W = Inr m \<longrightarrow>
             m = \<lparr>head_transform = head_transform m, decoder_weight = W,
                  decoder_has_bias = (\<not> sparse_mask_prediction config),
                  head_bias = replicate (length W) 0,
                  sparse_predict = sparse_mask_prediction config\<rparr>)"
proof -
  let ?dense = "\<lparr>head_transform = t', decoder_weight = W, decoder_has_bias = True,
                 head_bias = b, sparse_predict = False\<rparr>"
  let ?sparse = "\<lparr>head_transform = t, decoder_weight = W, decoder_has_bias = False,
                  head_bias = b, sparse_predict = True\<rparr>"
  let ?row = "\<lambda>i. bindE (RobertaPredictionHeadTransform_forward rt t (concat hidden_states ! i))
                     (\<lambda>h. Inr (map (dot h) W))"
  have T: "RobertaPredictionHeadTransform_forward rt t' x
           = RobertaPredictionHeadTransform_forward rt t x" for x
    using assms(1-3) by (rule transform_forward_cong [symmetric])
  have sparse: "RobertaLMPredictionHead_forward rt ?sparse hidden_states (Some indexes)
                = bindE (mapE ?row indexes) (\<lambda>rows. Inr (Rows rows))"
    using head_forward_rows [OF assms(4,5), of rt ?sparse]
    by (simp add: decoder_def F_linear_def)
  have "RobertaLMPredictionHead_forward rt ?dense hidden_states (Some indexes)
        = bindE (mapE (\<lambda>i. bindE (?row i) (\<lambda>row. Inr (map2 (+) row b))) indexes)
            (\<lambda>rows. Inr (Rows rows))"
    using head_forward_rows [OF assms(4,5), of rt ?dense]
    by (simp add: decoder_def F_linear_def T bindE_assoc)
  also have "\<dots> = bindE (mapE ?row indexes) (\<lambda>rows. Inr (Rows (map (\<lambda>row. map2 (+) row b) rows)))"
    using bindE_mapE_map [of ?row indexes "\<lambda>rows. Inr (Rows rows)" "\<lambda>row. map2 (+) row b"]
    by simp
  finally have dense: "RobertaLMPredictionHead_forward rt ?dense hidden_states (Some indexes)
        = bindE (mapE ?row indexes) (\<lambda>rows. Inr (Rows (map (\<lambda>row. map2 (+) row b) rows)))" .
  have first: "RobertaLMPredictionHead_forward rt ?dense hidden_states (Some indexes)
        = bindE (RobertaLMPredictionHead_forward rt ?sparse hidden_states (Some indexes))
            (\<lambda>rows. Inr (Rows (map (\<lambda>row. map2 (+) row b) (logits_rows rows))))"
    unfolding dense sparse by (simp add: bindE_assoc logits_rows_def)
  have second: "RobertaLMPredictionHead_forward rt ?dense hidden_states (Some indexes)
        = RobertaLMPredictionHead_forward rt ?sparse hidden_states (Some indexes)"
    if zero: "b = replicate (length W) 0"
  proof -
    have "bindE (?row i) (\<lambda>row. Inr (map2 (+) row b)) = ?row i" for i
      using map2_add_zeros [of "map (dot h) W" for h]
      by (cases "RobertaPredictionHeadTransform_forward rt t (concat hidden_states ! i)")
        (simp_all add: zero)
    then show ?thesis
      using head_forward_rows [OF assms(4,5), of rt ?dense] sparse
      by (simp add: decoder_def F_linear_def T bindE_assoc)
  qed
  have third: "m = \<lparr>head_transform = head_transform m, decoder_weight = W,
                    decoder_has_bias = (\<not> sparse_mask_prediction config),
                    head_bias = replicate (length W) 0,
                    sparse_predict = sparse_mask_prediction config\<rparr>"
    if "RobertaLMPredictionHead_init rt config W = Inr m"
    using RobertaLMPredictionHead_init_wiring [OF that] by simp
  from first second third show ?thesis by blast
qed


theorem sparse_head_rows_lack_bias_witness:
  "tr_dense_act (head_transform (example_head True))
     = tr_dense_act (head_transform (example_head False))
   \<and> [0 :: nat] \<noteq> []
   \<and> (0 :: nat) < length (concat [[[1, 0 :: real]]])
   \<and> RobertaLMPredictionHead_forward example_torch (example_head False) [[[1, 0]]] (Some [0])
     = bindE (RobertaLMPredictionHead_forward example_torch (example_head True) [[[1, 0]]]
                (Some [0]))
         (\<lambda>rows. Inr (Rows (map (\<lambda>row. map2 (+) row [1, 1, 1]) (logits_rows rows))))
   \<and> [0, 0, 0 :: real] = replicate (length [[1, 0], [0, 1], [1, 1 :: real]]) 0
   \<and> RobertaLMPredictionHead_forward example_torch
        ((example_head False)\<lparr>head_bias := [0, 0, 0]\<rparr>) [[[1, 0]]] (Some [0])
     = RobertaLMPredictionHead_forward example_torch
         ((example_head True)\<lparr>head_bias := [0, 0, 0]\<rparr>) [[[1, 0]]] (Some [0])
   \<and> (\<exists>m. RobertaLMPredictionHead_init example_torch example_config [[1, 0], [0, 1], [1, 1]]
             = Inr m
          \<and> sparse_predict m \<and> \<not> decoder_has_bias m \<and> head_bias m = [0, 0, 0])"
proof -
  have three: "replicate 3 (0 :: real) = [0, 0, 0]"
    by (simp add: numeral_3_eq_3)
  have built: "\<exists>m. RobertaLMPredictionHead_init example_torch example_config
                      [[1, 0], [0, 1], [1, 1]] = Inr m"
    by (simp add: RobertaLMPredictionHead_init_def RobertaPredictionHeadTransform_init_def
        linear_layer_init_def RegularLinearActivation_init_def ACT2FN_def
        get_layer_norm_type_def LAYER_NORM_TYPES_def example_config_def)
  then obtain m where m: "RobertaLMPredictionHead_init example_torch example_config
                            [[1, 0], [0, 1], [1, 1]] = Inr m" ..
  note ones = sparse_head_rows_lack_bias
    [of "head_transform (example_head True)" "head_transform (example_head False)" "[0]"
        "[[[1, 0]]]" example_torch "[[1, 0], [0, 1], [1, 1]]" "[1, 1, 1]" example_config m]
  note zeros = sparse_head_rows_lack_bias
    [of "head_transform (example_head True)" "head_transform (example_head False)" "[0]"
        "[[[1, 0]]]" example_torch "[[1, 0], [0, 1], [1, 1]]" "[0, 0, 0]" example_config m,
      THEN conjunct2, THEN conjunct1]
  have wired: "sparse_predict m \<and> \<not> decoder_has_bias m \<and> head_bias m = [0, 0, 0]"
  proof -
    from ones m have "m = \<lparr>head_transform = head_transform m,
        decoder_weight = [[1, 0], [0, 1], [1, 1]],
        decoder_has_bias = (\<not> sparse_mask_prediction example_config),
        head_bias = replicate (length [[1, 0], [0, 1], [1, 1 :: real]]) 0,
        sparse_predict = sparse_mask_prediction example_config\<rparr>"
      by (simp add: example_head_def)
    then have "sparse_predict m = sparse_mask_prediction example_config"
      and "decoder_has_bias m = (\<not> sparse_mask_prediction example_config)"
      and "head_bias m = replicate (length [[1, 0], [0, 1], [1, 1 :: real]]) 0"
      by (metis RobertaLMPredictionHead.select_convs)+
    then show ?thesis
      by (simp add: example_config_def three)
  qed
  from ones zeros wired m show ?thesis
    by (simp add: example_head_def three)
qed

text \<open>
  The counterexample to C1 as stated: one position with hidden state \<open>[1, 0]\<close>, the same
  transform, decoder weight and bias \<open>[1, 1, 1]\<close> in both heads.
\<close>

theorem sparse_and_dense_head_outputs_differ:
  "RobertaLMPredictionHead_forward example_torch (example_head True) [[[1, 0]]] (Some [0])
     = Inr (Rows [[1, 0, 1]])
   \<and> RobertaLMPredictionHead_forward example_torch (example_head False) [[[1, 0]]] (Some [0])
     = Inr (Rows [[2, 1, 2]])
   \<and> RobertaLMPredictionHead_forward example_torch (example_head True) [[[1, 0]]] (Some [0])
     \<noteq> RobertaLMPredictionHead_forward example_torch (example_head False) [[[1, 0]]] (Some [0])"
  by (simp add: RobertaLMPredictionHead_forward_def example_head_def index_select_def
      RobertaPredictionHeadTransform_forward_def linear_layer_forward_def
      RegularLinearActivation_forward_def Linear_forward_def F_linear_def dot_def
      example_linear_def F_relu_def decoder_def example_config_def)


subsection \<open>Masked-token indexes and the masked-LM loss\<close>


lemma masked_token_indexes_of_filter:
  "masked_token_indexes_of labels
   = filter (\<lambda>i. concat labels ! i \<noteq> - 1) [0..<length (concat labels)]"
proof -
  have "(l + 1 \<noteq> 0) = (l \<noteq> - 1)" for l :: "64 word"
    by (simp add: eq_neg_iff_add_eq_0)
  then show ?thesis
    unfolding masked_token_indexes_of_def nonzero_def
    by (intro filter_cong) simp_all
qed

lemma upt_10: "[0..<10] = [0, 1, 2, 3, 4, 5, 6, 7, 8, 9 :: nat]"
  by code_simp

lemma masked_token_indexes_of_example:
  assumes "a \<noteq> - 1" and "b \<noteq> - 1"
  shows "masked_token_indexes_of [[- 1, - 1, a, - 1, - 1], [b, - 1, - 1, - 1, - 1]] = [2, 5]"
  using assms by (simp add: masked_token_indexes_of_filter upt_10)

lemma target_gathered:
  "index_select (concat labels) (masked_token_indexes_of labels)
   = Inr (map (\<lambda>i. concat labels ! i) (masked_token_indexes_of labels))"
  by (rule index_select_in_range) (simp add: masked_token_indexes_of_filter)

lemma lm_head_model_loss:
  assumes model:
      "RobertaModel_forward rt (lm_roberta m) input_ids token_type_ids attention_mask
         (if lm_is_Ngram m then batch5 else None) (if lm_is_Ngram m then batch6 else None)
         (if lm_is_Ngram m then batch7 else None) (if lm_is_Ngram m then batch8 else None)
         False False False
       = Inr (LastLayer sequence_output, pooled_output, attentions)"
    and shape: "length (concat sequence_output) = length (concat labels)"
    and some: "masked_token_indexes_of labels \<noteq> []"
  shows "RobertaLMHeadModel_forward rt m input_ids attention_mask token_type_ids (Some labels)
           batch5 batch6 batch7 batch8 output_attentions
         = bindE (mapE (\<lambda>i. bindE (RobertaPredictionHeadTransform_forward rt
                                       (head_transform (mlm_predictions (lm_cls m)))
                                       (concat sequence_output ! i))
                                (\<lambda>h. Inr (decoder (mlm_predictions (lm_cls m)) h)))
                    (masked_token_indexes_of labels))
             (\<lambda>rows.
                bindE (view_rows (vocab_size (lm_config m)) rows)
                  (\<lambda>scores.
                     Inr (Outputs
                            (CrossEntropyLoss rt (- 1) scores
                               (map (\<lambda>i. concat labels ! i) (masked_token_indexes_of labels)))
                            (if output_attentions then Some pooled_output else None))))"
proof -
  have range: "\<forall>i\<in>set (masked_token_indexes_of labels). i < length (concat sequence_output)"
    by (simp add: shape masked_token_indexes_of_filter)
  show ?thesis
    by (simp add: RobertaLMHeadModel_forward_def model RobertaOnlyMLMHead_forward_def
        head_forward_rows [OF some range] target_gathered bindE_assoc logits_rows_def Let_def)
qed

lemma pretraining_loss:
  assumes model:
      "RobertaModel_forward rt (pt_roberta m) input_ids token_type_ids attention_mask
         None None None None False False False
       = Inr (LastLayer sequence_output, pooled_output, attentions)"
    and shape: "length (concat sequence_output) = length (concat labels)"
    and some: "masked_token_indexes_of labels \<noteq> []"
  shows "RobertaForPreTraining_forward rt m input_ids attention_mask token_type_ids
           (Some next_sentence_label) (Some labels)
         = bindE (mapE (\<lambda>i. bindE (RobertaPredictionHeadTransform_forward rt
                                       (head_transform (predictions (pt_cls m)))
                                       (concat sequence_output ! i))
                                (\<lambda>h. Inr (decoder (predictions (pt_cls m)) h)))
                    (masked_token_indexes_of labels))
             (\<lambda>rows.
                bindE (view_rows (vocab_size (pt_config m)) rows)
                  (\<lambda>scores.
                     bindE (view_rows 2
                              (map (Linear_forward (seq_relationship (pt_cls m))) pooled_output))
                       (\<lambda>relationship.
                          Inr (TotalLoss
                                 (CrossEntropyLoss rt (- 1) scores
                                    (map (\<lambda>i. concat labels ! i)
                                       (masked_token_indexes_of labels))
                                  + CrossEntropyLoss rt (- 1) relationship
                                      next_sentence_label)))))"
proof -
  have range: "\<forall>i\<in>set (masked_token_indexes_of labels). i < length (concat sequence_output)"
    by (simp add: shape masked_token_indexes_of_filter)
  show ?thesis
    by (simp add: RobertaForPreTraining_forward_def model RobertaPreTrainingHeads_forward_def
        head_forward_rows [OF some range] target_gathered bindE_assoc logits_rows_def Let_def)
qed


lemma transpose_row: "transpose [[a, b :: real]] = [[a], [b]]"
  by (simp add: transpose.simps)

lemma transpose_column: "transpose [[a :: real], [b]] = [[a, b]]"
  by (simp add: transpose.simps)

lemma example_norm_constant_row:
  "norm_forward3 example_norm [[[c, c]]] = Inr [[[0, 0]]]"
  by (simp add: norm_forward3_def norm_forward_def example_norm_def LayerNorm_forward_def Let_def)

lemma example_attention_zero:
  "RobertaAttention_forward example_torch (layer_attention example_layer) [[[0, 0]]] [[[[0]]]]
   = ([[[0, 0]]], [[[[1]]]])"
  by (simp add: RobertaAttention_forward_def RobertaSelfAttention_forward_def
      RobertaSelfOutput_forward_def example_layer_def example_torch_def example_linear_def
      transpose_for_scores_def transpose_key_for_scores_def Linear_forward_def F_linear_def
      dot_def matmul_def add4_broadcast_def bmap2_def softmax_def Let_def transpose_row
      transpose_column)

lemma str_in_pre_pre: "str_in ''pre-ln'' ''pre-ln''"
  by (simp add: str_in_def)

lemma str_in_pre_post: "\<not> str_in ''pre-ln'' ''post-ln''"
  unfolding str_in_def by code_simp

lemma example_layer_constant_row:
  "RobertaLayer_forward example_torch example_layer [[[c, c]]] [[[[0]]]] 1 1
   = Inr ([[[c, c]]], Some [[[[1]]]])"
proof -
  have pre: "maybe_layer_norm example_layer [[[c, c]]] example_norm ''pre-ln'' = Inr [[[0, 0]]]"
    by (simp add: maybe_layer_norm_def example_layer_def example_config_def str_in_pre_pre
        example_norm_constant_row)
  have post: "maybe_layer_norm example_layer x example_norm ''post-ln'' = Inr x" for x
    by (simp add: maybe_layer_norm_def example_layer_def example_config_def str_in_pre_post)
  have ffn: "RobertaIntermediate_forward example_torch (layer_intermediate example_layer) [[[0, 0]]]
             = Inr [[[0, 0]]]"
    by (simp add: RobertaIntermediate_forward_def example_layer_def linear_layer_forward_def
        RegularLinearActivation_forward_def example_linear_def Linear_forward_def F_linear_def
        dot_def F_relu_def)
  have out: "RobertaOutput_forward example_torch (layer_output example_layer) [[[0, 0]]] = [[[0, 0]]]"
    by (simp add: RobertaOutput_forward_def example_layer_def example_torch_def
        example_linear_def Linear_forward_def F_linear_def dot_def)
  have norms: "PreAttentionLayerNorm example_layer = example_norm"
    "PostAttentionLayerNorm example_layer = example_norm"
    by (simp_all add: example_layer_def)
  show ?thesis
    by (simp add: RobertaLayer_forward_def norms pre post example_attention_zero ffn out
        times_one_over_def add3_def)
qed

lemma example_model_forward:
  "RobertaModel_forward example_torch example_model [[2]] None None None None None None
     False False False
   = Inr (LastLayer [[[0, 0]]], [[0, 0]], None)"
proof -
  have emb: "RobertaEmbeddings_forward example_torch (embeddings example_model) [[2]]
               (Some (zeros_like [[2]])) = Inr [[[3, 3]]]"
    by (simp add: RobertaEmbeddings_forward_def example_model_def Embedding_forward_def
        embedding_row_def size1_def zeros_like_def add3_def example_torch_def Let_def)
  have enc: "RobertaEncoder_forward example_torch (encoder example_model) [[[3, 3]]] [[[[0]]]]
               None None None False False False = Inr ([Tensor [[[0, 0]]]], None)"
    by (simp add: RobertaEncoder_forward_def example_model_def example_encoder_def modules_def
        encoder_step_def example_layer_constant_row final_layer_norm_def example_config_def
        str_in_pre_pre example_norm_constant_row)
  have pool: "RobertaPooler_forward example_torch (pooler example_model) [[[0, 0]]] = Inr [[0, 0]]"
    by (simp add: RobertaPooler_forward_def example_model_def first_token_def
        linear_layer_forward_def RegularLinearActivation_forward_def example_linear_def
        Linear_forward_def F_linear_def dot_def)
  have mask: "extended_attention_mask (ones_like [[2]]) = [[[[0]]]]"
    by (simp add: extended_attention_mask_def ones_like_def)
  have ngram: "\<not> model_is_Ngram example_model"
    by (simp add: example_model_def)
  show ?thesis
    by (simp add: RobertaModel_forward_def emb enc pool mask ngram last_layer_def Let_def)
qed


text \<open>
  Claim C5. The masked-token index list is the list of flat positions whose label is not
  \<open>-1\<close>, in ascending order; for a (2, 5) label tensor with real labels only at (0, 2) and
  (1, 0) it is \<open>[2, 5]\<close>. In both pretraining variants, when the model returns a
  sequence output with as many positions as there are labels and some label is real, the
  masked-LM loss is the cross-entropy of the logit rows computed from the hidden states at
  those indexes and the labels gathered at those indexes (plus, for joint pretraining, the
  next-sentence loss).
\<close>

theorem masked_token_indexes_and_loss:
  "masked_token_indexes_of labels
     = filter (\<lambda>i. concat labels ! i \<noteq> - 1) [0..<length (concat labels)]
   \<and> sorted_wrt (<) (masked_token_indexes_of labels)
   \<and> (a \<noteq> - 1 \<and> b \<noteq> - 1 \<longrightarrow>
        masked_token_indexes_of [[- 1, - 1, a, - 1, - 1], [b, - 1, - 1, - 1, - 1]] = [2, 5])
   \<and> (\<forall>sequence_output pooled_output attentions.
         RobertaModel_forward rt (lm_roberta m) input_ids token_type_ids attention_mask
           (if lm_is_Ngram m then batch5 else None) (if lm_is_Ngram m then batch6 else None)
           (if lm_is_Ngram m then batch7 else None) (if lm_is_Ngram m then batch8 else None)
           False False False
           = Inr (LastLayer sequence_output, pooled_output, attentions)
         \<and> length (concat sequence_output) = length (concat labels)
         \<and> masked_token_indexes_of labels \<noteq> [] \<longrightarrow>
         RobertaLMHeadModel_forward rt m input_ids attention_mask token_type_ids (Some labels)
           batch5 batch6 batch7 batch8 output_attentions
         = bindE (mapE (\<lambda>i. bindE (RobertaPredictionHeadTransform_forward rt
                                       (head_transform (mlm_predictions (lm_cls m)))
                                       (concat sequence_output ! i))
                                (\<lambda>h. Inr (decoder (mlm_predictions (lm_cls m)) h)))
                    (masked_token_indexes_of labels))
             (\<lambda>rows.
                bindE (view_rows (vocab_size (lm_config m)) rows)
                  (\<lambda>scores.
                     Inr (Outputs
                            (CrossEntropyLoss rt (- 1) scores
                               (map (\<lambda>i. concat labels ! i) (masked_token_indexes_of labels)))
                            (if output_attentions then Some pooled_output else None)))))
   \<and> (\<forall>sequence_output pooled_output attentions.
         RobertaModel_forward rt (pt_roberta p) input_ids token_type_ids attention_mask
           None None None None False False False
           = Inr (LastLayer sequence_output, pooled_output, attentions)
         \<and> length (concat sequence_output) = length (concat labels)
         \<and> masked_token_indexes_of labels \<noteq> [] \<longrightarrow>
         RobertaForPreTraining_forward rt p input_ids attention_mask token_type_ids
           (Some next_sentence_label) (Some labels)
         = bindE (mapE (\<lambda>i. bindE (RobertaPredictionHeadTransform_forward rt
                                       (head_transform (predictions (pt_cls p)))
                                       (concat sequence_output ! i))
                                (\<lambda>h. Inr (decoder (predictions (pt_cls p)) h)))
                    (masked_token_indexes_of labels))
             (\<lambda>rows.
                bindE (view_rows (vocab_size (pt_config p)) rows)
                  (\<lambda>scores.
                     bindE (view_rows 2
                              (map (Linear_forward (seq_relationship (pt_cls p))) pooled_output))
                       (\<lambda>relationship.
                          Inr (TotalLoss
                                 (CrossEntropyLoss rt (- 1) scores
                                    (map (\<lambda>i. concat labels ! i)
                                       (masked_token_indexes_of labels))
                                  + CrossEntropyLoss rt (- 1) relationship
                                      next_sentence_label))))))"
proof (intro conjI allI impI)
  show "masked_token_indexes_of labels
        = filter (\<lambda>i. concat labels ! i \<noteq> - 1) [0..<length (concat labels)]"
    by (rule masked_token_indexes_of_filter)
  show "sorted_wrt (<) (masked_token_indexes_of labels)"
    by (simp add: masked_token_indexes_of_filter sorted_wrt_filter)
  show "masked_token_indexes_of [[- 1, - 1, a, - 1, - 1], [b, - 1, - 1, - 1, - 1]] = [2, 5]"
    if "a \<noteq> - 1 \<and> b \<noteq> - 1"
    using that by (simp add: masked_token_indexes_of_example)
qed ((elim conjE, rule lm_head_model_loss, assumption+)
    | (elim conjE, rule pretraining_loss, assumption+))+

theorem masked_token_indexes_and_loss_witness:
  "(1 :: 64 word) \<noteq> - 1 \<and> (2 :: 64 word) \<noteq> - 1
   \<and> masked_token_indexes_of [[- 1, - 1, 1, - 1, - 1], [2, - 1, - 1, - 1, - 1]] = [2, 5]
   \<and> RobertaModel_forward example_torch example_model [[2]] None None None None None None
        False False False
      = Inr (LastLayer [[[0, 0]]], [[0, 0]], None)
   \<and> length (concat [[[0, 0 :: real]]]) = length (concat [[1 :: 64 word]])
   \<and> masked_token_indexes_of [[1]] = [0]
   \<and> RobertaLMHeadModel_forward example_torch example_lm_model [[2]] None None (Some [[1]])
        None None None None False
      = Inr (Outputs 0 None)
   \<and> RobertaForPreTraining_forward example_torch example_pretraining_model [[2]] None None
        (Some [0]) (Some [[1]])
      = Inr (TotalLoss 0)"
proof -
  note claim = masked_token_indexes_and_loss
    [of "[[1]]" 1 2 example_torch example_lm_model "[[2]]" None None None None None None
        False example_pretraining_model "[0]"]
  have idx: "masked_token_indexes_of [[1]] = [0]"
    by (simp add: masked_token_indexes_of_filter)
  have three: "chunks 3 [0, 0, 0 :: real] = [[0, 0, 0]]"
    by (simp add: chunks.simps [of 3] chunks.simps [of _ "[]"])
  have two: "chunks 2 [0, 0 :: real] = [[0, 0]]"
    by (simp add: chunks.simps [of 2] chunks.simps [of _ "[]"])
  have lm: "lm_roberta example_lm_model = example_model" "\<not> lm_is_Ngram example_lm_model"
    "pt_roberta example_pretraining_model = example_model"
    by (simp_all add: example_lm_model_def example_pretraining_model_def)
  have loss: "CrossEntropyLoss example_torch ignore scores target
              = - sum_list (map2 (\<lambda>row l. row ! unat l) scores target)"
    for ignore scores target
    by (simp add: example_torch_def)
  from claim show ?thesis
    by (simp add: idx lm example_model_forward example_lm_model_def
        example_pretraining_model_def example_head_def example_config_def
        RobertaPredictionHeadTransform_forward_def linear_layer_forward_def
        RegularLinearActivation_forward_def Linear_forward_def F_linear_def dot_def
        example_linear_def F_relu_def decoder_def view_rows_def three two loss)
qed


subsection \<open>Encoder stack without checkpointing\<close>

lemma spec_attentions_Nil [simp]: "spec_attentions [] = []"
  by (simp add: spec_attentions_def)

lemma spec_attentions_Cons:
  "spec_attentions ((h, probs) # outputs)
   = (case probs of None \<Rightarrow> [] | Some a \<Rightarrow> [a]) @ spec_attentions outputs"
  by (simp add: spec_attentions_def)

text \<open>Without N-gram fusion one step of the loop is one layer of the chain.\<close>

lemma encoder_step_chain:
  assumes "\<not> enc_is_Ngram m"
  shows "encoder_step rt m attention_mask pm nm record oa i layer (h, ng, acc, atts)
         = bindE (spec_apply_layer rt layer h attention_mask)
             (\<lambda>(h', probs).
                Inr (h', ng, (if record then acc @ [Tensor h'] else acc),
                     (if oa then atts @ spec_attentions [(h', probs)] else atts)))"
  using assms
  by (cases layer)
    (auto simp: encoder_step_def spec_apply_layer_def bindE_def add_attention_def
      spec_attentions_def split: sum.splits option.splits)

lemma encoder_loop_chain:
  assumes "\<not> enc_is_Ngram m"
  shows "encoder_loop rt m attention_mask pm nm record oa i layers (h, ng, acc, atts)
         = bindE (spec_layer_outputs rt layers h attention_mask)
             (\<lambda>outputs.
                Inr (last (h # map fst outputs), ng,
                     (if record then acc @ map (\<lambda>(h', probs). Tensor h') outputs else acc),
                     (if oa then atts @ spec_attentions outputs else atts)))"
proof (induction layers arbitrary: i h acc atts)
  case Nil
  then show ?case by simp
next
  case (Cons layer layers)
  show ?case
  proof (cases "spec_apply_layer rt layer h attention_mask")
    case (Inl e)
    then show ?thesis
      by (simp add: encoder_step_chain [OF assms])
  next
    case (Inr out)
    obtain h' probs where out: "out = (h', probs)"
      by (cases out) auto
    show ?thesis
    proof (cases "spec_layer_outputs rt layers h' attention_mask")
      case (Inl e)
      with Inr out show ?thesis
        by (simp add: encoder_step_chain [OF assms] Cons.IH)
    next
      case rest: (Inr outputs)
      with Inr out show ?thesis
        by (simp add: encoder_step_chain [OF assms] Cons.IH spec_attentions_Cons
            spec_attentions_def)
    qed
  qed
qed

lemma length_spec_layer_outputs:
  "spec_layer_outputs rt layers h attention_mask = Inr outputs
   \<Longrightarrow> length outputs = length layers"
proof (induction layers arbitrary: h outputs)
  case Nil
  then show ?case by simp
next
  case (Cons layer layers)
  then show ?case
    by (auto simp: bindE_def split: sum.splits prod.splits)
qed

text \<open>The two runs of the encoder, each as the chain of layers.\<close>

lemma forward_recording:
  assumes "\<not> enc_is_Ngram m"
  shows "RobertaEncoder_forward rt m hidden_states attention_mask ngram_hs pm nm True False oa
         = bindE (spec_layer_outputs rt (modules (enc_layer m)) hidden_states attention_mask)
             (\<lambda>outputs.
                Inr (map (\<lambda>(h, probs). Tensor h) outputs,
                     if oa then Some (spec_attentions outputs) else None))"
  by (cases "spec_layer_outputs rt (modules (enc_layer m)) hidden_states attention_mask")
    (simp_all add: RobertaEncoder_forward_def encoder_loop_chain [OF assms])

lemma forward_not_recording:
  assumes "\<not> enc_is_Ngram m"
  shows "RobertaEncoder_forward rt m hidden_states attention_mask ngram_hs pm nm False False oa
         = bindE (spec_layer_outputs rt (modules (enc_layer m)) hidden_states attention_mask)
             (\<lambda>outputs.
                bindE (final_layer_norm m (Tensor (last (hidden_states # map fst outputs))))
                  (\<lambda>h'. Inr ([h'], if oa then Some (spec_attentions outputs) else None)))"
proof (cases "spec_layer_outputs rt (modules (enc_layer m)) hidden_states attention_mask")
  case (Inl e)
  then show ?thesis
    by (simp add: RobertaEncoder_forward_def encoder_loop_chain [OF assms])
next
  case (Inr outputs)
  then show ?thesis
    by (cases "final_layer_norm m (Tensor (last (hidden_states # map fst outputs)))")
      (simp_all add: RobertaEncoder_forward_def encoder_loop_chain [OF assms])
qed

lemma last_recorded:
  assumes "outputs \<noteq> []"
  shows "last (map (\<lambda>(h, probs). Tensor h) outputs) = Tensor (last (h0 # map fst outputs))"
  using assms by (induction outputs) (auto split: prod.splits)


text \<open>
  Claim C2, as amended. In pre-norm mode with normalization enabled the final hidden state
  is not the same with and without recording of all layers: the final normalization is
  applied only when not all layers are recorded. What holds, without checkpointing and
  N-gram fusion: with recording the encoder returns the outputs of the layers applied in
  turn, the last of them the output of the last layer as it is; without recording it
  returns the one state that is the final normalization of the output of the last layer
  (of the input, for no layer), and so, for at least one layer, of the last state returned
  with recording; an error of one run is the error of the other. The two final states are
  the same exactly when the final normalization leaves the output of the last layer
  unchanged. The final normalization is \<^verbatim>\<open>FinalLayerNorm\<close> in pre-norm mode with
  normalization enabled and the identity otherwise.
\<close>

theorem final_state_without_recording_is_normalized:
  assumes "\<not> enc_is_Ngram m"
  shows "RobertaEncoder_forward rt m hidden_states attention_mask ngram_hs pm nm True False oa
         = bindE (spec_layer_outputs rt (modules (enc_layer m)) hidden_states attention_mask)
             (\<lambda>outputs.
                Inr (map (\<lambda>(h, probs). Tensor h) outputs,
                     if oa then Some (spec_attentions outputs) else None))
         \<and> RobertaEncoder_forward rt m hidden_states attention_mask ngram_hs pm nm
             False False oa
           = bindE (spec_layer_outputs rt (modules (enc_layer m)) hidden_states
                      attention_mask)
               (\<lambda>outputs.
                  bindE (final_layer_norm m
                           (Tensor (last (hidden_states # map fst outputs))))
                    (\<lambda>h'. Inr ([h'], if oa then Some (spec_attentions outputs) else None)))
         \<and> (modules (enc_layer m) \<noteq> [] \<longrightarrow>
             RobertaEncoder_forward rt m hidden_states attention_mask ngram_hs pm nm
               False False oa
             = bindE (RobertaEncoder_forward rt m hidden_states attention_mask ngram_hs pm nm
                        True False oa)
                 (\<lambda>(recorded, attentions).
                    bindE (last_layer recorded)
                      (\<lambda>h. bindE (final_layer_norm m h) (\<lambda>h'. Inr ([h'], attentions)))))
         \<and> (\<forall>recorded attentions.
               modules (enc_layer m) \<noteq> []
               \<and> RobertaEncoder_forward rt m hidden_states attention_mask ngram_hs pm nm
                   True False oa = Inr (recorded, attentions) \<longrightarrow>
               length recorded = length (modules (enc_layer m))
               \<and> (RobertaEncoder_forward rt m hidden_states attention_mask ngram_hs pm nm
                    False False oa = Inr ([last recorded], attentions)
                  \<longleftrightarrow> final_layer_norm m (last recorded) = Inr (last recorded)))
         \<and> (useLN (enc_config m) \<and> str_in (encoder_ln_mode (enc_config m)) ''pre-ln'' \<longrightarrow>
              final_layer_norm m (Tensor h)
              = bindE (norm_forward3 (FinalLayerNorm m) h) (\<lambda>h'. Inr (Tensor h')))
         \<and> (\<not> (useLN (enc_config m) \<and> str_in (encoder_ln_mode (enc_config m)) ''pre-ln'') \<longrightarrow>
              final_layer_norm m x = Inr x)"
proof -
  let ?chain = "spec_layer_outputs rt (modules (enc_layer m)) hidden_states attention_mask"
  let ?on = "RobertaEncoder_forward rt m hidden_states attention_mask ngram_hs pm nm
               True False oa"
  let ?off = "RobertaEncoder_forward rt m hidden_states attention_mask ngram_hs pm nm
                False False oa"
  note on = forward_recording [OF assms, of rt hidden_states attention_mask ngram_hs pm nm oa]
  note off = forward_not_recording
    [OF assms, of rt hidden_states attention_mask ngram_hs pm nm oa]
  have related: "?off = bindE ?on
      (\<lambda>(recorded, attentions).
         bindE (last_layer recorded)
           (\<lambda>h. bindE (final_layer_norm m h) (\<lambda>h'. Inr ([h'], attentions))))"
    if layers: "modules (enc_layer m) \<noteq> []"
  proof (cases ?chain)
    case (Inl e)
    then show ?thesis by (simp add: on off)
  next
    case (Inr outputs)
    with layers have "outputs \<noteq> []"
      using length_spec_layer_outputs by fastforce
    with Inr show ?thesis
      by (simp add: on off last_layer_def last_recorded [of outputs hidden_states])
  qed
  have same: "length recorded = length (modules (enc_layer m))
      \<and> (?off = Inr ([last recorded], attentions)
         \<longleftrightarrow> final_layer_norm m (last recorded) = Inr (last recorded))"
    if layers: "modules (enc_layer m) \<noteq> []" and run: "?on = Inr (recorded, attentions)"
    for recorded attentions
  proof -
    from run obtain outputs where chain: "?chain = Inr outputs"
      and recorded: "recorded = map (\<lambda>(h, probs). Tensor h) outputs"
      and attentions: "attentions = (if oa then Some (spec_attentions outputs) else None)"
      by (cases ?chain) (auto simp: on)
    from chain have len: "length outputs = length (modules (enc_layer m))"
      by (rule length_spec_layer_outputs)
    with layers have "outputs \<noteq> []" by auto
    then have lst: "last recorded = Tensor (last (hidden_states # map fst outputs))"
      unfolding recorded by (rule last_recorded)
    have "?off = bindE (final_layer_norm m (last recorded))
                   (\<lambda>h'. Inr ([h'], attentions))"
      by (simp only: off chain bindE_Inr lst attentions)
    then have "?off = Inr ([last recorded], attentions)
        \<longleftrightarrow> final_layer_norm m (last recorded) = Inr (last recorded)"
      by (cases "final_layer_norm m (last recorded)") simp_all
    with len show ?thesis
      by (simp add: recorded)
  qed
  have norm_on: "final_layer_norm m (Tensor h)
      = bindE (norm_forward3 (FinalLayerNorm m) h) (\<lambda>h'. Inr (Tensor h'))"
    if "useLN (enc_config m) \<and> str_in (encoder_ln_mode (enc_config m)) ''pre-ln''"
    using that by (simp add: final_layer_norm_def)
  have norm_off: "final_layer_norm m x = Inr x"
    if "\<not> (useLN (enc_config m) \<and> str_in (encoder_ln_mode (enc_config m)) ''pre-ln'')"
    using that by (auto simp: final_layer_norm_def)
  show ?thesis
  proof (intro conjI impI allI, goal_cases)
    case 1
    show ?case by (rule on)
  next
    case 2
    show ?case by (rule off)
  next
    case 3
    then show ?case by (rule related)
  next
    case (4 recorded attentions)
    then show ?case using same by blast
  next
    case (5 recorded attentions)
    then show ?case using same by blast
  next
    case 6
    then show ?case by (rule norm_on)
  next
    case 7
    then show ?case by (rule norm_off)
  qed
qed

theorem final_state_without_recording_is_normalized_witness:
  "\<not> enc_is_Ngram example_encoder \<and> modules (enc_layer example_encoder) \<noteq> []
   \<and> useLN (enc_config example_encoder)
   \<and> str_in (encoder_ln_mode (enc_config example_encoder)) ''pre-ln''
   \<and> RobertaEncoder_forward example_torch example_encoder [[[5, 5]]] [[[[0]]]] None None None
        True False False
     = Inr ([Tensor [[[5, 5]]]], None)
   \<and> spec_layer_outputs example_torch (modules (enc_layer example_encoder)) [[[5, 5]]]
        [[[[0]]]]
     = Inr [([[[5, 5]]], Some [[[[1]]]])]
   \<and> RobertaEncoder_forward example_torch example_encoder [[[5, 5]]] [[[[0]]]] None None None
        False False False
     = bindE (RobertaEncoder_forward example_torch example_encoder [[[5, 5]]] [[[[0]]]]
                None None None True False False)
         (\<lambda>(recorded, attentions).
            bindE (last_layer recorded)
              (\<lambda>h. bindE (final_layer_norm example_encoder h)
                     (\<lambda>h'. Inr ([h'], attentions))))
   \<and> final_layer_norm example_encoder (Tensor [[[5, 5]]]) = Inr (Tensor [[[0, 0]]])
   \<and> RobertaEncoder_forward example_torch example_encoder [[[5, 5]]] [[[[0]]]] None None None
        False False False
     \<noteq> Inr ([Tensor [[[5, 5]]]], None)
   \<and> \<not> enc_is_Ngram (example_encoder\<lparr>enc_config := example_config\<lparr>useLN := False\<rparr>\<rparr>)
   \<and> \<not> useLN (enc_config (example_encoder\<lparr>enc_config := example_config\<lparr>useLN := False\<rparr>\<rparr>))
   \<and> final_layer_norm (example_encoder\<lparr>enc_config := example_config\<lparr>useLN := False\<rparr>\<rparr>)
        (Tensor [[[5, 5]]])
     = Inr (Tensor [[[5, 5]]])"
proof -
  note pre = final_state_without_recording_is_normalized
    [of example_encoder example_torch "[[[5, 5]]]" "[[[[0]]]]" None None None False
        "[[[5, 5]]]" "Tensor [[[5, 5]]]"]
  note off = final_state_without_recording_is_normalized
    [of "example_encoder\<lparr>enc_config := example_config\<lparr>useLN := False\<rparr>\<rparr>" example_torch
        "[[[5, 5]]]" "[[[[0]]]]" None None None False "[[[5, 5]]]" "Tensor [[[5, 5]]]"]
  have free: "\<not> enc_is_Ngram example_encoder"
    and layers: "modules (enc_layer example_encoder) = [DefaultLayer example_layer]"
    and mode: "useLN (enc_config example_encoder)"
      "str_in (encoder_ln_mode (enc_config example_encoder)) ''pre-ln''"
    by (simp_all add: example_encoder_def modules_def example_config_def str_in_pre_pre)
  have chain: "spec_layer_outputs example_torch (modules (enc_layer example_encoder))
                 [[[5, 5]]] [[[[0]]]]
               = Inr [([[[5, 5]]], Some [[[[1]]]])]"
    by (simp add: layers spec_apply_layer_def example_layer_constant_row)
  have normed: "final_layer_norm example_encoder (Tensor [[[5, 5]]]) = Inr (Tensor [[[0, 0]]])"
    using pre [OF free] mode
    by (simp add: example_encoder_def example_norm_constant_row)
  have on: "RobertaEncoder_forward example_torch example_encoder [[[5, 5]]] [[[[0]]]]
              None None None True False False
            = Inr ([Tensor [[[5, 5]]]], None)"
    using pre [OF free, THEN conjunct1] unfolding chain by simp
  have related: "RobertaEncoder_forward example_torch example_encoder [[[5, 5]]] [[[[0]]]]
        None None None False False False
     = bindE (RobertaEncoder_forward example_torch example_encoder [[[5, 5]]] [[[[0]]]]
                None None None True False False)
         (\<lambda>(recorded, attentions).
            bindE (last_layer recorded)
              (\<lambda>h. bindE (final_layer_norm example_encoder h)
                     (\<lambda>h'. Inr ([h'], attentions))))"
    using pre [OF free, THEN conjunct2, THEN conjunct2, THEN conjunct1] by (simp add: layers)
  have differ: "RobertaEncoder_forward example_torch example_encoder [[[5, 5]]] [[[[0]]]]
        None None None False False False
     \<noteq> Inr ([Tensor [[[5, 5]]]], None)"
  proof -
    from pre [OF free] have "\<forall>recorded attentions.
        modules (enc_layer example_encoder) \<noteq> []
        \<and> RobertaEncoder_forward example_torch example_encoder [[[5, 5]]] [[[[0]]]]
            None None None True False False = Inr (recorded, attentions) \<longrightarrow>
        length recorded = length (modules (enc_layer example_encoder))
        \<and> (RobertaEncoder_forward example_torch example_encoder [[[5, 5]]] [[[[0]]]]
             None None None False False False = Inr ([last recorded], attentions)
           \<longleftrightarrow> final_layer_norm example_encoder (last recorded) = Inr (last recorded))"
      by (elim conjE)
    from this [rule_format, of "[Tensor [[[5, 5]]]]" None] on layers normed
    show ?thesis by simp
  qed
  have plain: "final_layer_norm (example_encoder\<lparr>enc_config := example_config\<lparr>useLN := False\<rparr>\<rparr>)
        (Tensor [[[5, 5]]]) = Inr (Tensor [[[5, 5]]])"
    using off by (simp add: example_encoder_def)
  from free layers mode on chain related normed differ plain show ?thesis
    by (simp add: example_encoder_def)
qed

text \<open>
  The counterexample to C2 as stated: one default layer in pre-norm mode, one position
  with hidden state \<open>[5, 5]\<close>. With recording the final hidden state is the layer output
  \<open>[5, 5]\<close>; without, it is its normalization \<open>[0, 0]\<close>.
\<close>

theorem final_hidden_state_depends_on_recording:
  "useLN (enc_config example_encoder)
   \<and> str_in (encoder_ln_mode (enc_config example_encoder)) ''pre-ln''
   \<and> \<not> enc_is_Ngram example_encoder
   \<and> RobertaEncoder_forward example_torch example_encoder [[[5, 5]]] [[[[0]]]] None None None
        True False False
     = Inr ([Tensor [[[5, 5]]]], None)
   \<and> RobertaEncoder_forward example_torch example_encoder [[[5, 5]]] [[[[0]]]] None None None
        False False False
     = Inr ([Tensor [[[0, 0]]]], None)
   \<and> Tensor [[[5, 5]]] \<noteq> Tensor [[[0, 0]]]"
  by (simp add: RobertaEncoder_forward_def example_encoder_def modules_def encoder_step_def
      example_layer_constant_row final_layer_norm_def example_config_def str_in_pre_pre
      example_norm_constant_row)


subsection \<open>Encoder stack with checkpointing\<close>

lemma times_one_id [simp]: "times_one t = t"
  by (simp add: times_one_def)

lemma chunk_length_unique:
  assumes "n \<le> k * k" and "0 < k" and "(k - 1) * (k - 1) < n"
  shows "chunk_length n = k"
proof -
  have up: "sqrt (real n) \<le> real k"
    using assms(1) by (intro real_le_lsqrt) (simp_all add: power2_eq_square flip: of_nat_mult)
  have "real ((k - 1) * (k - 1)) < real n"
    using assms(3) by (simp only: of_nat_less_iff)
  moreover have "real (k - 1) = real k - 1"
    using assms(2) by (simp add: of_nat_diff)
  ultimately have "(real k - 1)\<^sup>2 < real n"
    by (simp add: power2_eq_square)
  then have lo: "real k - 1 < sqrt (real n)"
    by (rule real_less_rsqrt)
  have "\<lceil>sqrt (real n)\<rceil> = int k"
    using up lo by (intro ceiling_unique) simp_all
  then show ?thesis by (simp add: chunk_length_def)
qed

lemma chunk_length_10: "chunk_length 10 = 4"
  by (rule chunk_length_unique) simp_all

lemma chunk_length_square:
  "n \<le> chunk_length n * chunk_length n
   \<and> (0 < n \<longrightarrow> (chunk_length n - 1) * (chunk_length n - 1) < n)"
proof
  let ?c = "chunk_length n"
  have c: "real ?c = of_int \<lceil>sqrt (real n)\<rceil>"
    by (simp add: chunk_length_def)
  have "sqrt (real n) \<le> real ?c"
    unfolding c by (rule le_of_int_ceiling)
  then have "real n \<le> (real ?c)\<^sup>2"
    by (metis of_nat_0_le_iff real_sqrt_le_iff real_sqrt_abs abs_of_nat)
  then have "real n \<le> real (?c * ?c)"
    by (simp add: power2_eq_square)
  then show "n \<le> ?c * ?c"
    by (simp only: of_nat_le_iff)
  show "0 < n \<longrightarrow> (?c - 1) * (?c - 1) < n"
  proof
    assume n: "0 < n"
    then have "0 < sqrt (real n)" by simp
    then have pos: "0 < ?c" by (simp add: chunk_length_def)
    have "real ?c - 1 < sqrt (real n)"
      unfolding c by linarith
    moreover have "0 \<le> real ?c - 1"
      using pos by simp
    ultimately have "(real ?c - 1)\<^sup>2 < real n"
      by (metis of_nat_0_le_iff real_sqrt_pow2 power2_less_imp_less power_strict_mono
          pos2 real_sqrt_ge_0_iff zero_less_numeral)
    moreover have "real (?c - 1) = real ?c - 1"
      using pos by (simp add: of_nat_diff)
    ultimately have "real ((?c - 1) * (?c - 1)) < real n"
      by (simp add: power2_eq_square)
    then show "(?c - 1) * (?c - 1) < n"
      by (simp only: of_nat_less_iff)
  qed
qed

lemma chunk_length_positive: "0 < n \<Longrightarrow> 0 < chunk_length n"
  using chunk_length_square [of n] by (cases "chunk_length n") auto

lemma chunk_length_two: "2 \<le> n \<Longrightarrow> 2 \<le> chunk_length n"
proof (rule ccontr)
  assume n: "2 \<le> n" and "\<not> 2 \<le> chunk_length n"
  then have "chunk_length n = 0 \<or> chunk_length n = 1" by auto
  with chunk_length_square [of n] n show False by auto
qed

lemma run_layers_append:
  "run_layers rt (xs @ ys) x attention_mask
   = bindE (run_layers rt xs x attention_mask) (\<lambda>y. run_layers rt ys y attention_mask)"
  by (induction xs arbitrary: x) (simp_all split: sum.splits)

lemma slice_then_rest: "py_slice xs l (l + c) @ drop (l + c) xs = drop l xs"
proof -
  have "take c (drop l xs) @ drop c (drop l xs) = drop l xs"
    by (rule append_take_drop_id)
  then show ?thesis
    by (simp add: py_slice_def add.commute)
qed

lemma checkpoint_loop_step:
  "l < length layers \<Longrightarrow>
   checkpoint_loop rt layers l x attention_mask kept
   = bindE (custom rt layers l (l + chunk_length (length layers)) x attention_mask)
       (\<lambda>h. checkpoint_loop rt layers (l + chunk_length (length layers)) h attention_mask
              (kept @ [\<lparr>unit_start = l, unit_stop = l + chunk_length (length layers),
                        unit_hidden_states = x, unit_attention_mask = attention_mask\<rparr>]))"
  by (subst checkpoint_loop.simps)
    (simp add: checkpoint_checkpoint_def bindE_def split: sum.splits)

lemma checkpoint_loop_done:
  "\<not> l < length layers \<Longrightarrow> checkpoint_loop rt layers l x attention_mask kept = Inr (x, kept)"
  by (subst checkpoint_loop.simps) simp

text \<open>Whatever is kept, the loop runs all layers from \<open>l\<close> on, in order.\<close>

lemma checkpoint_loop_runs_all:
  "bindE (checkpoint_loop rt layers l x attention_mask kept) (\<lambda>(y, units). Inr y)
   = run_layers rt (drop l layers) x attention_mask"
proof (induction rt layers l x attention_mask kept rule: checkpoint_loop.induct)
  case (1 rt layers l hidden_states attention_mask kept)
  show ?case
  proof (cases "l < length layers")
    case False
    then show ?thesis
      by (simp add: checkpoint_loop_done)
  next
    case True
    let ?c = "chunk_length (length layers)"
    let ?unit = "\<lparr>unit_start = l, unit_stop = l + ?c, unit_hidden_states = hidden_states,
                   unit_attention_mask = attention_mask\<rparr>"
    have split: "run_layers rt (drop l layers) hidden_states attention_mask
                 = bindE (custom rt layers l (l + ?c) hidden_states attention_mask)
                     (\<lambda>y. run_layers rt (drop (l + ?c) layers) y attention_mask)"
      using run_layers_append [of rt "py_slice layers l (l + ?c)" "drop (l + ?c) layers"]
      by (simp add: slice_then_rest custom_def)
    show ?thesis
    proof (cases "custom rt layers l (l + ?c) hidden_states attention_mask")
      case (Inl e)
      with True split show ?thesis
        by (simp add: checkpoint_loop_step)
    next
      case (Inr h)
      then have "checkpoint_checkpoint rt layers l (l + ?c) hidden_states
                   (times_one attention_mask) kept = Inr (h, kept @ [?unit])"
        by (simp add: checkpoint_checkpoint_def)
      from "1.IH" [OF True this] Inr True split show ?thesis
        by (simp add: checkpoint_loop_step)
    qed
  qed
qed

lemma run_kernel_layers:
  "run_layers rt (map DeepSpeedTransformerLayer fs) (Tensor h) attention_mask
   = Inr (Tensor (foldl (\<lambda>h f. f h attention_mask) h fs))"
  by (induction fs arbitrary: h) (simp_all add: call_layer_def)

lemma run_default_layers_fails:
  "\<exists>e. run_layers rt (DefaultLayer a # DefaultLayer b # rest) (Tensor h) attention_mask = Inl e"
  by (cases "RobertaLayer_forward rt a h attention_mask 1 1")
    (auto simp: call_layer_def split: prod.splits)

text \<open>
  The units of a run over kernels: unit \<open>k\<close> covers the layers from \<open>k * c\<close> up to
  \<open>k * c + c\<close> and is entered with the state after the first \<open>k * c\<close> layers.
\<close>

lemma chunk_count:
  fixes c n j :: nat
  assumes "0 < c"
  shows "j < (n + c - 1) div c \<longleftrightarrow> j * c < n"
proof -
  have "j < (n + c - 1) div c \<longleftrightarrow> Suc j \<le> (n + c - 1) div c"
    by auto
  also have "\<dots> \<longleftrightarrow> Suc j * c \<le> n + c - 1"
    using assms by (rule less_eq_div_iff_mult_less_eq)
  also have "\<dots> \<longleftrightarrow> j * c < n"
    using assms by auto
  finally show ?thesis .
qed

lemma checkpoint_loop_kernels:
  fixes fs :: "(tensor3 \<Rightarrow> tensor4 \<Rightarrow> tensor3) list"
  defines "c \<equiv> chunk_length (length fs)"
  defines "count \<equiv> (length fs + c - 1) div c"
  shows "checkpoint_loop rt (map DeepSpeedTransformerLayer fs) (j * c)
           (Tensor (foldl (\<lambda>h f. f h attention_mask) h (take (j * c) fs))) attention_mask kept
         = Inr (Tensor (foldl (\<lambda>h f. f h attention_mask) h fs),
                kept @ map (\<lambda>k. \<lparr>unit_start = k * c, unit_stop = k * c + c,
                                   unit_hidden_states =
                                     Tensor (foldl (\<lambda>h f. f h attention_mask) h
                                               (take (k * c) fs)),
                                   unit_attention_mask = attention_mask\<rparr>)
                         [j..<count])"
proof (induction "count - j" arbitrary: j kept)
  case 0
  then have past: "count \<le> j" by simp
  have "\<not> j * c < length fs"
  proof (cases "0 < c")
    case True
    from chunk_count [OF this, of j "length fs"] past show ?thesis
      by (simp add: count_def)
  next
    case False
    then have "length fs = 0"
      using chunk_length_positive [of "length fs"] by (auto simp: c_def)
    then show ?thesis by simp
  qed
  then show ?case
    using past by (simp add: checkpoint_loop_done)
next
  case (Suc d)
  then have more: "j < count" by simp
  have pos: "0 < c"
  proof (rule ccontr)
    assume "\<not> 0 < c"
    then have "count = 0" by (simp add: count_def)
    with more show False by simp
  qed
  from chunk_count [OF pos, of j "length fs"] more have less: "j * c < length fs"
    by (simp add: count_def)
  let ?step = "\<lambda>h f. f h attention_mask"
  have slice: "py_slice (map DeepSpeedTransformerLayer fs) (j * c) (j * c + c)
               = map DeepSpeedTransformerLayer (take c (drop (j * c) fs))"
    by (simp add: py_slice_def take_map drop_map)
  have "take (j * c + c) fs = take (j * c) fs @ take c (drop (j * c) fs)"
    by (simp add: take_add)
  then have state: "foldl ?step (foldl ?step h (take (j * c) fs)) (take c (drop (j * c) fs))
                    = foldl ?step h (take (Suc j * c) fs)"
    by (simp add: add.commute)
  have next_start: "j * c + c = Suc j * c"
    by simp
  have "custom rt (map DeepSpeedTransformerLayer fs) (j * c) (j * c + c)
          (Tensor (foldl ?step h (take (j * c) fs))) attention_mask
        = Inr (Tensor (foldl ?step h (take (Suc j * c) fs)))"
    by (simp only: custom_def slice run_kernel_layers state)
  then have chunk: "custom rt (map DeepSpeedTransformerLayer fs) (j * c) (Suc j * c)
                      (Tensor (foldl ?step h (take (j * c) fs))) attention_mask
                    = Inr (Tensor (foldl ?step h (take (Suc j * c) fs)))"
    by (simp only: next_start)
  have d: "d = count - Suc j"
    using Suc.hyps(2) by simp
  have rest: "[j..<count] = j # [Suc j..<count]"
    using more by (simp add: upt_conv_Cons)
  show ?case
    using less
    by (simp add: checkpoint_loop_step c_def [symmetric] chunk next_start
        Suc.hyps(1) [OF d] rest del: mult_Suc)
qed

lemma checkpoint_loop_default_fails:
  "\<exists>e. checkpoint_loop rt (DefaultLayer a # DefaultLayer b # map DefaultLayer rest) 0
          (Tensor h) attention_mask kept = Inl e"
proof -
  let ?layers = "DefaultLayer a # DefaultLayer b # map DefaultLayer rest"
  have "2 \<le> chunk_length (length ?layers)"
    by (rule chunk_length_two) simp
  then obtain c where c: "chunk_length (length ?layers) = Suc (Suc c)"
    by (metis add_2_eq_Suc le_Suc_ex)
  have "py_slice ?layers 0 (0 + chunk_length (length ?layers))
        = DefaultLayer a # DefaultLayer b # take c (map DefaultLayer rest)"
    using c by (simp add: py_slice_def)
  then obtain e where "custom rt ?layers 0 (0 + chunk_length (length ?layers)) (Tensor h)
                         attention_mask = Inl e"
    using run_default_layers_fails [of rt a b "take c (map DefaultLayer rest)" h attention_mask]
    by (auto simp: custom_def)
  then show ?thesis
    by (subst checkpoint_loop_step) simp_all
qed

lemma slices_of_ten:
  assumes "length layers = 10"
  shows "length (py_slice layers 0 4) = 4 \<and> length (py_slice layers 4 8) = 4
         \<and> length (py_slice layers 8 12) = 2
         \<and> py_slice layers 0 4 @ py_slice layers 4 8 @ py_slice layers 8 12 = layers"
proof -
  have "py_slice layers 8 (8 + 4) @ drop (8 + 4) layers = drop 8 layers"
    by (rule slice_then_rest)
  moreover have "py_slice layers 4 (4 + 4) @ drop (4 + 4) layers = drop 4 layers"
    by (rule slice_then_rest)
  moreover have "py_slice layers 0 (0 + 4) @ drop (0 + 4) layers = drop 0 layers"
    by (rule slice_then_rest)
  ultimately have "py_slice layers 0 4 @ py_slice layers 4 8 @ py_slice layers 8 12 = layers"
    using assms by simp
  with assms show ?thesis
    by (simp add: py_slice_def)
qed

lemma checkpointed_forward:
  "RobertaEncoder_forward rt m hidden_states attention_mask ngram_hs pm nm all_layers True oa
   = bindE (checkpoint_loop rt (modules (enc_layer m)) 0 (Tensor hidden_states) attention_mask
              [])
       (\<lambda>(h, kept). bindE (final_layer_norm m h)
              (\<lambda>h'. Inr ([h'], if oa then Some [] else None)))"
  by (cases "checkpoint_loop rt (modules (enc_layer m)) 0 (Tensor hidden_states) attention_mask
               []")
    (auto simp: RobertaEncoder_forward_def bindE_assoc split: prod.splits)

text \<open>
  The encoder of ten default layers on one position with hidden state \<open>[5, 5]\<close>. Without
  checkpointing the ten layers run and ten states are returned. With checkpointing the
  second layer of the first chunk is handed the pair that the first returned.
\<close>

lemma example_default_encoder_runs:
  "RobertaEncoder_forward example_torch example_default_encoder [[[5, 5]]] [[[[0]]]]
     None None None True False False
   = Inr (replicate 10 (Tensor [[[5, 5]]]), None)
   \<and> RobertaEncoder_forward example_torch example_default_encoder [[[5, 5]]] [[[[0]]]]
       None None None True True False
     = Inl NotATensor"
proof -
  have free: "\<not> enc_is_Ngram example_default_encoder"
    by (simp add: example_default_encoder_def example_encoder_def)
  have ten: "replicate 10 x = [x, x, x, x, x, x, x, x, x, x]" for x :: pyval
    by code_simp
  have plain: "RobertaEncoder_forward example_torch example_default_encoder [[[5, 5]]]
      [[[[0]]]] None None None True False False
    = Inr (replicate 10 (Tensor [[[5, 5]]]), None)"
    unfolding forward_recording [OF free] ten
    by (simp add: example_default_encoder_def modules_def spec_apply_layer_def
        example_layer_constant_row)
  let ?layers = "modules (enc_layer example_default_encoder)"
  have len: "length ?layers = 10"
    by (simp add: example_default_encoder_def modules_def)
  have chunk: "custom example_torch ?layers 0 (0 + 4) (Tensor [[[5, 5]]]) [[[[0]]]]
               = Inl NotATensor"
    by (simp add: custom_def py_slice_def example_default_encoder_def modules_def
        call_layer_def example_layer_constant_row)
  have "checkpoint_loop example_torch ?layers 0 (Tensor [[[5, 5]]]) [[[[0]]]] []
        = Inl NotATensor"
    using checkpoint_loop_step [of 0 ?layers example_torch "Tensor [[[5, 5]]]" "[[[[0]]]]" "[]"]
    by (simp only: len chunk_length_10 chunk bindE_Inl)
  then have checkpointed: "RobertaEncoder_forward example_torch example_default_encoder
      [[[5, 5]]] [[[[0]]]] None None None True True False = Inl NotATensor"
    by (simp add: checkpointed_forward)
  from plain checkpointed show ?thesis ..
qed

text \<open>
  Claim C7. In checkpointed mode the chunk size is \<open>ceil(sqrt(num_layers))\<close>, the least
  \<open>c\<close> with \<open>num_layers \<le> c\<^sup>2\<close>, and the loop makes one checkpointed call for each
  contiguous range of that size: over transformer kernels the units kept are the ranges
  from \<open>k * c\<close> to \<open>k * c + c\<close>, one after the other, each entered with the state after
  the layers before it, and the result is the state after all layers. For 10 layers the
  chunk size is 4 and the units are the slices \<open>[0:4]\<close>, \<open>[4:8]\<close> and \<open>[8:12]\<close>, of 4, 4
  and 2 layers. The output list of the encoder holds one entry only, the state after the
  last chunk (after the final normalization the mode asks for).

  This is what the source does over transformer kernels. Over default layers it does
  not: \<^verbatim>\<open>custom_forward\<close> binds the pair (output, attention probabilities) that a default
  layer returns and hands it to the next layer as hidden states, where the loop without
  checkpointing unpacks it. With two or more default layers the first chunk raises, no
  chunk is completed and nothing is returned.
\<close>

theorem checkpointed_encoder_chunks:
  "chunk_length num_layers = nat \<lceil>sqrt (real num_layers)\<rceil>
   \<and> num_layers \<le> chunk_length num_layers * chunk_length num_layers
   \<and> (0 < num_layers \<longrightarrow>
        (chunk_length num_layers - 1) * (chunk_length num_layers - 1) < num_layers)
   \<and> chunk_length 10 = 4
   \<and> checkpoint_loop rt (map DeepSpeedTransformerLayer kernels) 0 (Tensor hidden_states)
        attention_mask []
     = Inr (Tensor (foldl (\<lambda>h f. f h attention_mask) hidden_states kernels),
            map (\<lambda>k. \<lparr>unit_start = k * chunk_length (length kernels),
                        unit_stop = k * chunk_length (length kernels)
                                    + chunk_length (length kernels),
                        unit_hidden_states =
                          Tensor (foldl (\<lambda>h f. f h attention_mask) hidden_states
                                    (take (k * chunk_length (length kernels)) kernels)),
                        unit_attention_mask = attention_mask\<rparr>)
              [0..<(length kernels + chunk_length (length kernels) - 1)
                     div chunk_length (length kernels)])
   \<and> (length kernels = 10 \<longrightarrow>
        checkpoint_loop rt (map DeepSpeedTransformerLayer kernels) 0 (Tensor hidden_states)
          attention_mask []
        = Inr (Tensor (foldl (\<lambda>h f. f h attention_mask) hidden_states kernels),
               [\<lparr>unit_start = 0, unit_stop = 4,
                 unit_hidden_states = Tensor hidden_states,
                 unit_attention_mask = attention_mask\<rparr>,
                \<lparr>unit_start = 4, unit_stop = 8,
                 unit_hidden_states =
                   Tensor (foldl (\<lambda>h f. f h attention_mask) hidden_states (take 4 kernels)),
                 unit_attention_mask = attention_mask\<rparr>,
                \<lparr>unit_start = 8, unit_stop = 12,
                 unit_hidden_states =
                   Tensor (foldl (\<lambda>h f. f h attention_mask) hidden_states (take 8 kernels)),
                 unit_attention_mask = attention_mask\<rparr>]))
   \<and> (length layers = 10 \<longrightarrow>
        length (py_slice layers 0 4) = 4 \<and> length (py_slice layers 4 8) = 4
        \<and> length (py_slice layers 8 12) = 2
        \<and> py_slice layers 0 4 @ py_slice layers 4 8 @ py_slice layers 8 12 = layers)
   \<and> bindE (checkpoint_loop rt layers 0 x attention_mask []) (\<lambda>(y, units). Inr y)
     = run_layers rt layers x attention_mask
   \<and> RobertaEncoder_forward rt m hidden_states attention_mask ngram_hs pm nm all_layers True oa
     = bindE (checkpoint_loop rt (modules (enc_layer m)) 0 (Tensor hidden_states)
                attention_mask [])
         (\<lambda>(h, units). bindE (final_layer_norm m h)
                (\<lambda>h'. Inr ([h'], if oa then Some [] else None)))
   \<and> (enc_layer m = DeepSpeedTransformerLayers kernels \<longrightarrow>
        RobertaEncoder_forward rt m hidden_states attention_mask ngram_hs pm nm all_layers True oa
        = bindE (final_layer_norm m
                   (Tensor (foldl (\<lambda>h f. f h attention_mask) hidden_states kernels)))
            (\<lambda>h'. Inr ([h'], if oa then Some [] else None)))
   \<and> (enc_layer m = RobertaLayers (a # b # rest) \<longrightarrow>
        (\<exists>e. RobertaEncoder_forward rt m hidden_states attention_mask ngram_hs pm nm all_layers
                True oa = Inl e))"
proof (intro conjI impI)
  let ?step = "\<lambda>h f. f h attention_mask"
  note trace = checkpoint_loop_kernels [of rt kernels 0 attention_mask hidden_states "[]"]
  show "chunk_length num_layers = nat \<lceil>sqrt (real num_layers)\<rceil>"
    by (simp add: chunk_length_def)
  show "num_layers \<le> chunk_length num_layers * chunk_length num_layers"
    using chunk_length_square [of num_layers] by simp
  show "(chunk_length num_layers - 1) * (chunk_length num_layers - 1) < num_layers"
    if "0 < num_layers"
    using chunk_length_square [of num_layers] that by simp
  show "chunk_length 10 = 4"
    by (rule chunk_length_10)
  show general: "checkpoint_loop rt (map DeepSpeedTransformerLayer kernels) 0
          (Tensor hidden_states) attention_mask []
        = Inr (Tensor (foldl ?step hidden_states kernels),
            map (\<lambda>k. \<lparr>unit_start = k * chunk_length (length kernels),
                        unit_stop = k * chunk_length (length kernels)
                                    + chunk_length (length kernels),
                        unit_hidden_states =
                          Tensor (foldl ?step hidden_states
                                    (take (k * chunk_length (length kernels)) kernels)),
                        unit_attention_mask = attention_mask\<rparr>)
              [0..<(length kernels + chunk_length (length kernels) - 1)
                     div chunk_length (length kernels)])"
    using trace by simp
  show "checkpoint_loop rt (map DeepSpeedTransformerLayer kernels) 0 (Tensor hidden_states)
          attention_mask []
        = Inr (Tensor (foldl ?step hidden_states kernels),
               [\<lparr>unit_start = 0, unit_stop = 4,
                 unit_hidden_states = Tensor hidden_states,
                 unit_attention_mask = attention_mask\<rparr>,
                \<lparr>unit_start = 4, unit_stop = 8,
                 unit_hidden_states = Tensor (foldl ?step hidden_states (take 4 kernels)),
                 unit_attention_mask = attention_mask\<rparr>,
                \<lparr>unit_start = 8, unit_stop = 12,
                 unit_hidden_states = Tensor (foldl ?step hidden_states (take 8 kernels)),
                 unit_attention_mask = attention_mask\<rparr>])"
    if ten: "length kernels = 10"
  proof -
    have three: "[0..<3] = [0, 1, 2 :: nat]"
      by code_simp
    show ?thesis
      unfolding general ten chunk_length_10 by (simp add: three)
  qed
  show "bindE (checkpoint_loop rt layers 0 x attention_mask []) (\<lambda>(y, units). Inr y)
        = run_layers rt layers x attention_mask"
    by (simp add: checkpoint_loop_runs_all)
  show forward: "RobertaEncoder_forward rt m hidden_states attention_mask ngram_hs pm nm
          all_layers True oa
        = bindE (checkpoint_loop rt (modules (enc_layer m)) 0 (Tensor hidden_states)
                   attention_mask [])
            (\<lambda>(h, units). bindE (final_layer_norm m h)
                   (\<lambda>h'. Inr ([h'], if oa then Some [] else None)))"
    by (rule checkpointed_forward)
  show "RobertaEncoder_forward rt m hidden_states attention_mask ngram_hs pm nm all_layers True oa
        = bindE (final_layer_norm m (Tensor (foldl ?step hidden_states kernels)))
            (\<lambda>h'. Inr ([h'], if oa then Some [] else None))"
    if "enc_layer m = DeepSpeedTransformerLayers kernels"
    using that by (simp add: forward modules_def general)
  show "\<exists>e. RobertaEncoder_forward rt m hidden_states attention_mask ngram_hs pm nm all_layers
               True oa = Inl e"
    if "enc_layer m = RobertaLayers (a # b # rest)"
    using that checkpoint_loop_default_fails [of rt a b rest hidden_states attention_mask "[]"]
    by (auto simp: forward modules_def)
qed (simp_all add: slices_of_ten)

theorem checkpointed_encoder_chunks_witness:
  "(0 :: nat) < 10
   \<and> (\<exists>kernels. enc_layer example_kernel_encoder = DeepSpeedTransformerLayers kernels
          \<and> length kernels = 10
          \<and> checkpoint_loop example_torch (map DeepSpeedTransformerLayer kernels) 0
               (Tensor [[[5, 5]]]) [[[[0]]]] []
             = Inr (Tensor [[[15, 15]]],
                    [\<lparr>unit_start = 0, unit_stop = 4,
                      unit_hidden_states = Tensor [[[5, 5]]],
                      unit_attention_mask = [[[[0]]]]\<rparr>,
                     \<lparr>unit_start = 4, unit_stop = 8,
                      unit_hidden_states = Tensor [[[9, 9]]],
                      unit_attention_mask = [[[[0]]]]\<rparr>,
                     \<lparr>unit_start = 8, unit_stop = 12,
                      unit_hidden_states = Tensor [[[13, 13]]],
                      unit_attention_mask = [[[[0]]]]\<rparr>]))
   \<and> length (modules (enc_layer example_kernel_encoder)) = 10
   \<and> length (py_slice (modules (enc_layer example_kernel_encoder)) 8 12) = 2
   \<and> RobertaEncoder_forward example_torch example_kernel_encoder [[[5, 5]]] [[[[0]]]]
        None None None True True False
     = Inr ([Tensor [[[0, 0]]]], None)
   \<and> (\<exists>rest. enc_layer example_default_encoder
               = RobertaLayers (example_layer # example_layer # rest))
   \<and> (\<exists>e. RobertaEncoder_forward example_torch example_default_encoder [[[5, 5]]] [[[[0]]]]
             None None None True True False = Inl e)
   \<and> RobertaEncoder_forward example_torch example_default_encoder [[[5, 5]]] [[[[0]]]]
       None None None True True False
     = Inl NotATensor
   \<and> RobertaEncoder_forward example_torch example_default_encoder [[[5, 5]]] [[[[0]]]]
       None None None True False False
     = Inr (replicate 10 (Tensor [[[5, 5]]]), None)"
proof -
  let ?kernels = "[example_kernel, example_kernel, example_kernel, example_kernel,
                   example_kernel, example_kernel, example_kernel, example_kernel,
                   example_kernel, example_kernel]"
  let ?rest = "[example_layer, example_layer, example_layer, example_layer, example_layer,
                example_layer, example_layer, example_layer]"
  note kernel = checkpointed_encoder_chunks
    [where num_layers = 10 and rt = example_torch and kernels = ?kernels
       and hidden_states = "[[[5, 5]]]" and attention_mask = "[[[[0]]]]"
       and layers = "modules (enc_layer example_kernel_encoder)"
       and x = "Tensor [[[5, 5]]]" and m = example_kernel_encoder
       and ngram_hs = None and pm = None and nm = None and all_layers = True and oa = False
       and a = example_layer and b = example_layer and rest = ?rest]
  note plain = checkpointed_encoder_chunks
    [where num_layers = 10 and rt = example_torch and kernels = ?kernels
       and hidden_states = "[[[5, 5]]]" and attention_mask = "[[[[0]]]]"
       and layers = "modules (enc_layer example_default_encoder)"
       and x = "Tensor [[[5, 5]]]" and m = example_default_encoder
       and ngram_hs = None and pm = None and nm = None and all_layers = True and oa = False
       and a = example_layer and b = example_layer and rest = ?rest]
  have kernels: "enc_layer example_kernel_encoder = DeepSpeedTransformerLayers ?kernels"
    by (simp add: example_kernel_encoder_def)
  have layers: "enc_layer example_default_encoder
                = RobertaLayers (example_layer # example_layer # ?rest)"
    by (simp add: example_default_encoder_def)
  have ten: "length ?kernels = 10"
    by simp
  have "length ?kernels = 10 \<longrightarrow>
        checkpoint_loop example_torch (map DeepSpeedTransformerLayer ?kernels) 0
          (Tensor [[[5, 5]]]) [[[[0]]]] []
        = Inr (Tensor (foldl (\<lambda>h f. f h [[[[0]]]]) [[[5, 5]]] ?kernels),
               [\<lparr>unit_start = 0, unit_stop = 4,
                 unit_hidden_states = Tensor [[[5, 5]]],
                 unit_attention_mask = [[[[0]]]]\<rparr>,
                \<lparr>unit_start = 4, unit_stop = 8,
                 unit_hidden_states =
                   Tensor (foldl (\<lambda>h f. f h [[[[0]]]]) [[[5, 5]]] (take 4 ?kernels)),
                 unit_attention_mask = [[[[0]]]]\<rparr>,
                \<lparr>unit_start = 8, unit_stop = 12,
                 unit_hidden_states =
                   Tensor (foldl (\<lambda>h f. f h [[[[0]]]]) [[[5, 5]]] (take 8 ?kernels)),
                 unit_attention_mask = [[[[0]]]]\<rparr>])"
    using kernel by (elim conjE)
  then have trace: "checkpoint_loop example_torch (map DeepSpeedTransformerLayer ?kernels) 0
               (Tensor [[[5, 5]]]) [[[[0]]]] []
             = Inr (Tensor [[[15, 15]]],
                    [\<lparr>unit_start = 0, unit_stop = 4,
                      unit_hidden_states = Tensor [[[5, 5]]],
                      unit_attention_mask = [[[[0]]]]\<rparr>,
                     \<lparr>unit_start = 4, unit_stop = 8,
                      unit_hidden_states = Tensor [[[9, 9]]],
                      unit_attention_mask = [[[[0]]]]\<rparr>,
                     \<lparr>unit_start = 8, unit_stop = 12,
                      unit_hidden_states = Tensor [[[13, 13]]],
                      unit_attention_mask = [[[[0]]]]\<rparr>])"
    by (simp add: example_kernel_def)
  have "length (modules (enc_layer example_kernel_encoder)) = 10 \<longrightarrow>
        length (py_slice (modules (enc_layer example_kernel_encoder)) 0 4) = 4
        \<and> length (py_slice (modules (enc_layer example_kernel_encoder)) 4 8) = 4
        \<and> length (py_slice (modules (enc_layer example_kernel_encoder)) 8 12) = 2
        \<and> py_slice (modules (enc_layer example_kernel_encoder)) 0 4
            @ py_slice (modules (enc_layer example_kernel_encoder)) 4 8
            @ py_slice (modules (enc_layer example_kernel_encoder)) 8 12
          = modules (enc_layer example_kernel_encoder)"
    using kernel by (elim conjE)
  moreover have count: "length (modules (enc_layer example_kernel_encoder)) = 10"
    by (simp add: kernels modules_def)
  ultimately have slice: "length (py_slice (modules (enc_layer example_kernel_encoder)) 8 12) = 2"
    by (elim impE conjE) assumption+
  have "enc_layer example_kernel_encoder = DeepSpeedTransformerLayers ?kernels \<longrightarrow>
        RobertaEncoder_forward example_torch example_kernel_encoder [[[5, 5]]] [[[[0]]]]
          None None None True True False
        = bindE (final_layer_norm example_kernel_encoder
                   (Tensor (foldl (\<lambda>h f. f h [[[[0]]]]) [[[5, 5]]] ?kernels)))
            (\<lambda>h'. Inr ([h'], if False then Some [] else None))"
    using kernel by (elim conjE)
  with kernels have "RobertaEncoder_forward example_torch example_kernel_encoder [[[5, 5]]]
          [[[[0]]]] None None None True True False
        = bindE (final_layer_norm example_kernel_encoder
                   (Tensor (foldl (\<lambda>h f. f h [[[[0]]]]) [[[5, 5]]] ?kernels)))
            (\<lambda>h'. Inr ([h'], if False then Some [] else None))"
    by (elim impE) assumption+
  then have forward: "RobertaEncoder_forward example_torch example_kernel_encoder [[[5, 5]]]
          [[[[0]]]] None None None True True False = Inr ([Tensor [[[0, 0]]]], None)"
    by (simp add: example_kernel_def final_layer_norm_def example_kernel_encoder_def
        example_encoder_def example_config_def str_in_pre_pre example_norm_constant_row)
  have "enc_layer example_default_encoder
          = RobertaLayers (example_layer # example_layer # ?rest) \<longrightarrow>
        (\<exists>e. RobertaEncoder_forward example_torch example_default_encoder [[[5, 5]]] [[[[0]]]]
               None None None True True False = Inl e)"
    using plain by (elim conjE)
  with layers have fails: "\<exists>e. RobertaEncoder_forward example_torch example_default_encoder
      [[[5, 5]]] [[[[0]]]] None None None True True False = Inl e"
    by (elim impE) assumption+
  from kernels ten trace have first: "\<exists>kernels.
      enc_layer example_kernel_encoder = DeepSpeedTransformerLayers kernels
      \<and> length kernels = 10
      \<and> checkpoint_loop example_torch (map DeepSpeedTransformerLayer kernels) 0
           (Tensor [[[5, 5]]]) [[[[0]]]] []
         = Inr (Tensor [[[15, 15]]],
                [\<lparr>unit_start = 0, unit_stop = 4,
                  unit_hidden_states = Tensor [[[5, 5]]],
                  unit_attention_mask = [[[[0]]]]\<rparr>,
                 \<lparr>unit_start = 4, unit_stop = 8,
                  unit_hidden_states = Tensor [[[9, 9]]],
                  unit_attention_mask = [[[[0]]]]\<rparr>,
                 \<lparr>unit_start = 8, unit_stop = 12,
                  unit_hidden_states = Tensor [[[13, 13]]],
                  unit_attention_mask = [[[[0]]]]\<rparr>])"
    by blast
  from layers have second: "\<exists>rest. enc_layer example_default_encoder
      = RobertaLayers (example_layer # example_layer # rest)"
    by blast
  from first count slice forward second fails example_default_encoder_runs show ?thesis
    by (simp only: simp_thms)
qed

end
